theory Spec2Isabelle
  imports Complex_Main
begin

section \<open>The JavaScript values the gateway computes with\<close>

text \<open>
  A JavaScript string is a sequence of UTF-16 code units; a code unit is modelled as a
  natural number. String literals of the source are written \<open>js ''...''\<close>.
\<close>

type_synonym js_string = "nat list"

definition js :: "string \<Rightarrow> js_string" where
  "js s = map of_char s"

text \<open>
  A JavaScript number: a finite value, the two infinities, or NaN. A finite value is
  the rational that the IEEE-754 double stands for; the two zeros are one value, which
  no operation modelled here tells apart.
\<close>

datatype js_number = Fin rat | PInf | NInf | NaN

text \<open>
  The double nearest to a rational, ties to the even significand: a significand of 53
  bits above the exponent -1022, multiples of \<open>2^-1074\<close> below it, and an infinity
  from \<open>2^1024 - 2^970\<close> on.
\<close>

function bit_length :: "int \<Rightarrow> int" where
  "bit_length n = (if n \<le> 0 then 0 else 1 + bit_length (n div 2))"
  by auto

termination
  by (relation "measure nat") auto

declare bit_length.simps [simp del]

definition pow2 :: "int \<Rightarrow> rat" where
  "pow2 e = (if e < 0 then 1 / 2 ^ nat (- e) else 2 ^ nat e)"

text \<open>The exponent of a positive rational: the largest \<open>e\<close> with \<open>2^e \<le> a\<close>.\<close>

definition ilog2 :: "rat \<Rightarrow> int" where
  "ilog2 a =
     (let k = bit_length (fst (quotient_of a)) - bit_length (snd (quotient_of a))
      in if pow2 k \<le> a then k else k - 1)"

definition round_half_even :: "rat \<Rightarrow> int" where
  "round_half_even x =
     (let f = \<lfloor>x\<rfloor>; d = x - of_int f
      in if d < 1 / 2 then f
         else if 1 / 2 < d then f + 1
         else if even f then f else f + 1)"

definition to_double :: "rat \<Rightarrow> js_number" where
  "to_double r =
     (if r = 0 then Fin 0
      else (let a = \<bar>r\<bar>;
                e = max (ilog2 a) (- 1022);
                q = pow2 (e - 52);
                v = of_int (round_half_even (a / q)) * q
            in if pow2 1024 \<le> v then (if r < 0 then NInf else PInf)
               else Fin (if r < 0 then - v else v)))"

text \<open>\<open>a > b\<close> and \<open>a >= b\<close> of JavaScript: every comparison with NaN is false.\<close>

fun js_gt :: "js_number \<Rightarrow> js_number \<Rightarrow> bool" where
  "js_gt NaN _ = False"
| "js_gt _ NaN = False"
| "js_gt (Fin a) (Fin b) = (a > b)"
| "js_gt PInf PInf = False"
| "js_gt PInf _ = True"
| "js_gt _ PInf = False"
| "js_gt NInf _ = False"
| "js_gt (Fin a) NInf = True"

fun js_ge :: "js_number \<Rightarrow> js_number \<Rightarrow> bool" where
  "js_ge NaN _ = False"
| "js_ge _ NaN = False"
| "js_ge (Fin a) (Fin b) = (a \<ge> b)"
| "js_ge PInf _ = True"
| "js_ge _ NInf = True"
| "js_ge NInf _ = False"
| "js_ge (Fin a) PInf = False"

text \<open>\<open>a + b\<close> and \<open>a - b\<close> on numbers: the exact result, rounded.\<close>

fun js_add :: "js_number \<Rightarrow> js_number \<Rightarrow> js_number" where
  "js_add NaN _ = NaN"
| "js_add _ NaN = NaN"
| "js_add (Fin a) (Fin b) = to_double (a + b)"
| "js_add PInf NInf = NaN"
| "js_add NInf PInf = NaN"
| "js_add PInf _ = PInf"
| "js_add _ PInf = PInf"
| "js_add NInf _ = NInf"
| "js_add _ NInf = NInf"

fun js_neg :: "js_number \<Rightarrow> js_number" where
  "js_neg NaN = NaN"
| "js_neg (Fin a) = Fin (- a)"
| "js_neg PInf = NInf"
| "js_neg NInf = PInf"

definition js_sub :: "js_number \<Rightarrow> js_number \<Rightarrow> js_number" where
  "js_sub a b = js_add a (js_neg b)"

text \<open>The exceptions that the modelled code can raise.\<close>

datatype js_error =
  TypeError
| InvalidCharacterError
| SyntaxError
| NetworkError
| InvalidExpirationTtl
| Error js_string

text \<open>
  A JavaScript value as the code meets it: the result of \<open>response.json()\<close> and
  \<open>JSON.parse\<close> (typed \<open>any\<close> in the source), and \<open>undefined\<close>. An object is the
  list of its own properties in insertion order.
\<close>

datatype js_value =
  JUndefined
| JNull
| JBool bool
| JNum js_number
| JStr js_string
| JArr "js_value list"
| JObj "(js_string \<times> js_value) list"

text \<open>ToBoolean: what \<open>!v\<close>, \<open>v || w\<close> and \<open>v ? a : b\<close> test.\<close>

fun truthy :: "js_value \<Rightarrow> bool" where
  "truthy JUndefined = False"
| "truthy JNull = False"
| "truthy (JBool b) = b"
| "truthy (JNum (Fin r)) = (r \<noteq> 0)"
| "truthy (JNum NaN) = False"
| "truthy (JNum _) = True"
| "truthy (JStr s) = (s \<noteq> [])"
| "truthy (JArr _) = True"
| "truthy (JObj _) = True"

definition js_or :: "js_value \<Rightarrow> js_value \<Rightarrow> js_value" where
  "js_or a b = (if truthy a then a else b)"

text \<open>
  Property access \<open>v.k\<close>. It raises TypeError on \<open>undefined\<close> and \<open>null\<close>. On an object
  it is the own property or \<open>undefined\<close>; \<open>length\<close> is the only inherited or built-in
  property among the names the source reads, so every other name is \<open>undefined\<close> on a
  string, an array, a number or a boolean.
\<close>

fun get_prop :: "js_value \<Rightarrow> js_string \<Rightarrow> js_error + js_value" where
  "get_prop JUndefined k = Inl TypeError"
| "get_prop JNull k = Inl TypeError"
| "get_prop (JObj kvs) k = Inr (case map_of kvs k of None \<Rightarrow> JUndefined | Some v \<Rightarrow> v)"
| "get_prop (JArr xs) k =
     Inr (if k = js ''length'' then JNum (Fin (of_nat (length xs))) else JUndefined)"
| "get_prop (JStr s) k =
     Inr (if k = js ''length'' then JNum (Fin (of_nat (length s))) else JUndefined)"
| "get_prop _ k = Inr JUndefined"

text \<open>
  ToPrimitive of an array or an object that \<open>JSON.parse\<close> built, as ToString,
  ToNumber and ToPropertyKey apply it. An object converts through
  \<open>Object.prototype.toString\<close>, unless it has an own property \<open>toString\<close>: the value
  of that property is no function and is passed over, \<open>Object.prototype.valueOf\<close> gives
  back the object, and the conversion raises TypeError. An array converts by joining the
  strings of its elements, and raises TypeError when the conversion of an element does.
\<close>

fun no_primitive :: "js_value \<Rightarrow> bool"
  and no_primitive_elements :: "js_value list \<Rightarrow> bool" where
  "no_primitive (JObj kvs) = (js ''toString'' \<in> set (map fst kvs))"
| "no_primitive (JArr xs) = no_primitive_elements xs"
| "no_primitive JUndefined = False"
| "no_primitive JNull = False"
| "no_primitive (JBool b) = False"
| "no_primitive (JNum n) = False"
| "no_primitive (JStr s) = False"
| "no_primitive_elements [] = False"
| "no_primitive_elements (x # xs) = (no_primitive x \<or> no_primitive_elements xs)"

section \<open>Numbers and strings\<close>

text \<open>The decimal digits of a natural number, as \<open>String(n)\<close> prints them.\<close>

fun decimal :: "nat \<Rightarrow> js_string" where
  "decimal n = (if n < 10 then [48 + n] else decimal (n div 10) @ [48 + n mod 10])"

declare decimal.simps [simp del]

text \<open>
  \<open>String(n)\<close>: the decimal digits of an integral number below \<open>10^21\<close> in absolute
  value, \<open>NaN\<close>, \<open>Infinity\<close>, \<open>-Infinity\<close>. The digits that the platform prints for
  any other finite number are a parameter, \<open>fmt\<close>.
\<close>

definition is_integral :: "rat \<Rightarrow> bool" where
  "is_integral r = (r = of_int \<lfloor>r\<rfloor>)"

definition number_to_string :: "(rat \<Rightarrow> js_string) \<Rightarrow> js_number \<Rightarrow> js_string" where
  "number_to_string fmt n =
     (case n of
        NaN \<Rightarrow> js ''NaN''
      | PInf \<Rightarrow> js ''Infinity''
      | NInf \<Rightarrow> js ''-Infinity''
      | Fin r \<Rightarrow>
          (if is_integral r \<and> \<bar>r\<bar> < 10 ^ 21
           then (if r < 0 then 45 # decimal (nat (- \<lfloor>r\<rfloor>)) else decimal (nat \<lfloor>r\<rfloor>))
           else fmt r))"

text \<open>\<open>s.padStart(n, '0')\<close>.\<close>

definition padStart0 :: "nat \<Rightarrow> js_string \<Rightarrow> js_string" where
  "padStart0 n s = replicate (n - length s) 48 @ s"

text \<open>White space as \<open>parseInt\<close>, \<open>Number\<close> and \<open>trim\<close> strip it.\<close>

definition is_js_whitespace :: "nat \<Rightarrow> bool" where
  "is_js_whitespace c =
     (c = 9 \<or> c = 10 \<or> c = 11 \<or> c = 12 \<or> c = 13 \<or> c = 32 \<or> c = 160 \<or> c = 5760
      \<or> (8192 \<le> c \<and> c \<le> 8202) \<or> c = 8232 \<or> c = 8233 \<or> c = 8239 \<or> c = 8287
      \<or> c = 12288 \<or> c = 65279)"

definition is_digit :: "nat \<Rightarrow> bool" where
  "is_digit c = (48 \<le> c \<and> c \<le> 57)"

definition digits_value :: "nat \<Rightarrow> nat list \<Rightarrow> nat" where
  "digits_value base ds = foldl (\<lambda>a d. a * base + d) 0 ds"

definition decimal_value :: "js_string \<Rightarrow> nat" where
  "decimal_value ds = digits_value 10 (map (\<lambda>c. c - 48) ds)"

text \<open>\<open>parseInt(s, 10)\<close>: leading white space, a sign, then the longest run of digits.\<close>

definition parseInt10 :: "js_string \<Rightarrow> js_number" where
  "parseInt10 s =
     (let t = dropWhile is_js_whitespace s;
          neg = (t \<noteq> [] \<and> hd t = 45);
          u = (if t \<noteq> [] \<and> (hd t = 45 \<or> hd t = 43) then tl t else t);
          ds = takeWhile is_digit u
      in if ds = [] then NaN
         else to_double (of_int (if neg then - int (decimal_value ds) else int (decimal_value ds))))"

text \<open>
  ToNumber of a string (StringToNumber): white space is trimmed, the empty string is 0,
  then a signed decimal literal, \<open>Infinity\<close>, or an unsigned binary, octal or
  hexadecimal literal; everything else is NaN.
\<close>

definition hex_digit :: "nat \<Rightarrow> nat option" where
  "hex_digit c =
     (if 48 \<le> c \<and> c \<le> 57 then Some (c - 48)
      else if 97 \<le> c \<and> c \<le> 102 then Some (c - 87)
      else if 65 \<le> c \<and> c \<le> 70 then Some (c - 55)
      else None)"

definition radix_literal :: "nat \<Rightarrow> js_string \<Rightarrow> js_number" where
  "radix_literal base ds =
     (if ds \<noteq> [] \<and> list_all (\<lambda>c. case hex_digit c of None \<Rightarrow> False | Some d \<Rightarrow> d < base) ds
      then to_double (of_nat (digits_value base (map (\<lambda>c. the (hex_digit c)) ds)))
      else NaN)"

definition exponent_part :: "js_string \<Rightarrow> int option" where
  "exponent_part r =
     (case r of
        [] \<Rightarrow> Some 0
      | c # r1 \<Rightarrow>
          (if c = 101 \<or> c = 69 then
             (let neg = (r1 \<noteq> [] \<and> hd r1 = 45);
                  ds = (if r1 \<noteq> [] \<and> (hd r1 = 45 \<or> hd r1 = 43) then tl r1 else r1)
              in if ds \<noteq> [] \<and> list_all is_digit ds
                 then Some (if neg then - int (decimal_value ds) else int (decimal_value ds))
                 else None)
           else None))"

definition scale10 :: "rat \<Rightarrow> int \<Rightarrow> rat" where
  "scale10 r e = (if e < 0 then r / 10 ^ nat (- e) else r * 10 ^ nat e)"

definition unsigned_decimal :: "js_string \<Rightarrow> rat option" where
  "unsigned_decimal u =
     (let ip = takeWhile is_digit u;
          r1 = dropWhile is_digit u;
          dot = (r1 \<noteq> [] \<and> hd r1 = 46);
          fp = (if dot then takeWhile is_digit (tl r1) else []);
          r2 = (if dot then dropWhile is_digit (tl r1) else r1)
      in if ip = [] \<and> fp = [] then None
         else (case exponent_part r2 of
                 None \<Rightarrow> None
               | Some e \<Rightarrow>
                   Some (scale10 (of_nat (decimal_value ip)
                                  + of_nat (decimal_value fp) / 10 ^ length fp) e)))"

definition trim :: "js_string \<Rightarrow> js_string" where
  "trim s = rev (dropWhile is_js_whitespace (rev (dropWhile is_js_whitespace s)))"

definition string_to_number :: "js_string \<Rightarrow> js_number" where
  "string_to_number s =
     (let t = trim s in
      if t = [] then Fin 0
      else if take 2 t = js ''0x'' \<or> take 2 t = js ''0X'' then radix_literal 16 (drop 2 t)
      else if take 2 t = js ''0o'' \<or> take 2 t = js ''0O'' then radix_literal 8 (drop 2 t)
      else if take 2 t = js ''0b'' \<or> take 2 t = js ''0B'' then radix_literal 2 (drop 2 t)
      else
        (let neg = (hd t = 45);
             u = (if hd t = 45 \<or> hd t = 43 then tl t else t)
         in if u = js ''Infinity'' then (if neg then NInf else PInf)
            else (case unsigned_decimal u of
                    None \<Rightarrow> NaN
                  | Some r \<Rightarrow> to_double (if neg then - r else r))))"

text \<open>
  ToNumber of a value whose conversion to a primitive does not raise. An array or object
  is first converted to a string (\<open>Array.prototype.join\<close>, \<open>[object Object]\<close>): an
  array of two or more elements gives a string with a comma, hence NaN; the empty array
  gives the empty string, hence 0; a one-element array gives what its element's string
  gives.
\<close>

fun number_value :: "js_value \<Rightarrow> js_number" where
  "number_value JUndefined = NaN"
| "number_value JNull = Fin 0"
| "number_value (JBool b) = Fin (if b then 1 else 0)"
| "number_value (JNum n) = n"
| "number_value (JStr s) = string_to_number s"
| "number_value (JArr []) = Fin 0"
| "number_value (JArr [v]) =
     (case v of
        JUndefined \<Rightarrow> Fin 0
      | JNull \<Rightarrow> Fin 0
      | JBool b \<Rightarrow> NaN
      | _ \<Rightarrow> number_value v)"
| "number_value (JArr (v # w # vs)) = NaN"
| "number_value (JObj kvs) = NaN"

text \<open>ToNumber: TypeError when the conversion to a primitive raises.\<close>

definition to_number :: "js_value \<Rightarrow> js_error + js_number" where
  "to_number v = (if no_primitive v then Inl TypeError else Inr (number_value v))"

text \<open>
  ToString of a value whose conversion to a primitive does not raise. An array is joined
  with commas, \<open>null\<close> and \<open>undefined\<close> elements giving the empty string.
\<close>

fun string_value :: "(rat \<Rightarrow> js_string) \<Rightarrow> js_value \<Rightarrow> js_string"
  and join_strings :: "(rat \<Rightarrow> js_string) \<Rightarrow> js_value list \<Rightarrow> js_string" where
  "string_value fmt JUndefined = js ''undefined''"
| "string_value fmt JNull = js ''null''"
| "string_value fmt (JBool b) = (if b then js ''true'' else js ''false'')"
| "string_value fmt (JNum n) = number_to_string fmt n"
| "string_value fmt (JStr s) = s"
| "string_value fmt (JArr xs) = join_strings fmt xs"
| "string_value fmt (JObj kvs) = js ''[object Object]''"
| "join_strings fmt [] = []"
| "join_strings fmt (x # xs) =
     (case x of JUndefined \<Rightarrow> [] | JNull \<Rightarrow> [] | _ \<Rightarrow> string_value fmt x)
     @ (if xs = [] then [] else 44 # join_strings fmt xs)"

text \<open>
  ToString, as a template literal, a property key and the URL constructor apply it:
  TypeError when the conversion to a primitive raises.
\<close>

definition to_string :: "(rat \<Rightarrow> js_string) \<Rightarrow> js_value \<Rightarrow> js_error + js_string" where
  "to_string fmt v = (if no_primitive v then Inl TypeError else Inr (string_value fmt v))"

section \<open>Subscription plans (plans.ts)\<close>

text \<open>\<open>apps\<close> is a number or the string 'unlimited' (\<open>None\<close>).\<close>

record PlanLimits =
  daily :: int
  monthly :: int
  apps :: "int option"

text \<open>
  \<open>PlanType\<close> is a string at run time: the plan read from the developers table is cast,
  not checked.
\<close>

type_synonym PlanType = js_string

definition PLAN_CONFIG :: "PlanType \<Rightarrow> PlanLimits option" where
  "PLAN_CONFIG plan =
     (if plan = js ''free'' then Some \<lparr>daily = 200, monthly = 6000, apps = Some 1\<rparr>
      else if plan = js ''pro'' then Some \<lparr>daily = 5000, monthly = 150000, apps = Some 10\<rparr>
      else if plan = js ''business'' then Some \<lparr>daily = 50000, monthly = 1500000, apps = None\<rparr>
      else if plan = js ''enterprise'' then Some \<lparr>daily = 100000, monthly = 3000000, apps = None\<rparr>
      else None)"

text \<open>\<open>Array.prototype.indexOf\<close>: the first index of the element, or -1.\<close>

fun indexOf :: "'a list \<Rightarrow> 'a \<Rightarrow> int" where
  "indexOf [] x = - 1"
| "indexOf (y # ys) x =
     (if y = x then 0
      else (let i = indexOf ys x in if i = - 1 then - 1 else i + 1))"

definition hierarchy :: "PlanType list" where
  "hierarchy = [js ''free'', js ''pro'', js ''business'', js ''enterprise'']"

definition getRecommendedPlan :: "PlanType \<Rightarrow> PlanType option" where
  "getRecommendedPlan currentPlan =
     (let currentIndex = indexOf hierarchy currentPlan in
      if currentIndex = - 1 \<or> currentIndex = int (length hierarchy) - 1 then None
      else Some (hierarchy ! nat (currentIndex + 1)))"

text \<open>
  \<open>PLAN_CONFIG\<close> is an object literal: indexed by a name that is none of its four keys
  it gives \<open>undefined\<close>, except for the names of the members of \<open>Object.prototype\<close>,
  which it inherits. Such a member is a function or an object; its properties \<open>daily\<close>,
  \<open>monthly\<close> and \<open>apps\<close> are \<open>undefined\<close>, and every comparison with them is false.
\<close>

definition Object_prototype_member :: "js_string \<Rightarrow> bool" where
  "Object_prototype_member name =
     (name \<in> set [js ''constructor'', js ''__defineGetter__'', js ''__defineSetter__'',
                   js ''hasOwnProperty'', js ''__lookupGetter__'', js ''__lookupSetter__'',
                   js ''isPrototypeOf'', js ''propertyIsEnumerable'', js ''toString'',
                   js ''valueOf'', js ''__proto__'', js ''toLocaleString''])"

definition canCreateApp :: "PlanType \<Rightarrow> int \<Rightarrow> js_error + bool" where
  "canCreateApp plan currentAppCount =
     (case PLAN_CONFIG plan of
        None \<Rightarrow> if Object_prototype_member plan then Inr False else Inl TypeError
      | Some limits \<Rightarrow>
          (case apps limits of
             None \<Rightarrow> Inr True
           | Some n \<Rightarrow> Inr (currentAppCount < n)))"

section \<open>The clock and the key-value store\<close>

text \<open>
  A \<open>Date\<close> is its time value, the milliseconds since the epoch. The UTC calendar
  fields are computed from the day number in the proleptic Gregorian calendar.
\<close>

type_synonym Date = int

definition msPerDay :: int where
  "msPerDay = 86400000"

definition civil_from_days :: "int \<Rightarrow> int \<times> int \<times> int" where
  "civil_from_days z0 =
     (let z = z0 + 719468;
          era = z div 146097;
          doe = z - era * 146097;
          yoe = (doe - doe div 1460 + doe div 36524 - doe div 146096) div 365;
          doy = doe - (365 * yoe + yoe div 4 - yoe div 100);
          mp = (5 * doy + 2) div 153;
          d = doy - (153 * mp + 2) div 5 + 1;
          m = (if mp < 10 then mp + 3 else mp - 9);
          y = yoe + era * 400 + (if m \<le> 2 then 1 else 0)
      in (y, m, d))"

definition days_from_civil :: "int \<Rightarrow> int \<Rightarrow> int \<Rightarrow> int" where
  "days_from_civil y0 m d =
     (let y = (if m \<le> 2 then y0 - 1 else y0);
          era = y div 400;
          yoe = y - era * 400;
          doy = (153 * (if m > 2 then m - 3 else m + 9) + 2) div 5 + d - 1;
          doe = yoe * 365 + yoe div 4 - yoe div 100 + doy
      in era * 146097 + doe - 719468)"

definition getUTCFullYear :: "Date \<Rightarrow> int" where
  "getUTCFullYear t = fst (civil_from_days (t div msPerDay))"

text \<open>Months count from 0.\<close>

definition getUTCMonth :: "Date \<Rightarrow> int" where
  "getUTCMonth t = fst (snd (civil_from_days (t div msPerDay))) - 1"

definition getUTCDate :: "Date \<Rightarrow> int" where
  "getUTCDate t = snd (snd (civil_from_days (t div msPerDay)))"

text \<open>\<open>d.setUTCHours(23, 59, 59, 999)\<close>: the last millisecond of the UTC day of \<open>d\<close>.\<close>

definition setUTCHours_end :: "Date \<Rightarrow> Date" where
  "setUTCHours_end t = (t div msPerDay) * msPerDay + 86399999"

text \<open>
  \<open>new Date(year, month, 0, 23, 59, 59, 999)\<close>, in the local time of the runtime, which
  is UTC on the Workers platform: the month may be 12, day 0 is the day before the first
  of the month, and a year from 0 to 99 means 1900 + year.
\<close>

definition Date_last_ms_before_month :: "int \<Rightarrow> int \<Rightarrow> Date" where
  "Date_last_ms_before_month year month =
     (let yr = (if 0 \<le> year \<and> year \<le> 99 then 1900 + year else year);
          ym = yr + month div 12;
          mn = month mod 12
      in (days_from_civil ym (mn + 1) 1 - 1) * msPerDay + 86399999)"

definition int_to_string :: "int \<Rightarrow> js_string" where
  "int_to_string i = (if i < 0 then 45 # decimal (nat (- i)) else decimal (nat i))"

text \<open>
  A Workers KV namespace: the stored entries with the time to live each was written
  with, whether the store can be reached (every operation on an unreachable store
  rejects), and the text that the binding stores when \<open>put\<close> is given a value that is
  not a string (a parameter of the platform; a number is stored as its digits).
\<close>

record KVEntry =
  kv_value :: js_string
  expirationTtl :: "js_number option"

record KVNamespace =
  entries :: "js_string \<rightharpoonup> KVEntry"
  reachable :: bool
  text_of :: "js_value \<Rightarrow> js_error + js_string"

definition kv_get :: "KVNamespace \<Rightarrow> js_string \<Rightarrow> js_error + js_string option" where
  "kv_get kv key =
     (if reachable kv then Inr (map_option kv_value (entries kv key)) else Inl NetworkError)"

text \<open>\<open>put\<close> refuses a time to live that is not at least 60 seconds.\<close>

definition kv_put ::
  "KVNamespace \<Rightarrow> js_string \<Rightarrow> js_string \<Rightarrow> js_number option \<Rightarrow> js_error + KVNamespace" where
  "kv_put kv key v ttl =
     (if \<not> reachable kv then Inl NetworkError
      else if (case ttl of None \<Rightarrow> False | Some t \<Rightarrow> \<not> js_ge t (Fin 60))
      then Inl InvalidExpirationTtl
      else Inr (kv\<lparr>entries := (entries kv)(key \<mapsto> \<lparr>kv_value = v, expirationTtl = ttl\<rparr>)\<rparr>))"

text \<open>\<open>put\<close> of a value that the source does not know to be a string.\<close>

definition kv_put_value ::
  "KVNamespace \<Rightarrow> js_string \<Rightarrow> js_value \<Rightarrow> js_number option \<Rightarrow> js_error + KVNamespace" where
  "kv_put_value kv key v ttl =
     (case v of
        JStr s \<Rightarrow> kv_put kv key s ttl
      | _ \<Rightarrow> (case text_of kv v of Inl e \<Rightarrow> Inl e | Inr s \<Rightarrow> kv_put kv key s ttl))"

definition kv_delete :: "KVNamespace \<Rightarrow> js_string \<Rightarrow> js_error + KVNamespace" where
  "kv_delete kv key =
     (if reachable kv then Inr (kv\<lparr>entries := (entries kv)(key := None)\<rparr>)
      else Inl NetworkError)"

record Env =
  APP_CACHE :: KVNamespace
  MASTER_SUPABASE_URL :: js_string
  MASTER_SUPABASE_SERVICE_ROLE_KEY :: js_string

section \<open>The usage ledger (utils/usage.ts)\<close>

definition getCurrentDay :: "Date \<Rightarrow> js_string" where
  "getCurrentDay now =
     (let year = getUTCFullYear now;
          month = padStart0 2 (int_to_string (getUTCMonth now + 1));
          day = padStart0 2 (int_to_string (getUTCDate now))
      in int_to_string year @ month @ day)"

definition getCurrentMonth :: "Date \<Rightarrow> js_string" where
  "getCurrentMonth now =
     (let year = getUTCFullYear now;
          month = padStart0 2 (int_to_string (getUTCMonth now + 1))
      in int_to_string year @ month)"

definition getDailyUsageKey :: "Date \<Rightarrow> js_string \<Rightarrow> js_string" where
  "getDailyUsageKey now developerId =
     js ''usage:'' @ developerId @ js '':day:'' @ getCurrentDay now"

definition getMonthlyUsageKey :: "Date \<Rightarrow> js_string \<Rightarrow> js_string" where
  "getMonthlyUsageKey now developerId =
     js ''usage:'' @ developerId @ js '':month:'' @ getCurrentMonth now"

record UsageStats =
  daily :: js_number
  monthly :: js_number

text \<open>\<open>v ? parseInt(v, 10) : 0\<close> for a value read from the store (\<open>null\<close> when absent).\<close>

definition usage_count :: "js_string option \<Rightarrow> js_number" where
  "usage_count v =
     (case v of
        None \<Rightarrow> Fin 0
      | Some s \<Rightarrow> if s \<noteq> [] then parseInt10 s else Fin 0)"

definition getUsageStats :: "Env \<Rightarrow> Date \<Rightarrow> js_string \<Rightarrow> js_error + UsageStats" where
  "getUsageStats env now developerId =
     (let dailyKey = getDailyUsageKey now developerId;
          monthlyKey = getMonthlyUsageKey now developerId
      in case kv_get (APP_CACHE env) dailyKey of
           Inl e \<Rightarrow> Inl e
         | Inr dailyUsage \<Rightarrow>
             (case kv_get (APP_CACHE env) monthlyKey of
                Inl e \<Rightarrow> Inl e
              | Inr monthlyUsage \<Rightarrow>
                  Inr \<lparr>daily = usage_count dailyUsage, monthly = usage_count monthlyUsage\<rparr>))"

text \<open>\<open>Math.floor((a - b) / 1000)\<close> on time values.\<close>

definition ttl_seconds :: "Date \<Rightarrow> Date \<Rightarrow> js_number" where
  "ttl_seconds a b = Fin (of_int ((a - b) div 1000))"

text \<open>
  \<open>incrementUsage\<close>: the exception it throws, if any, and the environment after it.
  The two writes are started together (\<open>Promise.all\<close>): each is carried out or refused
  on its own, and the call throws when one of them is refused.
\<close>

definition incrementUsage ::
  "(rat \<Rightarrow> js_string) \<Rightarrow> Env \<Rightarrow> Date \<Rightarrow> js_string \<Rightarrow> js_error option \<times> Env" where
  "incrementUsage fmt env now developerId =
     (let dailyKey = getDailyUsageKey now developerId;
          monthlyKey = getMonthlyUsageKey now developerId
      in case getUsageStats env now developerId of
           Inl e \<Rightarrow> (Some e, env)
         | Inr stats \<Rightarrow>
             (let newDaily = js_add (daily stats) (Fin 1);
                  newMonthly = js_add (monthly stats) (Fin 1);
                  endOfDay = setUTCHours_end now;
                  dailyTTL = ttl_seconds endOfDay now;
                  endOfMonth = Date_last_ms_before_month (getUTCFullYear now) (getUTCMonth now + 1);
                  monthlyTTL = ttl_seconds endOfMonth now;
                  r1 = kv_put (APP_CACHE env) dailyKey (number_to_string fmt newDaily)
                         (Some dailyTTL);
                  kv1 = (case r1 of Inl e \<Rightarrow> APP_CACHE env | Inr kv \<Rightarrow> kv);
                  r2 = kv_put kv1 monthlyKey (number_to_string fmt newMonthly) (Some monthlyTTL);
                  kv2 = (case r2 of Inl e \<Rightarrow> kv1 | Inr kv \<Rightarrow> kv)
              in ((case r1 of
                     Inl e \<Rightarrow> Some e
                   | Inr kv \<Rightarrow> (case r2 of Inl e \<Rightarrow> Some e | Inr kv' \<Rightarrow> None)),
                  env\<lparr>APP_CACHE := kv2\<rparr>)))"

record LimitCheckResult =
  allowed :: bool
  reason :: "js_string option"
  required_plan :: "js_string option"
  current_usage :: "UsageStats option"

text \<open>\<open>getRecommendedPlan(plan) || undefined\<close>.\<close>

definition or_undefined :: "js_string option \<Rightarrow> js_string option" where
  "or_undefined p = (case p of None \<Rightarrow> None | Some s \<Rightarrow> if s \<noteq> [] then Some s else None)"

text \<open>
  \<open>getRecommendedPlan(plan) || undefined\<close> for the plan as a value: \<open>indexOf\<close> compares
  with \<open>===\<close>, so a value that is not a string is at no index.
\<close>

definition recommended_plan :: "js_value \<Rightarrow> js_string option" where
  "recommended_plan plan =
     (case plan of JStr p \<Rightarrow> or_undefined (getRecommendedPlan p) | _ \<Rightarrow> None)"

text \<open>
  The plan is the value that \<open>getDeveloperPlan\<close> returned (a cast, not a check, makes
  it a \<open>PlanType\<close>); \<open>PLAN_CONFIG[plan]\<close> converts it to a property key, which raises
  TypeError for a value without a primitive, before the usage is read. \<open>limits.daily\<close>
  raises TypeError when the key is not a member of \<open>PLAN_CONFIG\<close>; the usage has been
  read by then. For an inherited member both comparisons are false.
\<close>

definition checkLimits ::
  "(rat \<Rightarrow> js_string) \<Rightarrow> Env \<Rightarrow> Date \<Rightarrow> js_string \<Rightarrow> js_value
   \<Rightarrow> js_error + LimitCheckResult" where
  "checkLimits fmt env now developerId plan =
     (case to_string fmt plan of
        Inl e \<Rightarrow> Inl e
      | Inr key \<Rightarrow>
     (case getUsageStats env now developerId of
        Inl e \<Rightarrow> Inl e
      | Inr usage \<Rightarrow>
          (case PLAN_CONFIG key of
             None \<Rightarrow>
               if Object_prototype_member key then
                 Inr \<lparr>allowed = True,
                      reason = None,
                      required_plan = None,
                      current_usage = Some usage\<rparr>
               else Inl TypeError
           | Some limits \<Rightarrow>
               if js_ge (daily usage) (Fin (of_int (PlanLimits.daily limits))) then
                 Inr \<lparr>allowed = False,
                      reason = Some (js ''Daily limit exceeded''),
                      required_plan = recommended_plan plan,
                      current_usage = Some usage\<rparr>
               else if js_ge (monthly usage) (Fin (of_int (PlanLimits.monthly limits))) then
                 Inr \<lparr>allowed = False,
                      reason = Some (js ''Monthly limit exceeded''),
                      required_plan = recommended_plan plan,
                      current_usage = Some usage\<rparr>
               else
                 Inr \<lparr>allowed = True,
                      reason = None,
                      required_plan = None,
                      current_usage = Some usage\<rparr>)))"

section \<open>The network\<close>

text \<open>
  The outcome of a \<open>fetch\<close>: the promise rejects (network failure, timeout), or it
  resolves to a response with a status and a body; the body is what \<open>response.json()\<close>
  resolves to, \<open>None\<close> when that rejects.
\<close>

datatype fetch_result = FetchRejects | FetchResponse nat "js_value option"

definition response_ok :: "nat \<Rightarrow> bool" where
  "response_ok status = (200 \<le> status \<and> status \<le> 299)"

text \<open>Element access \<open>v[i]\<close>.\<close>

fun get_index :: "js_value \<Rightarrow> nat \<Rightarrow> js_error + js_value" where
  "get_index JUndefined i = Inl TypeError"
| "get_index JNull i = Inl TypeError"
| "get_index (JArr xs) i = Inr (if i < length xs then xs ! i else JUndefined)"
| "get_index (JStr s) i = Inr (if i < length s then JStr [s ! i] else JUndefined)"
| "get_index (JObj kvs) i = get_prop (JObj kvs) (decimal i)"
| "get_index _ i = Inr JUndefined"

section \<open>Plan resolution (utils/usage.ts, getDeveloperPlan)\<close>

definition plan_cache_key :: "js_string \<Rightarrow> js_string" where
  "plan_cache_key developerId = js ''developer:'' @ developerId @ js '':plan''"

definition developers_url :: "Env \<Rightarrow> js_string \<Rightarrow> js_string" where
  "developers_url env developerId =
     MASTER_SUPABASE_URL env @ js ''/rest/v1/developers?id=eq.'' @ developerId"

text \<open>
  The body of the \<open>try\<close> block: \<open>Some plan\<close> when it returns the plan, \<open>None\<close> when
  control falls out of it, \<open>Inl\<close> when it throws. The plan is the value of the row's
  \<open>plan\<close>, or 'free' when that is falsy; it is returned as it is.
\<close>

definition getDeveloperPlan_try ::
  "(js_string \<Rightarrow> fetch_result) \<Rightarrow> Env \<Rightarrow> js_string \<Rightarrow> js_error + (js_value option \<times> Env)" where
  "getDeveloperPlan_try fetch env developerId =
     (case fetch (developers_url env developerId) of
        FetchRejects \<Rightarrow> Inl NetworkError
      | FetchResponse status body \<Rightarrow>
          if response_ok status then
            (case body of
               None \<Rightarrow> Inl SyntaxError
             | Some developers \<Rightarrow>
                 (case get_prop developers (js ''length'') of
                    Inl e \<Rightarrow> Inl e
                  | Inr len \<Rightarrow>
                      (case to_number len of
                         Inl e \<Rightarrow> Inl e
                       | Inr n \<Rightarrow>
                      if js_gt n (Fin 0) then
                        (case get_index developers 0 of
                           Inl e \<Rightarrow> Inl e
                         | Inr row \<Rightarrow>
                             (case get_prop row (js ''plan'') of
                                Inl e \<Rightarrow> Inl e
                              | Inr p \<Rightarrow>
                                  (case kv_put_value (APP_CACHE env) (plan_cache_key developerId)
                                          (js_or p (JStr (js ''free''))) (Some (Fin 300)) of
                                     Inl e \<Rightarrow> Inl e
                                   | Inr kv \<Rightarrow>
                                       Inr (Some (js_or p (JStr (js ''free''))),
                                            env\<lparr>APP_CACHE := kv\<rparr>))))
                      else Inr (None, env))))
          else Inr (None, env))"

text \<open>\<open>cached && ['free', 'pro', 'business', 'enterprise'].includes(cached)\<close>.\<close>

definition cached_plan :: "js_string option \<Rightarrow> PlanType option" where
  "cached_plan cached =
     (case cached of
        None \<Rightarrow> None
      | Some c \<Rightarrow>
          if c \<noteq> [] \<and> c \<in> set [js ''free'', js ''pro'', js ''business'', js ''enterprise'']
          then Some c else None)"

definition getDeveloperPlan ::
  "(js_string \<Rightarrow> fetch_result) \<Rightarrow> Env \<Rightarrow> js_string \<Rightarrow> (js_error + js_value) \<times> Env" where
  "getDeveloperPlan fetch env developerId =
     (case kv_get (APP_CACHE env) (plan_cache_key developerId) of
        Inl e \<Rightarrow> (Inl e, env)
      | Inr cached \<Rightarrow>
          (case cached_plan cached of
             Some plan \<Rightarrow> (Inr (JStr plan), env)
           | None \<Rightarrow>
               (case getDeveloperPlan_try fetch env developerId of
                  Inr (Some plan, env') \<Rightarrow> (Inr plan, env')
                | _ \<Rightarrow> (Inr (JStr (js ''free'')), env))))"

section \<open>Provider adapters: normalizeUser (providers/*.ts)\<close>

text \<open>
  \<open>raw.k\<close> once \<open>raw\<close> is known not to be \<open>null\<close> or \<open>undefined\<close>: the property, or
  \<open>undefined\<close>.
\<close>

definition nullish :: "js_value \<Rightarrow> bool" where
  "nullish v = (v = JUndefined \<or> v = JNull)"

definition js_field :: "js_value \<Rightarrow> js_string \<Rightarrow> js_value" where
  "js_field v k = (case get_prop v k of Inl e \<Rightarrow> JUndefined | Inr x \<Rightarrow> x)"

text \<open>
  A normalized user is the object literal that normalizeUser returns: its keys in the
  order of the source, a key whose value is \<open>undefined\<close> included.
\<close>

type_synonym NormalizedUser = js_value

definition WeChat_normalizeUser :: "js_value \<Rightarrow> js_error + NormalizedUser" where
  "WeChat_normalizeUser raw =
     (if nullish raw then Inl TypeError
      else Inr (JObj
        [(js ''provider'', JStr (js ''wechat'')),
         (js ''openid'', js_field raw (js ''openid'')),
         (js ''unionid'', js_field raw (js ''unionid'')),
         (js ''nickname'', js_or (js_field raw (js ''nickname'')) (JStr [24494, 20449, 29992, 25143])),
         (js ''avatar'', js_field raw (js ''headimgurl'')),
         (js ''gender'',
            if js_field raw (js ''sex'') = JNum (Fin 1) then JStr (js ''male'')
            else if js_field raw (js ''sex'') = JNum (Fin 2) then JStr (js ''female'')
            else JStr (js ''unknown'')),
         (js ''raw'', raw)]))"

definition QQ_normalizeUser :: "js_value \<Rightarrow> js_error + NormalizedUser" where
  "QQ_normalizeUser raw =
     (if nullish raw then Inl TypeError
      else Inr (JObj
        [(js ''provider'', JStr (js ''qq'')),
         (js ''openid'', js_field raw (js ''openid'')),
         (js ''unionid'', js_field raw (js ''unionid'')),
         (js ''nickname'', js_or (js_field raw (js ''nickname'')) (JStr [81, 81, 29992, 25143])),
         (js ''avatar'',
            js_or (js_or (js_field raw (js ''figureurl_qq_2'')) (js_field raw (js ''figureurl_qq_1'')))
              (js_field raw (js ''figureurl''))),
         (js ''gender'',
            if js_field raw (js ''gender'') = JStr [30007] then JStr (js ''male'')
            else if js_field raw (js ''gender'') = JStr [22899] then JStr (js ''female'')
            else JStr (js ''unknown'')),
         (js ''raw'', raw)]))"

definition Douyin_normalizeUser :: "js_value \<Rightarrow> js_error + NormalizedUser" where
  "Douyin_normalizeUser raw =
     (if nullish raw then Inl TypeError
      else Inr (JObj
        [(js ''provider'', JStr (js ''douyin'')),
         (js ''openid'', js_or (js_field raw (js ''open_id'')) (js_field raw (js ''openid''))),
         (js ''unionid'', js_field raw (js ''union_id'')),
         (js ''nickname'', js_or (js_field raw (js ''nickname'')) (JStr [25238, 38899, 29992, 25143])),
         (js ''avatar'', js_field raw (js ''avatar'')),
         (js ''gender'',
            if js_field raw (js ''gender'') = JNum (Fin 1) then JStr (js ''male'')
            else if js_field raw (js ''gender'') = JNum (Fin 2) then JStr (js ''female'')
            else JStr (js ''unknown'')),
         (js ''raw'', raw)]))"

definition DingTalk_normalizeUser :: "js_value \<Rightarrow> js_error + NormalizedUser" where
  "DingTalk_normalizeUser raw =
     (if nullish raw then Inl TypeError
      else Inr (JObj
        [(js ''provider'', JStr (js ''dingtalk'')),
         (js ''openid'', js_or (js_field raw (js ''openId'')) (js_field raw (js ''unionId''))),
         (js ''unionid'', js_field raw (js ''unionId'')),
         (js ''nickname'',
            js_or (js_or (js_field raw (js ''nick'')) (js_field raw (js ''name'')))
              (JStr [38025, 38025, 29992, 25143])),
         (js ''avatar'', js_field raw (js ''avatarUrl'')),
         (js ''raw'', raw)]))"

definition Weibo_normalizeUser :: "js_value \<Rightarrow> js_error + NormalizedUser" where
  "Weibo_normalizeUser raw =
     (if nullish raw then Inl TypeError
      else Inr (JObj
        [(js ''provider'', JStr (js ''weibo'')),
         (js ''openid'', js_or (js_field raw (js ''id'')) (js_field raw (js ''idstr''))),
         (js ''nickname'', js_or (js_field raw (js ''screen_name'')) (JStr [24494, 21338, 29992, 25143])),
         (js ''avatar'',
            js_or (js_or (js_field raw (js ''avatar_large'')) (js_field raw (js ''avatar_hd'')))
              (js_field raw (js ''profile_image_url''))),
         (js ''gender'',
            if js_field raw (js ''gender'') = JStr (js ''m'') then JStr (js ''male'')
            else if js_field raw (js ''gender'') = JStr (js ''f'') then JStr (js ''female'')
            else JStr (js ''unknown'')),
         (js ''raw'', raw)]))"

text \<open>
  \<open>openid.slice(-4)\<close>: the last four code units of a string, the last four elements of
  an array; no other value has a \<open>slice\<close> method.
\<close>

fun slice_last4 :: "js_value \<Rightarrow> js_error + js_value" where
  "slice_last4 (JStr s) = Inr (JStr (drop (length s - 4) s))"
| "slice_last4 (JArr xs) = Inr (JArr (drop (length xs - 4) xs))"
| "slice_last4 _ = Inl TypeError"

text \<open>The template literal is evaluated only when \<open>raw.nick_name\<close> is falsy.\<close>

definition Alipay_nickname ::
  "(rat \<Rightarrow> js_string) \<Rightarrow> js_value \<Rightarrow> js_value \<Rightarrow> js_error + js_value" where
  "Alipay_nickname fmt raw openid =
     (if truthy (js_field raw (js ''nick_name'')) then Inr (js_field raw (js ''nick_name''))
      else (case slice_last4 openid of
              Inl e \<Rightarrow> Inl e
            | Inr t \<Rightarrow>
                (case to_string fmt t of
                   Inl e \<Rightarrow> Inl e
                 | Inr last4 \<Rightarrow> Inr (JStr ([25903, 20184, 23453, 29992, 25143] @ last4)))))"

definition Alipay_normalizeUser ::
  "(rat \<Rightarrow> js_string) \<Rightarrow> js_value \<Rightarrow> js_error + NormalizedUser" where
  "Alipay_normalizeUser fmt raw =
     (case get_prop raw (js ''user_id'') of
        Inl e \<Rightarrow> Inl e
      | Inr openid \<Rightarrow>
          (case Alipay_nickname fmt raw openid of
             Inl e \<Rightarrow> Inl e
           | Inr nickname \<Rightarrow>
               Inr (JObj
                 [(js ''provider'', JStr (js ''alipay'')),
                  (js ''openid'', openid),
                  (js ''nickname'', nickname),
                  (js ''avatar'', js_or (js_field raw (js ''avatar'')) (JStr [])),
                  (js ''gender'',
                     if js_field raw (js ''gender'') = JStr (js ''M'') then JStr (js ''male'')
                     else if js_field raw (js ''gender'') = JStr (js ''F'') then JStr (js ''female'')
                     else JUndefined),
                  (js ''raw'', raw)])))"

text \<open>The adapters of the registry, and the dispatch of \<open>provider.normalizeUser(raw)\<close>.\<close>

datatype OAuthProvider =
  WeChatProvider | QQProvider | DouyinProvider | DingTalkProvider | WeiboProvider | AlipayProvider

text \<open>
  Only the Alipay adapter converts a value to a string; \<open>fmt\<close> is the platform's
  printing of non-integral numbers.
\<close>

fun normalizeUser ::
  "(rat \<Rightarrow> js_string) \<Rightarrow> OAuthProvider \<Rightarrow> js_value \<Rightarrow> js_error + NormalizedUser" where
  "normalizeUser fmt WeChatProvider raw = WeChat_normalizeUser raw"
| "normalizeUser fmt QQProvider raw = QQ_normalizeUser raw"
| "normalizeUser fmt DouyinProvider raw = Douyin_normalizeUser raw"
| "normalizeUser fmt DingTalkProvider raw = DingTalk_normalizeUser raw"
| "normalizeUser fmt WeiboProvider raw = Weibo_normalizeUser raw"
| "normalizeUser fmt AlipayProvider raw = Alipay_normalizeUser fmt raw"

text \<open>
  A payload is an object, as the provider's documented response is. What the claim about
  normalizeUser asks of the result: a display name, and a gender that is not
  \<open>undefined\<close>.
\<close>

fun is_object :: "js_value \<Rightarrow> bool" where
  "is_object (JObj kvs) = True"
| "is_object _ = False"

definition has_display_name :: "NormalizedUser \<Rightarrow> bool" where
  "has_display_name u = truthy (js_field u (js ''nickname''))"

definition has_defined_gender :: "NormalizedUser \<Rightarrow> bool" where
  "has_defined_gender u = (js_field u (js ''gender'') \<noteq> JUndefined)"

section \<open>Base64: btoa and atob\<close>

text \<open>The base64 alphabet: the character of a 6-bit value, the value of a character.\<close>

definition b64_char :: "nat \<Rightarrow> nat" where
  "b64_char v =
     (if v < 26 then 65 + v
      else if v < 52 then 97 + (v - 26)
      else if v < 62 then 48 + (v - 52)
      else if v = 62 then 43
      else 47)"

definition b64_index :: "nat \<Rightarrow> nat option" where
  "b64_index c =
     (if 65 \<le> c \<and> c \<le> 90 then Some (c - 65)
      else if 97 \<le> c \<and> c \<le> 122 then Some (c - 97 + 26)
      else if 48 \<le> c \<and> c \<le> 57 then Some (c - 48 + 52)
      else if c = 43 then Some 62
      else if c = 47 then Some 63
      else None)"

text \<open>Three bytes are four 6-bit groups; a last group of one or two bytes is cut short.\<close>

fun sextets :: "nat list \<Rightarrow> nat list" where
  "sextets (a # b # c # r) =
     [a div 4, (a mod 4) * 16 + b div 16, (b mod 16) * 4 + c div 64, c mod 64] @ sextets r"
| "sextets [a, b] = [a div 4, (a mod 4) * 16 + b div 16, (b mod 16) * 4]"
| "sextets [a] = [a div 4, (a mod 4) * 16]"
| "sextets [] = []"

fun octets :: "nat list \<Rightarrow> nat list" where
  "octets (a # b # c # d # r) =
     [a * 4 + b div 16, (b mod 16) * 16 + c div 4, (c mod 4) * 64 + d] @ octets r"
| "octets [a, b, c] = [a * 4 + b div 16, (b mod 16) * 16 + c div 4]"
| "octets [a, b] = [a * 4 + b div 16]"
| "octets [a] = []"
| "octets [] = []"

text \<open>
  \<open>btoa\<close> raises InvalidCharacterError when a code unit is above 255; otherwise it
  encodes the code units as bytes and pads with \<open>=\<close> to a multiple of four characters.
\<close>

definition btoa :: "js_string \<Rightarrow> js_error + js_string" where
  "btoa s =
     (if list_ex (\<lambda>c. c > 255) s then Inl InvalidCharacterError
      else (let g = sextets s
            in Inr (map b64_char g @ replicate ((4 - length g mod 4) mod 4) 61)))"

text \<open>
  \<open>atob\<close> is the forgiving base64 decoding: ASCII white space is removed; when the
  length is then a multiple of four, one or two trailing \<open>=\<close> are removed; a length
  that leaves a remainder of one, or a character outside the alphabet, raises
  InvalidCharacterError.
\<close>

definition is_ascii_whitespace :: "nat \<Rightarrow> bool" where
  "is_ascii_whitespace c = (c = 9 \<or> c = 10 \<or> c = 12 \<or> c = 13 \<or> c = 32)"

definition strip_padding :: "js_string \<Rightarrow> js_string" where
  "strip_padding d =
     (if length d mod 4 = 0 then
        (if 2 \<le> length d \<and> drop (length d - 2) d = [61, 61] then take (length d - 2) d
         else if 1 \<le> length d \<and> drop (length d - 1) d = [61] then take (length d - 1) d
         else d)
      else d)"

definition atob :: "js_string \<Rightarrow> js_error + js_string" where
  "atob s =
     (let d = strip_padding (filter (\<lambda>c. \<not> is_ascii_whitespace c) s) in
      if length d mod 4 = 1 then Inl InvalidCharacterError
      else if list_ex (\<lambda>c. b64_index c = None) d then Inl InvalidCharacterError
      else Inr (octets (map (\<lambda>c. the (b64_index c)) d)))"

section \<open>JSON text: JSON.stringify and JSON.parse\<close>

definition hex_char :: "nat \<Rightarrow> nat" where
  "hex_char d = (if d < 10 then 48 + d else 87 + d)"

definition unicode_escape :: "nat \<Rightarrow> js_string" where
  "unicode_escape c =
     [92, 117, hex_char (c div 4096), hex_char ((c div 256) mod 16),
      hex_char ((c div 16) mod 16), hex_char (c mod 16)]"

definition is_high_surrogate :: "nat \<Rightarrow> bool" where
  "is_high_surrogate c = (55296 \<le> c \<and> c \<le> 56319)"

definition is_low_surrogate :: "nat \<Rightarrow> bool" where
  "is_low_surrogate c = (56320 \<le> c \<and> c \<le> 57343)"

text \<open>
  The escape of one code unit in a JSON string: the quote, the backslash, the control
  characters, and a surrogate that is not part of a pair; every other code unit stands
  for itself.
\<close>

definition JSON_escape :: "nat \<Rightarrow> js_string" where
  "JSON_escape c =
     (if c = 34 then [92, 34]
      else if c = 92 then [92, 92]
      else if c = 8 then [92, 98]
      else if c = 12 then [92, 102]
      else if c = 10 then [92, 110]
      else if c = 13 then [92, 114]
      else if c = 9 then [92, 116]
      else if c < 32 \<or> is_high_surrogate c \<or> is_low_surrogate c then unicode_escape c
      else [c])"

fun JSON_quote_body :: "js_string \<Rightarrow> js_string" where
  "JSON_quote_body [] = []"
| "JSON_quote_body [c] = JSON_escape c"
| "JSON_quote_body (c # d # cs) =
     (if is_high_surrogate c \<and> is_low_surrogate d then c # d # JSON_quote_body cs
      else JSON_escape c @ JSON_quote_body (d # cs))"

definition JSON_quote :: "js_string \<Rightarrow> js_string" where
  "JSON_quote s = 34 # JSON_quote_body s @ [34]"

text \<open>
  \<open>JSON.stringify\<close> of an object literal whose property values are strings and
  integral numbers, given as the list of its keys with the serialized values: no white
  space, the members in the order of the literal.
\<close>

fun JSON_members :: "(js_string \<times> js_string) list \<Rightarrow> js_string" where
  "JSON_members [] = []"
| "JSON_members [(k, v)] = JSON_quote k @ 58 # v"
| "JSON_members ((k, v) # m # ms) = JSON_quote k @ 58 # v @ 44 # JSON_members (m # ms)"

definition JSON_object :: "(js_string \<times> js_string) list \<Rightarrow> js_string" where
  "JSON_object ms = 123 # JSON_members ms @ [125]"

text \<open>The parser. White space of JSON text is space, tab, line feed and carriage return.\<close>

definition is_json_ws :: "nat \<Rightarrow> bool" where
  "is_json_ws c = (c = 32 \<or> c = 9 \<or> c = 10 \<or> c = 13)"

definition skip_ws :: "js_string \<Rightarrow> js_string" where
  "skip_ws s = dropWhile is_json_ws s"

definition unescape :: "nat \<Rightarrow> nat option" where
  "unescape e =
     (if e = 34 then Some 34
      else if e = 92 then Some 92
      else if e = 47 then Some 47
      else if e = 98 then Some 8
      else if e = 102 then Some 12
      else if e = 110 then Some 10
      else if e = 114 then Some 13
      else if e = 116 then Some 9
      else None)"

definition hex4 :: "nat \<Rightarrow> nat \<Rightarrow> nat \<Rightarrow> nat \<Rightarrow> nat option" where
  "hex4 h1 h2 h3 h4 =
     (case (hex_digit h1, hex_digit h2, hex_digit h3, hex_digit h4) of
        (Some a, Some b, Some c, Some d) \<Rightarrow> Some (((a * 16 + b) * 16 + c) * 16 + d)
      | _ \<Rightarrow> None)"

definition cons_char :: "nat \<Rightarrow> (js_string \<times> js_string) option \<Rightarrow> (js_string \<times> js_string) option" where
  "cons_char c r = (case r of None \<Rightarrow> None | Some (s, t) \<Rightarrow> Some (c # s, t))"

text \<open>
  The characters of a string after its opening quote, up to the closing quote: the
  string and the rest of the input.
\<close>

fun parse_string_body :: "js_string \<Rightarrow> (js_string \<times> js_string) option" where
  "parse_string_body [] = None"
| "parse_string_body (c # cs) =
     (if c = 34 then Some ([], cs)
      else if c = 92 then
        (case cs of
           [] \<Rightarrow> None
         | e # r \<Rightarrow>
             if e = 117 then
               (case r of
                  h1 # h2 # h3 # h4 # r' \<Rightarrow>
                    (case hex4 h1 h2 h3 h4 of
                       None \<Rightarrow> None
                     | Some u \<Rightarrow> cons_char u (parse_string_body r'))
                | _ \<Rightarrow> None)
             else (case unescape e of
                     None \<Rightarrow> None
                   | Some u \<Rightarrow> cons_char u (parse_string_body r)))
      else if c < 32 then None
      else cons_char c (parse_string_body cs))"

text \<open>
  A number: an optional minus, an integer part without a leading zero, an optional
  fraction, an optional exponent. The value is the double nearest to the decimal.
\<close>

definition parse_exponent :: "js_string \<Rightarrow> (int \<times> js_string) option" where
  "parse_exponent s =
     (if s \<noteq> [] \<and> (hd s = 101 \<or> hd s = 69) then
        (let r1 = tl s;
             neg = (r1 \<noteq> [] \<and> hd r1 = 45);
             r2 = (if r1 \<noteq> [] \<and> (hd r1 = 45 \<or> hd r1 = 43) then tl r1 else r1);
             ds = takeWhile is_digit r2
         in if ds = [] then None
            else Some (if neg then - int (decimal_value ds) else int (decimal_value ds),
                       dropWhile is_digit r2))
      else Some (0, s))"

definition parse_fraction :: "js_string \<Rightarrow> (rat \<times> js_string) option" where
  "parse_fraction s =
     (if s \<noteq> [] \<and> hd s = 46 then
        (let ds = takeWhile is_digit (tl s)
         in if ds = [] then None
            else Some (of_nat (decimal_value ds) / 10 ^ length ds, dropWhile is_digit (tl s)))
      else Some (0, s))"

definition parse_number :: "js_string \<Rightarrow> (js_number \<times> js_string) option" where
  "parse_number s =
     (let neg = (s \<noteq> [] \<and> hd s = 45);
          s1 = (if neg then tl s else s);
          ip = takeWhile is_digit s1
      in if ip = [] \<or> (hd ip = 48 \<and> length ip > 1) then None
         else (case parse_fraction (dropWhile is_digit s1) of
                 None \<Rightarrow> None
               | Some (f, s2) \<Rightarrow>
                   (case parse_exponent s2 of
                      None \<Rightarrow> None
                    | Some (e, s3) \<Rightarrow>
                        (let m = scale10 (of_nat (decimal_value ip) + f) e
                         in Some (to_double (if neg then - m else m), s3)))))"

text \<open>
  A property of an object being parsed: a repeated key keeps its place and takes the
  later value.
\<close>

definition obj_put :: "(js_string \<times> js_value) list \<Rightarrow> js_string \<Rightarrow> js_value \<Rightarrow> (js_string \<times> js_value) list" where
  "obj_put kvs k v =
     (if k \<in> set (map fst kvs)
      then map (\<lambda>(k', v'). if k' = k then (k', v) else (k', v')) kvs
      else kvs @ [(k, v)])"

text \<open>
  The recursive descent over values, array elements and object members. The first
  argument bounds the number of nested calls; \<open>JSON_parse\<close> starts it at twice the
  length of the text plus two, and each call made without reading a character is followed
  by one that reads one.
\<close>

fun parse_value :: "nat \<Rightarrow> js_string \<Rightarrow> (js_value \<times> js_string) option"
  and parse_elements :: "nat \<Rightarrow> js_value list \<Rightarrow> js_string \<Rightarrow> (js_value \<times> js_string) option"
  and parse_members ::
    "nat \<Rightarrow> (js_string \<times> js_value) list \<Rightarrow> js_string \<Rightarrow> (js_value \<times> js_string) option" where
  "parse_value 0 s = None"
| "parse_value (Suc n) s =
     (case skip_ws s of
        [] \<Rightarrow> None
      | c # r \<Rightarrow>
          if c = 123 then
            (if skip_ws r \<noteq> [] \<and> hd (skip_ws r) = 125 then Some (JObj [], tl (skip_ws r))
             else parse_members n [] r)
          else if c = 91 then
            (if skip_ws r \<noteq> [] \<and> hd (skip_ws r) = 93 then Some (JArr [], tl (skip_ws r))
             else parse_elements n [] r)
          else if c = 34 then
            (case parse_string_body r of
               None \<Rightarrow> None
             | Some (str, r') \<Rightarrow> Some (JStr str, r'))
          else if take 4 (c # r) = js ''true'' then Some (JBool True, drop 3 r)
          else if take 5 (c # r) = js ''false'' then Some (JBool False, drop 4 r)
          else if take 4 (c # r) = js ''null'' then Some (JNull, drop 3 r)
          else (case parse_number (c # r) of
                  None \<Rightarrow> None
                | Some (x, r') \<Rightarrow> Some (JNum x, r')))"
| "parse_elements 0 acc s = None"
| "parse_elements (Suc n) acc s =
     (case parse_value n s of
        None \<Rightarrow> None
      | Some (v, r) \<Rightarrow>
          (case skip_ws r of
             [] \<Rightarrow> None
           | c # r' \<Rightarrow>
               if c = 44 then parse_elements n (acc @ [v]) r'
               else if c = 93 then Some (JArr (acc @ [v]), r')
               else None))"
| "parse_members 0 acc s = None"
| "parse_members (Suc n) acc s =
     (case skip_ws s of
        [] \<Rightarrow> None
      | c # r \<Rightarrow>
          if c \<noteq> 34 then None
          else (case parse_string_body r of
                  None \<Rightarrow> None
                | Some (k, r1) \<Rightarrow>
                    (case skip_ws r1 of
                       [] \<Rightarrow> None
                     | c1 # r2 \<Rightarrow>
                         if c1 \<noteq> 58 then None
                         else (case parse_value n r2 of
                                 None \<Rightarrow> None
                               | Some (v, r3) \<Rightarrow>
                                   (case skip_ws r3 of
                                      [] \<Rightarrow> None
                                    | c2 # r4 \<Rightarrow>
                                        if c2 = 44 then parse_members n (obj_put acc k v) r4
                                        else if c2 = 125 then Some (JObj (obj_put acc k v), r4)
                                        else None)))))"

definition JSON_parse :: "js_string \<Rightarrow> js_error + js_value" where
  "JSON_parse s =
     (case parse_value (2 * length s + 2) s of
        None \<Rightarrow> Inl SyntaxError
      | Some (v, r) \<Rightarrow> if skip_ws r = [] then Inr v else Inl SyntaxError)"

section \<open>The state token (utils/crypto.ts)\<close>

definition STATE_EXPIRATION :: int where
  "STATE_EXPIRATION = 600000"

text \<open>
  The object literal of \<open>encodeState\<close> as a value, and its \<open>JSON.stringify\<close>.
\<close>

definition state_object :: "js_string \<Rightarrow> js_string \<Rightarrow> js_string \<Rightarrow> js_string \<Rightarrow> int \<Rightarrow> js_value" where
  "state_object app_id provider redirect nonce timestamp =
     JObj [(js ''app_id'', JStr app_id), (js ''provider'', JStr provider),
           (js ''redirect'', JStr redirect), (js ''nonce'', JStr nonce),
           (js ''timestamp'', JNum (Fin (of_int timestamp)))]"

definition state_text :: "js_string \<Rightarrow> js_string \<Rightarrow> js_string \<Rightarrow> js_string \<Rightarrow> int \<Rightarrow> js_string" where
  "state_text app_id provider redirect nonce timestamp =
     JSON_object
       [(js ''app_id'', JSON_quote app_id),
        (js ''provider'', JSON_quote provider),
        (js ''redirect'', JSON_quote redirect),
        (js ''nonce'', JSON_quote nonce),
        (js ''timestamp'', int_to_string timestamp)]"

text \<open>
  \<open>encodeState\<close>, with the reading of \<open>Date.now()\<close> as its first argument:
  \<open>btoa(JSON.stringify({app_id, provider, redirect, nonce, timestamp}))\<close>.
\<close>

definition encodeState ::
  "Date \<Rightarrow> js_string \<Rightarrow> js_string \<Rightarrow> js_string \<Rightarrow> js_string \<Rightarrow> js_error + js_string" where
  "encodeState now app_id provider redirect nonce =
     btoa (state_text app_id provider redirect nonce now)"

text \<open>
  \<open>decodeState\<close>, with the reading of \<open>Date.now()\<close> as its first argument. Every
  exception is caught and gives \<open>null\<close> (\<open>None\<close>): from \<open>atob\<close>, from \<open>JSON.parse\<close>,
  the TypeError of a property access when the parsed value is \<open>null\<close>, and the
  TypeError of the subtraction when the timestamp has no primitive value.
\<close>

definition state_fields_present :: "js_value \<Rightarrow> bool" where
  "state_fields_present decoded =
     (truthy (js_field decoded (js ''app_id'')) \<and> truthy (js_field decoded (js ''provider''))
      \<and> truthy (js_field decoded (js ''redirect'')) \<and> truthy (js_field decoded (js ''nonce''))
      \<and> truthy (js_field decoded (js ''timestamp'')))"

definition state_expired :: "Date \<Rightarrow> js_value \<Rightarrow> js_error + bool" where
  "state_expired now decoded =
     (case to_number (js_field decoded (js ''timestamp'')) of
        Inl e \<Rightarrow> Inl e
      | Inr timestamp \<Rightarrow>
          Inr (js_gt (js_sub (Fin (of_int now)) timestamp) (Fin (of_int STATE_EXPIRATION))))"

definition decodeState :: "Date \<Rightarrow> js_string \<Rightarrow> js_value option" where
  "decodeState now stateStr =
     (case atob stateStr of
        Inl e \<Rightarrow> None
      | Inr text \<Rightarrow>
          (case JSON_parse text of
             Inl e \<Rightarrow> None
           | Inr decoded \<Rightarrow>
               if nullish decoded then None
               else if \<not> state_fields_present decoded then None
               else (case state_expired now decoded of
                       Inl e \<Rightarrow> None
                     | Inr expired \<Rightarrow> if expired then None else Some decoded)))"

text \<open>Strings of code units up to 255, the strings that \<open>btoa\<close> accepts.\<close>

definition latin1 :: "js_string \<Rightarrow> bool" where
  "latin1 s = list_all (\<lambda>c. c \<le> 255) s"

section \<open>Tenant configuration (types.ts, utils/cache.ts, utils/supabase.ts)\<close>

text \<open>
  The configuration records carry the types of the TypeScript interfaces; \<open>extra\<close> is
  any JSON value.
\<close>

record ProviderConfig =
  provider :: js_string
  client_id :: js_string
  client_secret :: js_string
  extra :: js_value
  enabled :: bool

record AppConfig =
  project_id :: js_string
  developer_id :: js_string
  frontend_base_url :: js_string
  supabase_url :: js_string
  supabase_service_role :: js_string
  providers :: "ProviderConfig list"

text \<open>
  What lies outside the worker and answers it: the network (the master database, the
  providers, the tenant's Supabase project), and the platform functions that are not
  modelled in detail.
  \<^item> \<open>fetch_outcome\<close>: the outcome of a \<open>fetch\<close> of a URL.
  \<^item> \<open>load_app_config\<close>: the two requests of \<open>getAppConfig\<close> to the master database
    (projects, oauth_credentials) and the assembly of the configuration: a rejected
    request, no configuration (a non-success response, no project), or the configuration.
  \<^item> \<open>json_of_config\<close>, \<open>config_of_json\<close>: \<open>JSON.stringify\<close> of a configuration, and the
    truthy value that the store's \<open>get(key, 'json')\<close> parses from a cached string.
  \<^item> \<open>exchangeCodeForToken_result\<close>, \<open>getUserInfo_result\<close>: the outcome of the two
    network operations of an adapter; \<open>getOrCreateUser_result\<close>: the outcome of
    \<open>SupabaseClient.getOrCreateUser\<close> for a project URL, a key and a normalized user.
  \<^item> \<open>parse_URL\<close>: \<open>new URL(input, base).toString()\<close>, \<open>None\<close> when the constructor
    raises TypeError.
  \<^item> \<open>toLowerCase\<close>, \<open>random_bytes\<close> (\<open>crypto.getRandomValues\<close>), and
    \<open>engine_message\<close>, the message text of an exception raised by the runtime, and
    \<open>format_number\<close>, the digits of a number that is not a small integer.
\<close>

record World =
  fetch_outcome :: "js_string \<Rightarrow> fetch_result"
  load_app_config :: "js_string \<Rightarrow> js_error + AppConfig option"
  json_of_config :: "AppConfig \<Rightarrow> js_string"
  config_of_json :: "js_string \<Rightarrow> AppConfig option"
  exchangeCodeForToken_result ::
    "OAuthProvider \<Rightarrow> js_string \<Rightarrow> ProviderConfig \<Rightarrow> js_string \<Rightarrow> js_error + js_value"
  getUserInfo_result :: "OAuthProvider \<Rightarrow> js_value \<Rightarrow> ProviderConfig \<Rightarrow> js_error + js_value"
  getOrCreateUser_result :: "js_string \<Rightarrow> js_string \<Rightarrow> js_value \<Rightarrow> js_error + js_value"
  parse_URL :: "js_string \<Rightarrow> js_string option \<Rightarrow> js_string option"
  toLowerCase :: "js_string \<Rightarrow> js_string"
  random_bytes :: "nat \<Rightarrow> nat list"
  engine_message :: "js_error \<Rightarrow> js_string"
  format_number :: "rat \<Rightarrow> js_string"

definition CACHE_TTL :: int where
  "CACHE_TTL = 300"

definition project_cache_key :: "js_string \<Rightarrow> js_string" where
  "project_cache_key app_id = js ''project:'' @ app_id"

text \<open>The cache functions catch every exception of the store.\<close>

definition getCachedAppConfig :: "World \<Rightarrow> Env \<Rightarrow> js_string \<Rightarrow> AppConfig option" where
  "getCachedAppConfig w env app_id =
     (case kv_get (APP_CACHE env) (project_cache_key app_id) of
        Inl e \<Rightarrow> None
      | Inr None \<Rightarrow> None
      | Inr (Some s) \<Rightarrow> config_of_json w s)"

definition setCachedAppConfig :: "World \<Rightarrow> Env \<Rightarrow> js_string \<Rightarrow> AppConfig \<Rightarrow> Env" where
  "setCachedAppConfig w env app_id config =
     (case kv_put (APP_CACHE env) (project_cache_key app_id) (json_of_config w config)
             (Some (Fin (of_int CACHE_TTL))) of
        Inl e \<Rightarrow> env
      | Inr kv \<Rightarrow> env\<lparr>APP_CACHE := kv\<rparr>)"

definition invalidateAppCache :: "Env \<Rightarrow> js_string \<Rightarrow> Env" where
  "invalidateAppCache env app_id =
     (case kv_delete (APP_CACHE env) (project_cache_key app_id) of
        Inl e \<Rightarrow> env
      | Inr kv \<Rightarrow> env\<lparr>APP_CACHE := kv\<rparr>)"

definition getAppConfig ::
  "World \<Rightarrow> Env \<Rightarrow> js_string \<Rightarrow> (js_error + AppConfig option) \<times> Env" where
  "getAppConfig w env app_id =
     (case getCachedAppConfig w env app_id of
        Some cached \<Rightarrow> (Inr (Some cached), env)
      | None \<Rightarrow>
          (case load_app_config w app_id of
             Inl e \<Rightarrow> (Inl e, env)
           | Inr None \<Rightarrow> (Inr None, env)
           | Inr (Some config) \<Rightarrow> (Inr (Some config), setCachedAppConfig w env app_id config)))"

section \<open>The provider registry (providers/registry.ts)\<close>

definition registry :: "js_string \<Rightarrow> OAuthProvider option" where
  "registry name =
     (if name = js ''wechat'' then Some WeChatProvider
      else if name = js ''qq'' then Some QQProvider
      else if name = js ''douyin'' then Some DouyinProvider
      else if name = js ''dingtalk'' then Some DingTalkProvider
      else if name = js ''weibo'' then Some WeiboProvider
      else if name = js ''alipay'' then Some AlipayProvider
      else None)"

text \<open>
  \<open>providers[name.toLowerCase()] || null\<close>: an adapter; or \<open>null\<close>; or, for the two
  lower-case names that the registry object inherits from \<open>Object.prototype\<close>, a truthy
  value that is no adapter, on which every method call raises TypeError.
\<close>

datatype registry_entry = Adapter OAuthProvider | InheritedMember | NoProvider

definition getProvider :: "World \<Rightarrow> js_string \<Rightarrow> registry_entry" where
  "getProvider w name =
     (case registry (toLowerCase w name) of
        Some p \<Rightarrow> Adapter p
      | None \<Rightarrow>
          if toLowerCase w name = js ''constructor'' \<or> toLowerCase w name = js ''__proto__''
          then InheritedMember else NoProvider)"

text \<open>
  A URL under construction: the address, the query parameters given to it in order
  (their values before conversion to strings and percent-encoding), and the fragment.
\<close>

datatype URL = URL js_string "(js_string \<times> js_value) list" js_string

fun buildAuthURL :: "OAuthProvider \<Rightarrow> ProviderConfig \<Rightarrow> js_string \<Rightarrow> js_string \<Rightarrow> URL" where
  "buildAuthURL WeChatProvider config redirect_uri state =
     URL (js ''https://open.weixin.qq.com/connect/oauth2/authorize'')
       [(js ''appid'', JStr (client_id config)), (js ''redirect_uri'', JStr redirect_uri),
        (js ''response_type'', JStr (js ''code'')), (js ''scope'', JStr (js ''snsapi_userinfo'')),
        (js ''state'', JStr state)]
       (js ''#wechat_redirect'')"
| "buildAuthURL QQProvider config redirect_uri state =
     URL (js ''https://graph.qq.com/oauth2.0/authorize'')
       [(js ''client_id'', JStr (client_id config)), (js ''redirect_uri'', JStr redirect_uri),
        (js ''response_type'', JStr (js ''code'')), (js ''scope'', JStr (js ''get_user_info'')),
        (js ''state'', JStr state)]
       []"
| "buildAuthURL DouyinProvider config redirect_uri state =
     URL (js ''https://open.douyin.com/platform/oauth/connect'')
       [(js ''client_key'', JStr (client_id config)), (js ''redirect_uri'', JStr redirect_uri),
        (js ''response_type'', JStr (js ''code'')), (js ''scope'', JStr (js ''user_info'')),
        (js ''state'', JStr state)]
       []"
| "buildAuthURL DingTalkProvider config redirect_uri state =
     URL (js ''https://login.dingtalk.com/oauth2/auth'')
       [(js ''appid'', JStr (client_id config)), (js ''redirect_uri'', JStr redirect_uri),
        (js ''response_type'', JStr (js ''code'')), (js ''scope'', JStr (js ''openid'')),
        (js ''state'', JStr state)]
       []"
| "buildAuthURL WeiboProvider config redirect_uri state =
     URL (js ''https://api.weibo.com/oauth2/authorize'')
       [(js ''client_id'', JStr (client_id config)), (js ''redirect_uri'', JStr redirect_uri),
        (js ''response_type'', JStr (js ''code'')), (js ''state'', JStr state)]
       []"
| "buildAuthURL AlipayProvider config redirect_uri state =
     URL (js ''https://openauth.alipay.com/oauth2/publicAppAuthorize.htm'')
       [(js ''app_id'', JStr (client_id config)), (js ''scope'', JStr (js ''auth_user'')),
        (js ''redirect_uri'', JStr redirect_uri), (js ''state'', JStr state)]
       []"

section \<open>Responses (utils/error.ts)\<close>

text \<open>\<open>Date.prototype.toISOString\<close>.\<close>

definition toISOString :: "Date \<Rightarrow> js_string" where
  "toISOString t =
     (let y = getUTCFullYear t;
          ms = t mod msPerDay;
          year = (if 0 \<le> y \<and> y \<le> 9999 then padStart0 4 (decimal (nat y))
                  else (if y < 0 then 45 else 43) # padStart0 6 (decimal (nat \<bar>y\<bar>)))
      in year @ 45 # padStart0 2 (int_to_string (getUTCMonth t + 1))
         @ 45 # padStart0 2 (int_to_string (getUTCDate t))
         @ 84 # padStart0 2 (int_to_string (ms div 3600000))
         @ 58 # padStart0 2 (int_to_string (ms div 60000 mod 60))
         @ 58 # padStart0 2 (int_to_string (ms div 1000 mod 60))
         @ 46 # padStart0 3 (int_to_string (ms mod 1000)) @ [90])"

text \<open>
  A response is a JSON response, given by its status and the object that is passed to
  \<open>JSON.stringify\<close> for its body (a property whose value is \<open>undefined\<close> is left out by
  \<open>JSON.stringify\<close>), or a redirect to a URL with a status.
\<close>

datatype Response =
  JsonResponse nat "(js_string \<times> js_value) list"
| RedirectResponse URL nat

definition createErrorResponse :: "Date \<Rightarrow> js_string \<Rightarrow> js_string \<Rightarrow> nat \<Rightarrow> Response" where
  "createErrorResponse now error description statusCode =
     JsonResponse statusCode
       [(js ''error'', JStr error),
        (js ''error_description'', JStr description),
        (js ''timestamp'', JStr (toISOString now))]"

definition redirectWithError ::
  "World \<Rightarrow> Date \<Rightarrow> js_string \<Rightarrow> js_string \<Rightarrow> js_string \<Rightarrow> Response" where
  "redirectWithError w now redirectUrl error description =
     (case parse_URL w redirectUrl None of
        None \<Rightarrow> createErrorResponse now error description 400
      | Some href \<Rightarrow>
          RedirectResponse
            (URL href
               ((js ''error'', JStr error)
                # (if description \<noteq> [] then [(js ''error_description'', JStr description)] else []))
               [])
            302)"

text \<open>\<open>error.message || fallback\<close> for a caught exception.\<close>

definition error_message :: "World \<Rightarrow> js_error \<Rightarrow> js_string" where
  "error_message w e = (case e of Error m \<Rightarrow> m | _ \<Rightarrow> engine_message w e)"

definition message_or :: "World \<Rightarrow> js_error \<Rightarrow> js_string \<Rightarrow> js_string" where
  "message_or w e fallback = (if error_message w e \<noteq> [] then error_message w e else fallback)"

section \<open>The login and callback handlers (router.ts)\<close>

text \<open>\<open>generateNonce\<close>: each random byte as two hexadecimal digits.\<close>

definition NONCE_LENGTH :: nat where
  "NONCE_LENGTH = 32"

definition generateNonce :: "nat list \<Rightarrow> js_string" where
  "generateNonce bytes = concat (map (\<lambda>b. [hex_char (b div 16), hex_char (b mod 16)]) bytes)"

text \<open>
  A request: the origin of its URL and its query parameters in order
  (\<open>searchParams.get\<close> returns the first value of a name, or \<open>null\<close>).
\<close>

record Request =
  origin :: js_string
  searchParams :: "(js_string \<times> js_string) list"

definition searchParams_get :: "Request \<Rightarrow> js_string \<Rightarrow> js_string option" where
  "searchParams_get request name = map_of (searchParams request) name"

text \<open>\<open>new URL('/auth/callback', request.url).toString()\<close>.\<close>

definition callback_url :: "Request \<Rightarrow> js_string" where
  "callback_url request = origin request @ js ''/auth/callback''"

text \<open>
  The operations that a handler performs on its collaborators, in the order of their
  calls: the admission check, the operations of an adapter, the identity record, the
  usage increment.
\<close>

datatype event =
  CheckLimits js_string
| BuildAuthURL OAuthProvider
| ExchangeCodeForToken OAuthProvider
| GetUserInfo OAuthProvider
| GetOrCreateUser
| IncrementUsage js_string

text \<open>The body of the response to a denied admission.\<close>

definition usage_value :: "UsageStats option \<Rightarrow> js_value" where
  "usage_value u =
     (case u of
        None \<Rightarrow> JUndefined
      | Some s \<Rightarrow> JObj [(js ''daily'', JNum (daily s)), (js ''monthly'', JNum (monthly s))])"

definition limit_exceeded_response :: "Date \<Rightarrow> js_value \<Rightarrow> LimitCheckResult \<Rightarrow> Response" where
  "limit_exceeded_response now developerPlan limitCheck =
     JsonResponse 429
       [(js ''error'', JStr (js ''LIMIT_EXCEEDED'')),
        (js ''error_description'',
           JStr (case reason limitCheck of
                   None \<Rightarrow> js ''Usage limit exceeded''
                 | Some r \<Rightarrow> if r \<noteq> [] then r else js ''Usage limit exceeded'')),
        (js ''current_plan'', developerPlan),
        (js ''required_plan'',
           (case required_plan limitCheck of None \<Rightarrow> JUndefined | Some p \<Rightarrow> JStr p)),
        (js ''current_usage'', usage_value (current_usage limitCheck)),
        (js ''timestamp'', JStr (toISOString now))]"

text \<open>
  The part of \<open>handleLogin\<close> after the admission check: the provider is looked up in
  the configuration and in the registry, the state is encoded and the redirect to the
  provider is built. The result is the response or the exception, and the operations
  performed.
\<close>

definition login_redirect ::
  "World \<Rightarrow> Date \<Rightarrow> Request \<Rightarrow> AppConfig \<Rightarrow> js_string \<Rightarrow> js_string \<Rightarrow> js_string
   \<Rightarrow> (js_error + Response) \<times> event list" where
  "login_redirect w now request appConfig app_id provider_name redirect =
     (case find (\<lambda>p. provider p = provider_name) (providers appConfig) of
        None \<Rightarrow>
          (Inr (createErrorResponse now (js ''invalid_provider'')
                  (js ''Provider '' @ provider_name @ js '' not configured for this app'') 404),
           [])
      | Some providerConfig \<Rightarrow>
          if \<not> enabled providerConfig then
            (Inr (createErrorResponse now (js ''provider_disabled'')
                    (js ''Provider '' @ provider_name @ js '' is disabled'') 403), [])
          else
            (case getProvider w provider_name of
               NoProvider \<Rightarrow>
                 (Inr (createErrorResponse now (js ''invalid_provider'')
                         (js ''Provider '' @ provider_name @ js '' is not supported'') 500), [])
             | entry \<Rightarrow>
                 (case encodeState now app_id provider_name redirect
                         (generateNonce (random_bytes w NONCE_LENGTH)) of
                    Inl e \<Rightarrow> (Inl e, [])
                  | Inr state \<Rightarrow>
                      (case entry of
                         Adapter providerImpl \<Rightarrow>
                           (Inr (RedirectResponse
                                   (buildAuthURL providerImpl providerConfig
                                      (callback_url request) state) 302),
                            [BuildAuthURL providerImpl])
                       | _ \<Rightarrow> (Inl TypeError, [])))))"

text \<open>
  The \<open>try\<close> block of \<open>handleLogin\<close>: the response it returns or the exception it
  throws, the environment after it, and the operations performed.
\<close>

definition handleLogin_try ::
  "World \<Rightarrow> Env \<Rightarrow> Date \<Rightarrow> Request \<Rightarrow> js_string \<Rightarrow> js_string \<Rightarrow> js_string
   \<Rightarrow> (js_error + Response) \<times> Env \<times> event list" where
  "handleLogin_try w env now request app_id provider_name redirect =
     (case getAppConfig w env app_id of
        (Inl e, env1) \<Rightarrow> (Inl e, env1, [])
      | (Inr None, env1) \<Rightarrow>
          (Inr (createErrorResponse now (js ''invalid_app'')
                  (js ''App '' @ app_id @ js '' not found'') 404), env1, [])
      | (Inr (Some appConfig), env1) \<Rightarrow>
          (let developerId = developer_id appConfig in
           case getDeveloperPlan (fetch_outcome w) env1 developerId of
             (Inl e, env2) \<Rightarrow> (Inl e, env2, [])
           | (Inr developerPlan, env2) \<Rightarrow>
               (case checkLimits (format_number w) env2 now developerId developerPlan of
                  Inl e \<Rightarrow> (Inl e, env2, [CheckLimits developerId])
                | Inr limitCheck \<Rightarrow>
                    if \<not> allowed limitCheck then
                      (Inr (limit_exceeded_response now developerPlan limitCheck), env2,
                       [CheckLimits developerId])
                    else
                      (case login_redirect w now request appConfig app_id provider_name
                              redirect of
                         (result, ops) \<Rightarrow> (result, env2, CheckLimits developerId # ops)))))"

definition handleLogin :: "World \<Rightarrow> Env \<Rightarrow> Date \<Rightarrow> Request \<Rightarrow> Response \<times> Env \<times> event list" where
  "handleLogin w env now request =
     (case (searchParams_get request (js ''app_id''), searchParams_get request (js ''provider''),
            searchParams_get request (js ''redirect'')) of
        (Some app_id, Some provider_name, Some redirect) \<Rightarrow>
          if app_id = [] \<or> provider_name = [] \<or> redirect = [] then
            (createErrorResponse now (js ''missing_params'')
               (js ''Required parameters: app_id, provider, redirect'') 400, env, [])
          else
            (case handleLogin_try w env now request app_id provider_name redirect of
               (Inr response, env', ops) \<Rightarrow> (response, env', ops)
             | (Inl e, env', ops) \<Rightarrow>
                 (createErrorResponse now (js ''internal_error'')
                    (message_or w e (js ''Internal server error'')) 500, env', ops))
      | _ \<Rightarrow>
          (createErrorResponse now (js ''missing_params'')
             (js ''Required parameters: app_id, provider, redirect'') 400, env, []))"

text \<open>
  The identity exchange and resolution of \<open>handleCallback\<close>: the code is exchanged for a
  token, the user is fetched and normalized, and the identity record is found or
  created; \<open>user.id\<close> is then read. The result is the normalized user and the record, or
  the first exception.
\<close>

definition resolve_identity ::
  "World \<Rightarrow> registry_entry \<Rightarrow> ProviderConfig \<Rightarrow> AppConfig \<Rightarrow> js_string \<Rightarrow> js_string
   \<Rightarrow> (js_error + js_value \<times> js_value \<times> js_value) \<times> event list" where
  "resolve_identity w entry providerConfig appConfig code callbackUrl =
     (case entry of
        Adapter p \<Rightarrow>
          (case exchangeCodeForToken_result w p code providerConfig callbackUrl of
             Inl e \<Rightarrow> (Inl e, [ExchangeCodeForToken p])
           | Inr tokenResponse \<Rightarrow>
               (case getUserInfo_result w p tokenResponse providerConfig of
                  Inl e \<Rightarrow> (Inl e, [ExchangeCodeForToken p, GetUserInfo p])
                | Inr rawUserInfo \<Rightarrow>
                    (case normalizeUser (format_number w) p rawUserInfo of
                       Inl e \<Rightarrow> (Inl e, [ExchangeCodeForToken p, GetUserInfo p])
                     | Inr normalizedUser \<Rightarrow>
                         (case getOrCreateUser_result w (supabase_url appConfig)
                                 (supabase_service_role appConfig) normalizedUser of
                            Inl e \<Rightarrow>
                              (Inl e, [ExchangeCodeForToken p, GetUserInfo p, GetOrCreateUser])
                          | Inr user \<Rightarrow>
                              (case get_prop user (js ''id'') of
                                 Inl e \<Rightarrow>
                                   (Inl e,
                                    [ExchangeCodeForToken p, GetUserInfo p, GetOrCreateUser])
                               | Inr user_id \<Rightarrow>
                                   (Inr (normalizedUser, user, user_id),
                                    [ExchangeCodeForToken p, GetUserInfo p, GetOrCreateUser]))))))
      | _ \<Rightarrow> (Inl TypeError, []))"

text \<open>
  The \<open>try\<close> block of \<open>handleCallback\<close>. The fields of the decoded state are values
  (decodeState does not check their types); app_id and the redirect path are converted to
  strings where the source builds a key, a message or a URL from them, and the conversion
  of a value without a primitive raises TypeError.
\<close>

definition handleCallback_try ::
  "World \<Rightarrow> Env \<Rightarrow> Date \<Rightarrow> Request \<Rightarrow> js_string \<Rightarrow> js_value
   \<Rightarrow> (js_error + Response) \<times> Env \<times> event list" where
  "handleCallback_try w env now request code state =
     (let providerName = js_field state (js ''provider'') in
      case to_string (format_number w) (js_field state (js ''app_id'')) of
        Inl e \<Rightarrow> (Inl e, env, [])
      | Inr app_id \<Rightarrow>
      (case getAppConfig w env app_id of
           (Inl e, env1) \<Rightarrow> (Inl e, env1, [])
         | (Inr None, env1) \<Rightarrow>
             (Inr (createErrorResponse now (js ''invalid_app'')
                     (js ''App '' @ app_id @ js '' not found'') 404), env1, [])
         | (Inr (Some appConfig), env1) \<Rightarrow>
             (case find (\<lambda>p. JStr (provider p) = providerName) (providers appConfig) of
                None \<Rightarrow>
                  (case to_string (format_number w) providerName of
                     Inl e \<Rightarrow> (Inl e, env1, [])
                   | Inr name \<Rightarrow>
                       (Inr (createErrorResponse now (js ''invalid_provider'')
                               (js ''Provider '' @ name @ js '' not configured'') 400), env1, []))
              | Some providerConfig \<Rightarrow>
                  (case getProvider w (provider providerConfig) of
                     NoProvider \<Rightarrow>
                       (Inr (createErrorResponse now (js ''invalid_provider'')
                               (js ''Provider '' @ provider providerConfig
                                @ js '' not supported'') 400), env1, [])
                   | entry \<Rightarrow>
                       (case resolve_identity w entry providerConfig appConfig code
                               (callback_url request) of
                          (Inl e, ops) \<Rightarrow> (Inl e, env1, ops)
                        | (Inr (normalizedUser, user, user_id), ops) \<Rightarrow>
                            (let developerId = developer_id appConfig in
                             case incrementUsage (format_number w) env1 now developerId of
                               (Some e, env2) \<Rightarrow> (Inl e, env2, ops @ [IncrementUsage developerId])
                             | (None, env2) \<Rightarrow>
                                 (case to_string (format_number w)
                                         (js_field state (js ''redirect'')) of
                                    Inl e \<Rightarrow> (Inl e, env2, ops @ [IncrementUsage developerId])
                                  | Inr redirectPath \<Rightarrow>
                                 (case parse_URL w redirectPath
                                         (Some (frontend_base_url appConfig)) of
                                    None \<Rightarrow>
                                      (Inl TypeError, env2, ops @ [IncrementUsage developerId])
                                  | Some href \<Rightarrow>
                                      (Inr (RedirectResponse
                                              (URL href
                                                 [(js ''provider'', providerName),
                                                  (js ''user_id'', user_id),
                                                  (js ''openid'',
                                                     js_field normalizedUser (js ''openid'')),
                                                  (js ''nickname'',
                                                     js_or (js_field normalizedUser (js ''nickname''))
                                                       (JStr [])),
                                                  (js ''avatar'',
                                                     js_or (js_field normalizedUser (js ''avatar''))
                                                       (JStr []))]
                                                 [])
                                              302),
                                       env2, ops @ [IncrementUsage developerId])))))))))"

text \<open>
  The \<open>catch\<close> block of \<open>handleCallback\<close>: a redirect to the tenant's application with
  the error when its configuration and URL can be had, the JSON error response otherwise
  (every exception of the inner \<open>try\<close> is passed over).
\<close>

definition handleCallback_catch ::
  "World \<Rightarrow> Env \<Rightarrow> Date \<Rightarrow> js_value \<Rightarrow> js_error \<Rightarrow> Response \<times> Env" where
  "handleCallback_catch w env now state e =
     (let description = message_or w e (js ''Authentication failed'') in
      case to_string (format_number w) (js_field state (js ''app_id'')) of
        Inl e' \<Rightarrow> (createErrorResponse now (js ''oauth_failed'') description 500, env)
      | Inr app_id \<Rightarrow>
      (case getAppConfig w env app_id of
           (Inr (Some appConfig), env1) \<Rightarrow>
             (case to_string (format_number w) (js_field state (js ''redirect'')) of
                Inl e' \<Rightarrow> (createErrorResponse now (js ''oauth_failed'') description 500, env1)
              | Inr redirectPath \<Rightarrow>
             (case parse_URL w redirectPath (Some (frontend_base_url appConfig)) of
                Some frontendUrl \<Rightarrow>
                  (redirectWithError w now frontendUrl (js ''oauth_failed'') description, env1)
              | None \<Rightarrow>
                  (createErrorResponse now (js ''oauth_failed'') description 500, env1)))
         | (_, env1) \<Rightarrow> (createErrorResponse now (js ''oauth_failed'') description 500, env1)))"

text \<open>\<open>url.searchParams.get('auth_code') || url.searchParams.get('code')\<close>.\<close>

definition callback_code :: "Request \<Rightarrow> js_string option" where
  "callback_code request =
     (case searchParams_get request (js ''auth_code'') of
        Some c \<Rightarrow> if c \<noteq> [] then Some c else searchParams_get request (js ''code'')
      | None \<Rightarrow> searchParams_get request (js ''code''))"

text \<open>
  \<open>handleCallback\<close>: the response, or the exception that leaves the handler. The log
  line between the decoding of the state and the \<open>try\<close> block holds app_id and the
  provider name in a template literal, whose conversion of a value without a primitive
  raises TypeError outside the \<open>try\<close>.
\<close>

definition handleCallback ::
  "World \<Rightarrow> Env \<Rightarrow> Date \<Rightarrow> Request \<Rightarrow> (js_error + Response) \<times> Env \<times> event list" where
  "handleCallback w env now request =
     (case (callback_code request, searchParams_get request (js ''state'')) of
        (Some code, Some stateStr) \<Rightarrow>
          if code = [] \<or> stateStr = [] then
            (Inr (createErrorResponse now (js ''missing_params'')
                    (js ''Required parameters: code, state'') 400), env, [])
          else
            (case decodeState now stateStr of
               None \<Rightarrow>
                 (Inr (createErrorResponse now (js ''invalid_state'')
                         (js ''State is invalid or expired'') 400), env, [])
             | Some state \<Rightarrow>
                 if no_primitive (js_field state (js ''app_id''))
                    \<or> no_primitive (js_field state (js ''provider''))
                 then (Inl TypeError, env, [])
                 else
                 (case handleCallback_try w env now request code state of
                    (Inr response, env', ops) \<Rightarrow> (Inr response, env', ops)
                  | (Inl e, env', ops) \<Rightarrow>
                      (case handleCallback_catch w env' now state e of
                         (response, env'') \<Rightarrow> (Inr response, env'', ops))))
      | _ \<Rightarrow>
          (Inr (createErrorResponse now (js ''missing_params'')
                  (js ''Required parameters: code, state'') 400), env, []))"

text \<open>
  The usage counters of a day and a month are the entries of the store under the daily and
  monthly keys; two environments agree on them when these entries are the same for every
  owner.
\<close>

definition usage_unchanged :: "Date \<Rightarrow> Env \<Rightarrow> Env \<Rightarrow> bool" where
  "usage_unchanged now env env' =
     (\<forall>d. entries (APP_CACHE env') (getDailyUsageKey now d)
            = entries (APP_CACHE env) (getDailyUsageKey now d)
        \<and> entries (APP_CACHE env') (getMonthlyUsageKey now d)
            = entries (APP_CACHE env) (getMonthlyUsageKey now d))"

section \<open>Example environments\<close>

text \<open>A reachable store holding the given entries, and an environment around it.\<close>

definition kv_of :: "(js_string \<times> js_string) list \<Rightarrow> KVNamespace" where
  "kv_of kvs =
     \<lparr>entries = map_of (map (\<lambda>(k, v). (k, \<lparr>kv_value = v, expirationTtl = None\<rparr>)) kvs),
      reachable = True, text_of = (\<lambda>v. Inl TypeError)\<rparr>"

definition env_of :: "(js_string \<times> js_string) list \<Rightarrow> Env" where
  "env_of kvs =
     \<lparr>APP_CACHE = kv_of kvs, MASTER_SUPABASE_URL = js ''https://master.example'',
      MASTER_SUPABASE_SERVICE_ROLE_KEY = js ''key''\<rparr>"

text \<open>A network that answers the listed URLs and rejects every other request.\<close>

definition fetch_of :: "(js_string \<times> fetch_result) list \<Rightarrow> js_string \<Rightarrow> fetch_result" where
  "fetch_of rs url = (case map_of rs url of None \<Rightarrow> FetchRejects | Some r \<Rightarrow> r)"

text \<open>Payloads of the Alipay and DingTalk user-info requests, without a gender.\<close>

definition alipay_payload :: js_value where
  "alipay_payload = JObj [(js ''user_id'', JStr (js ''2088102104794936'')), (js ''avatar'', JStr (js ''https://a.example/i.png''))]"

definition dingtalk_payload :: js_value where
  "dingtalk_payload = JObj [(js ''openId'', JStr (js ''oid1'')), (js ''nick'', JStr (js ''Li''))]"

text \<open>
  Two state tokens: the one \<open>encodeState\<close> gives at time 1700000000000 for app1,
  wechat, /home and the nonce abcd, and the one it gives when the app_id is empty.
\<close>

definition example_token :: js_string where
  "example_token = js ''eyJhcHBfaWQiOiJhcHAxIiwicHJvdmlkZXIiOiJ3ZWNoYXQiLCJyZWRpcmVjdCI6Ii9ob21lIiwibm9uY2UiOiJhYmNkIiwidGltZXN0YW1wIjoxNzAwMDAwMDAwMDAwfQ==''"

definition empty_app_id_token :: js_string where
  "empty_app_id_token = js ''eyJhcHBfaWQiOiIiLCJwcm92aWRlciI6IndlY2hhdCIsInJlZGlyZWN0IjoiL2hvbWUiLCJub25jZSI6ImFiY2QiLCJ0aW1lc3RhbXAiOjE3MDAwMDAwMDAwMDB9''"

text \<open>
  A tenant with one application, app1, owned by dev1 on the free plan, with WeChat
  enabled; a world in which the exchange of the code "good" and everything after it
  succeeds and the exchange of any other code fails; a store that holds the cached
  configuration, the cached plan and the counters of 14 November 2023; a login request and
  a callback request carrying the example state token; and the store after one increment.
\<close>

definition example_config :: AppConfig where
  "example_config =
     \<lparr>project_id = js ''app1'', developer_id = js ''dev1'',
      frontend_base_url = js ''https://app.example'', supabase_url = js ''https://tenant.example'',
      supabase_service_role = js ''role'',
      providers = [\<lparr>provider = js ''wechat'', client_id = js ''wx1'', client_secret = js ''secret'',
                     extra = JUndefined, enabled = True\<rparr>]\<rparr>"

definition example_world :: World where
  "example_world =
     \<lparr>fetch_outcome = fetch_of [],
      load_app_config = (\<lambda>a. if a = js ''app1'' then Inr (Some example_config) else Inr None),
      json_of_config = (\<lambda>c. js ''app1.json''),
      config_of_json = (\<lambda>s. if s = js ''app1.json'' then Some example_config else None),
      exchangeCodeForToken_result =
        (\<lambda>p code config callbackUrl.
           if code = js ''good''
           then Inr (JObj [(js ''access_token'', JStr (js ''tok'')), (js ''openid'', JStr (js ''o1''))])
           else Inl (Error (js ''Failed to exchange code for token''))),
      getUserInfo_result =
        (\<lambda>p tokenResponse config.
           Inr (JObj [(js ''openid'', JStr (js ''o1'')), (js ''nickname'', JStr (js ''Li''))])),
      getOrCreateUser_result = (\<lambda>url key user. Inr (JObj [(js ''id'', JStr (js ''u1''))])),
      parse_URL = (\<lambda>input base. case base of None \<Rightarrow> Some input | Some b \<Rightarrow> Some (b @ input)),
      toLowerCase = (\<lambda>s. s),
      random_bytes = (\<lambda>n. replicate n 0),
      engine_message = (\<lambda>e. js ''error''),
      format_number = (\<lambda>r. [])\<rparr>"

definition example_env :: "js_string \<Rightarrow> Env" where
  "example_env dailyCount =
     env_of [(js ''project:app1'', js ''app1.json''),
             (js ''developer:dev1:plan'', js ''free''),
             (js ''usage:dev1:day:20231114'', dailyCount),
             (js ''usage:dev1:month:202311'', js ''3000'')]"

definition login_request :: Request where
  "login_request =
     \<lparr>origin = js ''https://gateway.example'',
      searchParams = [(js ''app_id'', js ''app1''), (js ''provider'', js ''wechat''),
                      (js ''redirect'', js ''/home'')]\<rparr>"

definition callback_request :: "js_string \<Rightarrow> Request" where
  "callback_request code =
     \<lparr>origin = js ''https://gateway.example'',
      searchParams = [(js ''code'', code), (js ''state'', example_token)]\<rparr>"

definition incremented_env :: Env where
  "incremented_env =
     (example_env (js ''199''))\<lparr>APP_CACHE := (APP_CACHE (example_env (js ''199'')))
        \<lparr>entries := (entries (APP_CACHE (example_env (js ''199''))))
           (js ''usage:dev1:day:20231114'' \<mapsto> \<lparr>kv_value = js ''200'', expirationTtl = Some (Fin 6399)\<rparr>,
            js ''usage:dev1:month:202311'' \<mapsto>
              \<lparr>kv_value = js ''3001'', expirationTtl = Some (Fin 1388799)\<rparr>)\<rparr>\<rparr>"

section \<open>Properties\<close>

text \<open>
  C7. getRecommendedPlan maps each plan to the next tier of the hierarchy
  free < pro < business < enterprise and returns none (null) at the top; in particular
  getRecommendedPlan("free") is "pro" and getRecommendedPlan("enterprise") is none.
\<close>

theorem getRecommendedPlan_next_tier:
  "getRecommendedPlan (js ''free'') = Some (js ''pro'')
   \<and> getRecommendedPlan (js ''pro'') = Some (js ''business'')
   \<and> getRecommendedPlan (js ''business'') = Some (js ''enterprise'')
   \<and> getRecommendedPlan (js ''enterprise'') = None"
  by (simp add: getRecommendedPlan_def hierarchy_def js_def)

subsection \<open>String literals\<close>

lemma js_eq_iff [simp]: "js a = js b \<longleftrightarrow> a = b"
  by (simp add: js_def inj_map_eq_map inj_on_def)

lemma js_Nil_iff [simp]: "js a = [] \<longleftrightarrow> a = []" "[] = js a \<longleftrightarrow> a = []"
  by (auto simp add: js_def)

lemma js_append: "js a @ js b = js (a @ b)"
  by (simp add: js_def)

subsection \<open>Rounding to a double\<close>

lemma bit_length_le: "n < 2 ^ m \<Longrightarrow> bit_length n \<le> int m"
proof (induction m arbitrary: n)
  case 0
  then show ?case by (simp add: bit_length.simps)
next
  case (Suc m)
  have "n div 2 < 2 ^ m" using Suc.prems by simp
  from Suc.IH [OF this] show ?case by (subst bit_length.simps) simp
qed

lemma round_half_even_of_int [simp]: "round_half_even (of_int z) = z"
  by (simp add: round_half_even_def)

lemma pow2_pos: "0 < pow2 e"
  by (simp add: pow2_def)

lemma ilog2_of_int_le:
  assumes "0 < t" "t < 2 ^ 53"
  shows "ilog2 (of_int t) \<le> 52"
proof -
  have "bit_length t \<le> int 53" using assms(2) by (rule bit_length_le)
  moreover have "bit_length 1 = 1" by (simp add: bit_length.simps)
  ultimately show ?thesis
    by (simp add: ilog2_def Let_def)
qed

lemma to_double_of_int:
  assumes "\<bar>t\<bar> < 2 ^ 53"
  shows "to_double (of_int t) = Fin (of_int t)"
proof (cases "t = 0")
  case True
  then show ?thesis by (simp add: to_double_def)
next
  case False
  define a where "a = \<bar>t\<bar>"
  have a: "0 < a" "a < 2 ^ 53" using False assms by (simp_all add: a_def)
  define e where "e = max (ilog2 (of_int a)) (- 1022)"
  have e: "e \<le> 52" using ilog2_of_int_le [OF a] by (simp add: e_def)
  define n where "n = nat (52 - e)"
  have q: "pow2 (e - 52) = 1 / 2 ^ n"
  proof (cases "e = 52")
    case True
    then show ?thesis by (simp add: pow2_def n_def)
  next
    case False
    then have "e - 52 < 0" using e by simp
    then show ?thesis by (simp add: pow2_def n_def)
  qed
  have "of_int a / pow2 (e - 52) = (of_int (a * 2 ^ n) :: rat)"
    by (simp add: q)
  then have r: "round_half_even (of_int a / pow2 (e - 52)) = a * 2 ^ n"
    by (simp only: round_half_even_of_int)
  have v: "of_int (round_half_even (of_int a / pow2 (e - 52))) * pow2 (e - 52) = (of_int a :: rat)"
    unfolding r by (simp add: q)
  have "(of_int a :: rat) < 2 ^ 53" using a(2) by (metis of_int_less_numeral_power_cancel_iff)
  also have "\<dots> < pow2 1024" by (simp add: pow2_def)
  finally have lt: "\<not> pow2 1024 \<le> (of_int a :: rat)" by simp
  have abs: "\<bar>of_int t :: rat\<bar> = of_int a" by (simp add: a_def)
  have sg: "(if (of_int t :: rat) < 0 then - of_int a else of_int a) = of_int t"
    by (simp add: a_def)
  have "to_double (of_int t) =
      Fin (if (of_int t :: rat) < 0 then - of_int a else of_int a)"
    using False lt
    by (simp only: to_double_def Let_def abs v [unfolded e_def] of_int_eq_0_iff if_False)
  then show ?thesis by (simp only: sg)
qed


lemma pow2_powi: "pow2 e = 2 powi e"
  by (simp add: pow2_def power_int_def power_one_over)

lemma bit_length_bounds:
  "0 < n \<Longrightarrow> 1 \<le> bit_length n \<and> 2 ^ nat (bit_length n - 1) \<le> n \<and> n < 2 ^ nat (bit_length n)"
proof (induction n rule: bit_length.induct)
  case (1 n)
  have b: "bit_length n = 1 + bit_length (n div 2)"
    using 1(2) by (subst bit_length.simps) simp
  show ?case
  proof (cases "n div 2 = 0")
    case True
    then have "n = 1" using 1(2) by auto
    then show ?thesis by (simp add: bit_length.simps)
  next
    case False
    then have pos: "0 < n div 2" using 1(2) by (simp add: pos_imp_zdiv_pos_iff)
    have h: "1 \<le> bit_length (n div 2)" "2 ^ nat (bit_length (n div 2) - 1) \<le> n div 2"
      "n div 2 < 2 ^ nat (bit_length (n div 2))"
      using 1(1) 1(2) pos by simp_all
    define m where "m = nat (bit_length (n div 2) - 1)"
    have m: "nat (bit_length (n div 2)) = Suc m" using h(1) by (simp add: m_def)
    have "2 * 2 ^ m \<le> n" using h(2) by (simp add: m_def)
    moreover have "n < 2 * 2 ^ Suc m" using h(3) by (simp add: m)
    moreover have "nat (bit_length n - 1) = Suc m" "nat (bit_length n) = Suc (Suc m)"
      using h(1) by (simp_all add: b m_def)
    ultimately show ?thesis using h(1) by (simp add: b)
  qed
qed

lemma bit_length_powi:
  assumes "0 < n"
  shows "(2::rat) powi (bit_length n - 1) \<le> of_int n" "(of_int n :: rat) < 2 powi bit_length n"
proof -
  note b = bit_length_bounds [OF assms]
  have "(2::rat) powi (bit_length n - 1) = 2 ^ nat (bit_length n - 1)"
    using b by (simp add: power_int_def)
  also have "\<dots> = of_int (2 ^ nat (bit_length n - 1))" by simp
  also have "\<dots> \<le> of_int n" using b by (simp only: of_int_le_iff)
  finally show "(2::rat) powi (bit_length n - 1) \<le> of_int n" .
  have "(of_int n :: rat) < of_int (2 ^ nat (bit_length n))" using b by (simp only: of_int_less_iff)
  also have "\<dots> = 2 powi bit_length n" using b by (simp add: power_int_def)
  finally show "(of_int n :: rat) < 2 powi bit_length n" .
qed

lemma ilog2_bounds:
  assumes "0 < a"
  shows "pow2 (ilog2 a) \<le> a" "a < pow2 (ilog2 a + 1)"
proof -
  obtain n d where q: "quotient_of a = (n, d)" by (cases "quotient_of a") auto
  have d: "0 < d" using quotient_of_denom_pos [OF q] .
  have a: "a = of_int n / of_int d" using quotient_of_div [OF q] .
  have n: "0 < n" using assms d by (simp add: a zero_less_divide_iff)
  define k where "k = bit_length n - bit_length d"
  note bn = bit_length_powi [OF n] and bd = bit_length_powi [OF d]
  have lo: "(2::rat) powi (k - 1) \<le> a"
  proof -
    have "(2::rat) powi (k - 1) = 2 powi (bit_length n - 1) / 2 powi bit_length d"
      by (simp add: k_def power_int_diff [symmetric] algebra_simps)
    also have "\<dots> \<le> of_int n / of_int d"
      using bn(1) bd(2) d n by (intro frac_le) simp_all
    finally show ?thesis by (simp add: a)
  qed
  have hi: "a < (2::rat) powi (k + 1)"
  proof -
    have "of_int n / of_int d < (2::rat) powi bit_length n / 2 powi (bit_length d - 1)"
      using bn(2) bd(1) n by (intro frac_less) simp_all
    also have "\<dots> = 2 powi (k + 1)"
      by (simp add: k_def power_int_diff [symmetric] algebra_simps)
    finally show ?thesis by (simp add: a)
  qed
  have i: "ilog2 a = (if pow2 k \<le> a then k else k - 1)"
    by (simp add: ilog2_def q k_def Let_def)
  show "pow2 (ilog2 a) \<le> a"
    using lo by (simp add: i pow2_powi)
  show "a < pow2 (ilog2 a + 1)"
    using hi by (auto simp add: i pow2_powi)
qed

lemma round_half_even_ge: "of_int z \<le> x \<Longrightarrow> z \<le> round_half_even x"
proof -
  assume "of_int z \<le> x"
  then have "z \<le> \<lfloor>x\<rfloor>" by (simp add: le_floor_iff)
  then show ?thesis by (simp add: round_half_even_def Let_def)
qed

lemma rounded_large:
  assumes "2 ^ 53 \<le> a"
  shows "2 ^ 53 \<le> of_int (round_half_even (a / pow2 (max (ilog2 a) (- 1022) - 52)))
                    * pow2 (max (ilog2 a) (- 1022) - 52)"
proof -
  have pos: "0 < a" using assms by (rule less_le_trans [rotated]) simp
  note b = ilog2_bounds [OF pos]
  define e where "e = ilog2 a"
  have e: "53 \<le> e"
  proof (rule ccontr)
    assume "\<not> 53 \<le> e"
    then have "e + 1 \<le> 53" by simp
    then have "(2::rat) powi (e + 1) \<le> 2 powi 53" by (intro power_int_increasing) simp_all
    then show False using b(2) assms by (simp add: pow2_powi e_def)
  qed
  then have m: "max e (- 1022) = e" by simp
  define q where "q = pow2 (e - 52)"
  have q: "0 < q" by (simp add: q_def pow2_powi)
  have pe: "pow2 e = 2 ^ 52 * q"
    by (simp add: q_def pow2_powi power_int_diff)
  have "(2 ^ 52 :: rat) \<le> a / q"
    using b(1) q by (simp add: e_def [symmetric] pe pos_le_divide_eq)
  then have "(of_int (2 ^ 52) :: rat) \<le> a / q" by simp
  then have "2 ^ 52 \<le> round_half_even (a / q)" by (rule round_half_even_ge)
  then have "(of_int (2 ^ 52) :: rat) \<le> of_int (round_half_even (a / q))"
    by (simp only: of_int_le_iff)
  then have A: "2 ^ 52 * q \<le> of_int (round_half_even (a / q)) * q"
    using q by (simp only: mult_le_cancel_right_pos of_int_numeral of_int_power)
  have B: "(2 ^ 53 :: rat) \<le> pow2 e"
  proof -
    have "(2::rat) powi 53 \<le> 2 powi e" using e by (intro power_int_increasing) simp_all
    then show ?thesis by (simp add: pow2_powi)
  qed
  have "2 ^ 53 \<le> of_int (round_half_even (a / q)) * q"
    using A B pe by linarith
  then show ?thesis
    unfolding m [unfolded e_def] q_def e_def .
qed

lemma to_double_large:
  assumes "2 ^ 53 \<le> a"
  shows "to_double a = PInf \<or> (\<exists>v. to_double a = Fin v \<and> 2 ^ 53 \<le> v)"
    and "to_double (- a) = NInf \<or> (\<exists>v. to_double (- a) = Fin (- v) \<and> 2 ^ 53 \<le> v)"
proof -
  have pos: "0 < a" using assms by (rule less_le_trans [rotated]) simp
  note r = rounded_large [OF assms]
  show "to_double a = PInf \<or> (\<exists>v. to_double a = Fin v \<and> 2 ^ 53 \<le> v)"
    using pos r by (simp add: to_double_def Let_def)
  show "to_double (- a) = NInf \<or> (\<exists>v. to_double (- a) = Fin (- v) \<and> 2 ^ 53 \<le> v)"
    using pos r by (simp add: to_double_def Let_def)
qed

lemma to_double_int_gt:
  assumes "0 \<le> c" "c < 2 ^ 53"
  shows "js_gt (to_double (of_int x)) (Fin (of_int c)) \<longleftrightarrow> c < x"
proof -
  consider "\<bar>x\<bar> < 2 ^ 53" | "2 ^ 53 \<le> x" | "x \<le> - (2 ^ 53)" by linarith
  then show ?thesis
  proof cases
    case 1
    then show ?thesis by (simp add: to_double_of_int)
  next
    case 2
    then have "(2 ^ 53 :: rat) \<le> of_int x"
      by (metis of_int_numeral of_int_le_iff of_int_power)
    from to_double_large(1) [OF this] have "js_gt (to_double (of_int x)) (Fin (of_int c))"
    proof
      assume "to_double (of_int x) = PInf" then show ?thesis by simp
    next
      assume "\<exists>v. to_double (of_int x) = Fin v \<and> 2 ^ 53 \<le> v"
      then obtain v where v: "to_double (of_int x) = Fin v" "2 ^ 53 \<le> v" by blast
      have "(of_int c :: rat) < of_int (2 ^ 53)" using assms(2) by (simp only: of_int_less_iff)
      then show ?thesis using v by simp
    qed
    then show ?thesis using 2 assms(2) by simp
  next
    case 3
    then have "(2 ^ 53 :: rat) \<le> of_int (- x)"
      by (metis of_int_numeral of_int_le_iff of_int_power minus_le_iff neg_le_iff_le)
    from to_double_large(2) [OF this] have "\<not> js_gt (to_double (of_int x)) (Fin (of_int c))"
    proof
      assume "to_double (- of_int (- x)) = NInf" then show ?thesis by simp
    next
      assume "\<exists>v. to_double (- of_int (- x)) = Fin (- v) \<and> 2 ^ 53 \<le> v"
      then obtain v where v: "to_double (of_int x) = Fin (- v)" "(2 ^ 53 :: rat) \<le> v" by auto
      have "(0::rat) \<le> of_int c" using assms(1) by simp
      moreover have "- v < 0" using v(2) by (simp add: less_le_trans [rotated])
      ultimately show ?thesis using v(1) by simp
    qed
    then show ?thesis using 3 assms(1) by simp
  qed
qed

lemma to_double_underflow:
  assumes "0 < a" and "a < 1 / 2 ^ 1075"
  shows "to_double a = Fin 0"
proof -
  note b = ilog2_bounds [OF assms(1)]
  have "ilog2 a \<le> - 1022"
  proof (rule ccontr)
    assume "\<not> ilog2 a \<le> - 1022"
    then have "- 1022 \<le> ilog2 a" by simp
    then have "(2::rat) powi (- 1022) \<le> 2 powi ilog2 a" by (intro power_int_increasing) simp_all
    then have "(2::rat) powi (- 1022) \<le> a" using b(1) by (simp add: pow2_powi)
    moreover have "(1 / 2 ^ 1075 :: rat) < 2 powi (- 1022)"
      by (simp add: power_int_def inverse_eq_divide power_one_over)
    ultimately show False using assms(2) by simp
  qed
  then have m: "max (ilog2 a) (- 1022) = - 1022" by simp
  have q: "pow2 (- 1022 - 52) = 1 / 2 ^ 1074" by (simp add: pow2_def)
  have "a / (1 / 2 ^ 1074) = a * 2 ^ 1074" by simp
  also have "\<dots> < (1 / 2 ^ 1075) * 2 ^ 1074" using assms(2) by simp
  also have "\<dots> = 1 / 2" by simp
  finally have lt: "a / (1 / 2 ^ 1074) < 1 / 2" .
  have ge: "0 \<le> a / (1 / 2 ^ 1074)" using assms(1) by simp
  have fl: "\<lfloor>a / (1 / 2 ^ 1074)\<rfloor> = 0"
    using lt ge by (simp add: floor_eq_iff)
  have r: "round_half_even (a / (1 / 2 ^ 1074)) = 0"
    using lt by (simp only: round_half_even_def Let_def fl) simp
  have a0: "a \<noteq> 0" "\<bar>a\<bar> = a" using assms(1) by simp_all
  show ?thesis
    by (simp only: to_double_def Let_def a0 m q r if_False) (simp add: pow2_def)
qed

lemma to_double_numeral [simp]:
  "(numeral k :: int) < 2 ^ 53 \<Longrightarrow> to_double (numeral k) = Fin (numeral k)"
  "to_double 0 = Fin 0" "to_double 1 = Fin 1"
  using to_double_of_int [of "numeral k"] to_double_of_int [of 0] to_double_of_int [of 1]
  by simp_all

subsection \<open>The admission check\<close>

lemma PLAN_CONFIG_Some:
  "PLAN_CONFIG plan = Some limits \<Longrightarrow>
   plan = js ''free'' \<or> plan = js ''pro'' \<or> plan = js ''business'' \<or> plan = js ''enterprise''"
  by (auto simp add: PLAN_CONFIG_def split: if_splits)

lemma getRecommendedPlan_values:
  "getRecommendedPlan (js ''free'') = Some (js ''pro'')"
  "getRecommendedPlan (js ''pro'') = Some (js ''business'')"
  "getRecommendedPlan (js ''business'') = Some (js ''enterprise'')"
  "getRecommendedPlan (js ''enterprise'') = None"
  by (simp_all add: getRecommendedPlan_def hierarchy_def)

lemma or_undefined_getRecommendedPlan:
  "PLAN_CONFIG plan = Some limits \<Longrightarrow>
   or_undefined (getRecommendedPlan plan) = getRecommendedPlan plan"
  by (auto dest!: PLAN_CONFIG_Some simp add: getRecommendedPlan_values or_undefined_def)

lemma recommended_plan_JStr:
  "PLAN_CONFIG plan = Some limits \<Longrightarrow> recommended_plan (JStr plan) = getRecommendedPlan plan"
  by (simp add: recommended_plan_def or_undefined_getRecommendedPlan)

lemma to_string_JStr [simp]: "to_string fmt (JStr s) = Inr s"
  by (simp add: to_string_def)

text \<open>
  C3. checkLimits tests the daily bound before the monthly bound. Whenever the daily
  count read from the store is at or above the plan's daily limit, the result is a denial
  with reason "Daily limit exceeded", whatever the monthly count is, and required_plan is
  the next tier (getRecommendedPlan of the plan). When the daily count is not at or above
  the daily limit and the monthly count is at or above the monthly limit, the result is a
  denial with reason "Monthly limit exceeded" and the same required_plan. When the daily
  count is strictly below the daily limit and the monthly count strictly below the
  monthly limit, the result is allowed.
\<close>

theorem checkLimits_daily_before_monthly:
  assumes "getUsageStats env now developerId = Inr usage"
    and "PLAN_CONFIG plan = Some limits"
  shows "(js_ge (daily usage) (Fin (of_int (PlanLimits.daily limits))) \<longrightarrow>
            checkLimits fmt env now developerId (JStr plan) =
              Inr \<lparr>allowed = False, reason = Some (js ''Daily limit exceeded''),
                   required_plan = getRecommendedPlan plan, current_usage = Some usage\<rparr>)
       \<and> (\<not> js_ge (daily usage) (Fin (of_int (PlanLimits.daily limits)))
            \<and> js_ge (monthly usage) (Fin (of_int (PlanLimits.monthly limits))) \<longrightarrow>
            checkLimits fmt env now developerId (JStr plan) =
              Inr \<lparr>allowed = False, reason = Some (js ''Monthly limit exceeded''),
                   required_plan = getRecommendedPlan plan, current_usage = Some usage\<rparr>)
       \<and> (daily usage = Fin d \<and> d < of_int (PlanLimits.daily limits)
            \<and> monthly usage = Fin m \<and> m < of_int (PlanLimits.monthly limits) \<longrightarrow>
            checkLimits fmt env now developerId (JStr plan) =
              Inr \<lparr>allowed = True, reason = None, required_plan = None,
                   current_usage = Some usage\<rparr>)"
  using assms recommended_plan_JStr [OF assms(2)]
  by (simp add: checkLimits_def)

lemma usage_keys_example:
  "getDailyUsageKey 1700000000000 (js ''dev1'') = js ''usage:dev1:day:20231114''"
  "getMonthlyUsageKey 1700000000000 (js ''dev1'') = js ''usage:dev1:month:202311''"
  by code_simp+

lemma parseInt10_examples:
  "parseInt10 (js ''200'') = Fin 200"
  "parseInt10 (js ''199'') = Fin 199"
  "parseInt10 (js ''5999'') = Fin 5999"
  "parseInt10 (js ''6000'') = Fin 6000"
  by (simp_all add: parseInt10_def js_def is_js_whitespace_def is_digit_def decimal_value_def
      digits_value_def)

lemma getUsageStats_example:
  "getUsageStats (env_of [(js ''usage:dev1:day:20231114'', js ''200''),
                          (js ''usage:dev1:month:202311'', js ''6000'')])
     1700000000000 (js ''dev1'') = Inr \<lparr>daily = Fin 200, monthly = Fin 6000\<rparr>"
  "getUsageStats (env_of [(js ''usage:dev1:day:20231114'', js ''199''),
                          (js ''usage:dev1:month:202311'', js ''5999'')])
     1700000000000 (js ''dev1'') = Inr \<lparr>daily = Fin 199, monthly = Fin 5999\<rparr>"
  "getUsageStats (env_of [(js ''usage:dev1:day:20231114'', js ''199''),
                          (js ''usage:dev1:month:202311'', js ''6000'')])
     1700000000000 (js ''dev1'') = Inr \<lparr>daily = Fin 199, monthly = Fin 6000\<rparr>"
  by (simp_all add: getUsageStats_def usage_keys_example kv_get_def usage_count_def
      parseInt10_examples env_of_def kv_of_def)

lemma PLAN_CONFIG_free:
  "PLAN_CONFIG (js ''free'') = Some \<lparr>PlanLimits.daily = 200, monthly = 6000, apps = Some 1\<rparr>"
  by (simp add: PLAN_CONFIG_def)

theorem checkLimits_daily_before_monthly_witness:
  "checkLimits (\<lambda>q. []) (env_of [(js ''usage:dev1:day:20231114'', js ''200''),
                        (js ''usage:dev1:month:202311'', js ''6000'')])
     1700000000000 (js ''dev1'') (JStr (js ''free'')) =
     Inr \<lparr>allowed = False, reason = Some (js ''Daily limit exceeded''),
          required_plan = Some (js ''pro''),
          current_usage = Some \<lparr>daily = Fin 200, monthly = Fin 6000\<rparr>\<rparr>
   \<and> checkLimits (\<lambda>q. []) (env_of [(js ''usage:dev1:day:20231114'', js ''199''),
                          (js ''usage:dev1:month:202311'', js ''6000'')])
     1700000000000 (js ''dev1'') (JStr (js ''free'')) =
     Inr \<lparr>allowed = False, reason = Some (js ''Monthly limit exceeded''),
          required_plan = Some (js ''pro''),
          current_usage = Some \<lparr>daily = Fin 199, monthly = Fin 6000\<rparr>\<rparr>
   \<and> checkLimits (\<lambda>q. []) (env_of [(js ''usage:dev1:day:20231114'', js ''199''),
                          (js ''usage:dev1:month:202311'', js ''5999'')])
     1700000000000 (js ''dev1'') (JStr (js ''free'')) =
     Inr \<lparr>allowed = True, reason = None, required_plan = None,
          current_usage = Some \<lparr>daily = Fin 199, monthly = Fin 5999\<rparr>\<rparr>"
  using checkLimits_daily_before_monthly [OF getUsageStats_example(1) PLAN_CONFIG_free, of "\<lambda>q. []"]
    checkLimits_daily_before_monthly [OF getUsageStats_example(3) PLAN_CONFIG_free, of "\<lambda>q. []"]
    checkLimits_daily_before_monthly [OF getUsageStats_example(2) PLAN_CONFIG_free, of "\<lambda>q. []" 199 5999]
  by (simp add: getRecommendedPlan_values)

subsection \<open>Plan resolution\<close>

text \<open>
  C8. Plan resolution fails closed. For every owner, when no plan is cached and the lookup
  against the developers table fails (the request rejects, the response is not a success,
  or no row matches), getDeveloperPlan returns "free" and leaves the store as it was. When
  the lookup returns a row with a plan, that plan is returned and written to the cache key
  of the owner with a time to live of 300 seconds.
\<close>

theorem getDeveloperPlan_fails_closed:
  assumes "kv_get (APP_CACHE env) (plan_cache_key developerId) = Inr None"
  shows "(fetch (developers_url env developerId) = FetchRejects
          \<or> (fetch (developers_url env developerId) = FetchResponse status body
              \<and> \<not> response_ok status)
          \<or> fetch (developers_url env developerId) = FetchResponse status (Some (JArr []))
          \<longrightarrow> getDeveloperPlan fetch env developerId = (Inr (JStr (js ''free'')), env))
       \<and> (fetch (developers_url env developerId) = FetchResponse status (Some (JArr (row # rows)))
          \<and> response_ok status \<and> get_prop row (js ''plan'') = Inr (JStr p) \<and> p \<noteq> []
          \<longrightarrow> getDeveloperPlan fetch env developerId =
                (Inr (JStr p),
                 env\<lparr>APP_CACHE := (APP_CACHE env)\<lparr>entries := (entries (APP_CACHE env))
                   (plan_cache_key developerId \<mapsto> \<lparr>kv_value = p, expirationTtl = Some (Fin 300)\<rparr>)\<rparr>\<rparr>))"
proof -
  have r: "reachable (APP_CACHE env)"
    using assms by (simp add: kv_get_def split: if_splits)
  show ?thesis
    using assms r
    by (auto simp add: getDeveloperPlan_def getDeveloperPlan_try_def cached_plan_def kv_put_def
        kv_put_value_def js_or_def to_number_def)
qed

lemma kv_get_env_of_Nil: "kv_get (APP_CACHE (env_of [])) k = Inr None"
  by (simp add: kv_get_def env_of_def kv_of_def)

lemma developers_url_example:
  "developers_url (env_of []) (js ''dev1'') = js ''https://master.example/rest/v1/developers?id=eq.dev1''"
  by (simp add: developers_url_def env_of_def js_append)

theorem getDeveloperPlan_fails_closed_witness:
  "getDeveloperPlan (fetch_of []) (env_of []) (js ''dev1'') = (Inr (JStr (js ''free'')), env_of [])
   \<and> getDeveloperPlan
        (fetch_of [(js ''https://master.example/rest/v1/developers?id=eq.dev1'',
                    FetchResponse 200 (Some (JArr [JObj [(js ''id'', JStr (js ''dev1'')),
                                                        (js ''plan'', JStr (js ''pro''))]])))])
        (env_of []) (js ''dev1'') =
       (Inr (JStr (js ''pro'')),
        (env_of [])\<lparr>APP_CACHE := (APP_CACHE (env_of []))\<lparr>entries := (entries (APP_CACHE (env_of [])))
           (plan_cache_key (js ''dev1'') \<mapsto> \<lparr>kv_value = js ''pro'', expirationTtl = Some (Fin 300)\<rparr>)\<rparr>\<rparr>)"
  using getDeveloperPlan_fails_closed [where env = "env_of []" and developerId = "js ''dev1''"
      and fetch = "fetch_of []", OF kv_get_env_of_Nil]
    getDeveloperPlan_fails_closed [where env = "env_of []" and developerId = "js ''dev1''"
      and fetch = "fetch_of [(js ''https://master.example/rest/v1/developers?id=eq.dev1'',
                    FetchResponse 200 (Some (JArr [JObj [(js ''id'', JStr (js ''dev1'')),
                                                        (js ''plan'', JStr (js ''pro''))]])))]"
      and status = 200
      and row = "JObj [(js ''id'', JStr (js ''dev1'')), (js ''plan'', JStr (js ''pro''))]"
      and rows = "[]" and p = "js ''pro''", OF kv_get_env_of_Nil]
  by (simp add: fetch_of_def developers_url_example response_ok_def)


subsection \<open>normalizeUser\<close>

lemma is_object_not_nullish: "is_object raw \<Longrightarrow> \<not> nullish raw"
  by (cases raw) (simp_all add: nullish_def)

lemma is_object_get_prop: "is_object raw \<Longrightarrow> get_prop raw k = Inr (js_field raw k)"
  by (cases raw) (simp_all add: js_field_def)

lemma truthy_js_or: "truthy b \<Longrightarrow> truthy (js_or a b)"
  by (simp add: js_or_def)

lemma js_field_JObj:
  "js_field (JObj kvs) k = (case map_of kvs k of None \<Rightarrow> JUndefined | Some v \<Rightarrow> v)"
  by (simp add: js_field_def)

lemma WeChat_normalizeUser_object:
  "is_object raw \<Longrightarrow>
   \<exists>u. WeChat_normalizeUser raw = Inr u \<and> has_display_name u
     \<and> js_field u (js ''gender'') \<in> {JStr (js ''male''), JStr (js ''female''), JStr (js ''unknown'')}"
  using is_object_not_nullish [of raw]
  by (simp add: WeChat_normalizeUser_def has_display_name_def js_field_JObj truthy_js_or)

lemma QQ_normalizeUser_object:
  "is_object raw \<Longrightarrow>
   \<exists>u. QQ_normalizeUser raw = Inr u \<and> has_display_name u
     \<and> js_field u (js ''gender'') \<in> {JStr (js ''male''), JStr (js ''female''), JStr (js ''unknown'')}"
  using is_object_not_nullish [of raw]
  by (simp add: QQ_normalizeUser_def has_display_name_def js_field_JObj truthy_js_or)

lemma Douyin_normalizeUser_object:
  "is_object raw \<Longrightarrow>
   \<exists>u. Douyin_normalizeUser raw = Inr u \<and> has_display_name u
     \<and> js_field u (js ''gender'') \<in> {JStr (js ''male''), JStr (js ''female''), JStr (js ''unknown'')}"
  using is_object_not_nullish [of raw]
  by (simp add: Douyin_normalizeUser_def has_display_name_def js_field_JObj truthy_js_or)

lemma Weibo_normalizeUser_object:
  "is_object raw \<Longrightarrow>
   \<exists>u. Weibo_normalizeUser raw = Inr u \<and> has_display_name u
     \<and> js_field u (js ''gender'') \<in> {JStr (js ''male''), JStr (js ''female''), JStr (js ''unknown'')}"
  using is_object_not_nullish [of raw]
  by (simp add: Weibo_normalizeUser_def has_display_name_def js_field_JObj truthy_js_or)

lemma DingTalk_normalizeUser_object:
  "is_object raw \<Longrightarrow>
   \<exists>u. DingTalk_normalizeUser raw = Inr u \<and> has_display_name u
     \<and> js_field u (js ''gender'') = JUndefined"
  using is_object_not_nullish [of raw]
  by (simp add: DingTalk_normalizeUser_def has_display_name_def js_field_JObj truthy_js_or)

lemma Alipay_nickname_truthy:
  "truthy (js_field raw (js ''nick_name'')) \<or> openid = JStr s \<Longrightarrow>
   \<exists>n. Alipay_nickname fmt raw openid = Inr n \<and> truthy n"
  by (auto simp add: Alipay_nickname_def)

lemma Alipay_normalizeUser_object:
  assumes "is_object raw"
    and "truthy (js_field raw (js ''nick_name'')) \<or> js_field raw (js ''user_id'') = JStr s"
  shows "\<exists>u. Alipay_normalizeUser fmt raw = Inr u \<and> has_display_name u
     \<and> js_field u (js ''gender'') =
         (if js_field raw (js ''gender'') = JStr (js ''M'') then JStr (js ''male'')
          else if js_field raw (js ''gender'') = JStr (js ''F'') then JStr (js ''female'')
          else JUndefined)"
proof -
  obtain n where n: "Alipay_nickname fmt raw (js_field raw (js ''user_id'')) = Inr n" "truthy n"
    using Alipay_nickname_truthy [OF assms(2)] by blast
  show ?thesis
    using n by (simp add: Alipay_normalizeUser_def is_object_get_prop [OF assms(1)]
        has_display_name_def js_field_JObj)
qed

text \<open>
  What holds of the adapters. On every payload that is an object, normalizeUser of each
  adapter returns a user with a display name; for Alipay this needs the payload to carry
  a truthy nick_name or a string user_id, since the fallback name is built from the last
  four characters of user_id. The WeChat, QQ, Douyin and Weibo adapters give the gender
  "male", "female" or "unknown".
\<close>

lemma normalizeUser_on_objects:
  assumes "is_object raw"
    and "p = AlipayProvider \<longrightarrow>
           truthy (js_field raw (js ''nick_name'')) \<or> (\<exists>s. js_field raw (js ''user_id'') = JStr s)"
  shows "\<exists>u. normalizeUser fmt p raw = Inr u \<and> has_display_name u
           \<and> (p \<in> {WeChatProvider, QQProvider, DouyinProvider, WeiboProvider} \<longrightarrow>
                js_field u (js ''gender'') \<in> {JStr (js ''male''), JStr (js ''female''), JStr (js ''unknown'')})
           \<and> (p = DingTalkProvider \<longrightarrow> js_field u (js ''gender'') = JUndefined)
           \<and> (p = AlipayProvider \<longrightarrow>
                js_field u (js ''gender'') =
                  (if js_field raw (js ''gender'') = JStr (js ''M'') then JStr (js ''male'')
                   else if js_field raw (js ''gender'') = JStr (js ''F'') then JStr (js ''female'')
                   else JUndefined))"
proof (cases p)
  case AlipayProvider
  then obtain s where "truthy (js_field raw (js ''nick_name'')) \<or> js_field raw (js ''user_id'') = JStr s"
    using assms(2) by blast
  from Alipay_normalizeUser_object [OF assms(1) this] AlipayProvider show ?thesis
    by simp
next
  case WeChatProvider
  with WeChat_normalizeUser_object [OF assms(1)] show ?thesis by simp
next
  case QQProvider
  with QQ_normalizeUser_object [OF assms(1)] show ?thesis by simp
next
  case DouyinProvider
  with Douyin_normalizeUser_object [OF assms(1)] show ?thesis by simp
next
  case DingTalkProvider
  with DingTalk_normalizeUser_object [OF assms(1)] show ?thesis by simp
next
  case WeiboProvider
  with Weibo_normalizeUser_object [OF assms(1)] show ?thesis by simp
qed

text \<open>
  When the provider omits the nickname (the field is absent or otherwise falsy), the
  display name is the fallback name of the adapter; the Alipay adapter appends the last
  four characters of a string user_id.
\<close>

lemma normalizeUser_fallback_name:
  assumes "is_object raw"
  shows "\<not> truthy (js_field raw (js ''nickname'')) \<Longrightarrow>
           \<exists>u. normalizeUser fmt WeChatProvider raw = Inr u
             \<and> js_field u (js ''nickname'') = JStr [24494, 20449, 29992, 25143]"
    and "\<not> truthy (js_field raw (js ''nickname'')) \<Longrightarrow>
           \<exists>u. normalizeUser fmt QQProvider raw = Inr u
             \<and> js_field u (js ''nickname'') = JStr [81, 81, 29992, 25143]"
    and "\<not> truthy (js_field raw (js ''nickname'')) \<Longrightarrow>
           \<exists>u. normalizeUser fmt DouyinProvider raw = Inr u
             \<and> js_field u (js ''nickname'') = JStr [25238, 38899, 29992, 25143]"
    and "\<not> truthy (js_field raw (js ''nick'')) \<Longrightarrow> \<not> truthy (js_field raw (js ''name'')) \<Longrightarrow>
           \<exists>u. normalizeUser fmt DingTalkProvider raw = Inr u
             \<and> js_field u (js ''nickname'') = JStr [38025, 38025, 29992, 25143]"
    and "\<not> truthy (js_field raw (js ''screen_name'')) \<Longrightarrow>
           \<exists>u. normalizeUser fmt WeiboProvider raw = Inr u
             \<and> js_field u (js ''nickname'') = JStr [24494, 21338, 29992, 25143]"
    and "\<not> truthy (js_field raw (js ''nick_name'')) \<Longrightarrow> js_field raw (js ''user_id'') = JStr s \<Longrightarrow>
           \<exists>u. normalizeUser fmt AlipayProvider raw = Inr u
             \<and> js_field u (js ''nickname'') =
                 JStr ([25903, 20184, 23453, 29992, 25143] @ drop (length s - 4) s)"
  using is_object_not_nullish [OF assms] is_object_get_prop [OF assms]
  by (simp_all add: WeChat_normalizeUser_def QQ_normalizeUser_def Douyin_normalizeUser_def
      DingTalk_normalizeUser_def Weibo_normalizeUser_def Alipay_normalizeUser_def
      Alipay_nickname_def js_field_JObj js_or_def)

lemma normalizeUser_on_objects_examples:
  "(\<exists>u. normalizeUser (\<lambda>r. []) AlipayProvider alipay_payload = Inr u \<and> has_display_name u
        \<and> js_field u (js ''gender'') = JUndefined)
   \<and> (\<exists>u. normalizeUser (\<lambda>r. []) DingTalkProvider dingtalk_payload = Inr u \<and> has_display_name u
        \<and> js_field u (js ''gender'') = JUndefined)
   \<and> (\<exists>u. normalizeUser (\<lambda>r. []) WeChatProvider dingtalk_payload = Inr u \<and> has_display_name u
        \<and> js_field u (js ''gender'') \<in> {JStr (js ''male''), JStr (js ''female''), JStr (js ''unknown'')})"
  using normalizeUser_on_objects [of alipay_payload AlipayProvider "\<lambda>r. []"]
    normalizeUser_on_objects [of dingtalk_payload DingTalkProvider "\<lambda>r. []"]
    normalizeUser_on_objects [of dingtalk_payload WeChatProvider "\<lambda>r. []"]
  by (simp add: alipay_payload_def dingtalk_payload_def js_field_JObj)

text \<open>
  C9 fails on the code. A user-info payload of Alipay with a user_id and an avatar and no
  gender is an object, as the provider's documented response is. The Alipay adapter
  returns it with the gender \<open>undefined\<close>, which it writes for every value other than
  'M' and 'F', where the WeChat, QQ, Douyin and Weibo adapters write "unknown"; and the
  user that the DingTalk adapter returns has no gender at all.
\<close>

theorem normalizeUser_gender_undefined:
  "is_object alipay_payload
   \<and> normalizeUser (\<lambda>r. []) AlipayProvider alipay_payload =
       Inr (JObj [(js ''provider'', JStr (js ''alipay'')),
                  (js ''openid'', JStr (js ''2088102104794936'')),
                  (js ''nickname'', JStr ([25903, 20184, 23453, 29992, 25143] @ js ''4936'')),
                  (js ''avatar'', JStr (js ''https://a.example/i.png'')),
                  (js ''gender'', JUndefined),
                  (js ''raw'', alipay_payload)])
   \<and> \<not> has_defined_gender
         (JObj [(js ''provider'', JStr (js ''alipay'')),
                  (js ''openid'', JStr (js ''2088102104794936'')),
                  (js ''nickname'', JStr ([25903, 20184, 23453, 29992, 25143] @ js ''4936'')),
                  (js ''avatar'', JStr (js ''https://a.example/i.png'')),
                  (js ''gender'', JUndefined),
                  (js ''raw'', alipay_payload)])
   \<and> is_object dingtalk_payload
   \<and> normalizeUser (\<lambda>r. []) DingTalkProvider dingtalk_payload =
       Inr (JObj [(js ''provider'', JStr (js ''dingtalk'')),
                  (js ''openid'', JStr (js ''oid1'')),
                  (js ''unionid'', JUndefined),
                  (js ''nickname'', JStr (js ''Li'')),
                  (js ''avatar'', JUndefined),
                  (js ''raw'', dingtalk_payload)])
   \<and> \<not> has_defined_gender
         (JObj [(js ''provider'', JStr (js ''dingtalk'')),
                  (js ''openid'', JStr (js ''oid1'')),
                  (js ''unionid'', JUndefined),
                  (js ''nickname'', JStr (js ''Li'')),
                  (js ''avatar'', JUndefined),
                  (js ''raw'', dingtalk_payload)])"
  by (simp add: alipay_payload_def dingtalk_payload_def Alipay_normalizeUser_def
      Alipay_nickname_def DingTalk_normalizeUser_def nullish_def js_field_JObj
      has_defined_gender_def js_or_def js_def)


subsection \<open>Base64\<close>

lemma b64_index_char: "v < 64 \<Longrightarrow> b64_index (b64_char v) = Some v"
  by (auto simp add: b64_index_def b64_char_def)

lemma b64_char_not_pad: "v < 64 \<Longrightarrow> b64_char v \<noteq> 61"
  by (auto simp add: b64_char_def)

lemma b64_char_not_ws: "v < 64 \<Longrightarrow> \<not> is_ascii_whitespace (b64_char v)"
  by (auto simp add: b64_char_def is_ascii_whitespace_def)

lemma div16_lt: "(b::nat) < 256 \<Longrightarrow> b div 16 < 16"
  by (simp add: less_mult_imp_div_less)

lemma div64_lt: "(c::nat) < 256 \<Longrightarrow> c div 64 < 4"
  by (simp add: less_mult_imp_div_less)

lemma div4_lt: "(a::nat) < 256 \<Longrightarrow> a div 4 < 64"
  by (simp add: less_mult_imp_div_less)

lemma sext2: "(b::nat) < 256 \<Longrightarrow> a mod 4 * 16 + b div 16 < 64"
  using div16_lt [of b] mod_less_divisor [of 4 a] by linarith

lemma sext3: "(c::nat) < 256 \<Longrightarrow> b mod 16 * 4 + c div 64 < 64"
  using div64_lt [of c] mod_less_divisor [of 16 b] by linarith

lemma sext5: "(a::nat) mod 4 * 16 < 64"
  using mod_less_divisor [of 4 a] by linarith

lemma sext6: "(b::nat) mod 16 * 4 < 64"
  using mod_less_divisor [of 16 b] by linarith

lemma oct1: "(b::nat) < 256 \<Longrightarrow> a div 4 * 4 + (a mod 4 * 16 + b div 16) div 16 = a"
  using div16_lt [of b] by simp

lemma oct2:
  "(b::nat) < 256 \<Longrightarrow> c < 256 \<Longrightarrow>
   (a mod 4 * 16 + b div 16) mod 16 * 16 + (b mod 16 * 4 + c div 64) div 4 = b"
  using div16_lt [of b] div64_lt [of c] by simp

lemma oct3: "(c::nat) < 256 \<Longrightarrow> (b mod 16 * 4 + c div 64) mod 4 * 64 + c mod 64 = c"
  using div64_lt [of c] by simp

lemma oct4: "a div 4 * 4 + (a mod 4 * 16) div 16 = (a::nat)"
  by simp

lemma oct5: "(b::nat) < 256 \<Longrightarrow> (a mod 4 * 16 + b div 16) mod 16 * 16 + (b mod 16 * 4) div 4 = b"
  using div16_lt [of b] by simp

lemma sextets_lt_64: "list_all (\<lambda>c. c < 256) bs \<Longrightarrow> list_all (\<lambda>v. v < 64) (sextets bs)"
  by (induction bs rule: sextets.induct) (simp_all add: div4_lt sext2 sext3 sext5 sext6)

lemma length_sextets_mod4: "length (sextets bs) mod 4 \<noteq> 1"
  by (induction bs rule: sextets.induct) simp_all

lemma octets_sextets: "list_all (\<lambda>c. c < 256) bs \<Longrightarrow> octets (sextets bs) = bs"
proof (induction bs rule: sextets.induct)
  case (1 a b c r)
  then have "a < 256" "b < 256" "c < 256" "octets (sextets r) = r"
    by simp_all
  then show ?case
    by (simp only: sextets.simps octets.simps append_Cons append_Nil oct1 oct2 oct3)
next
  case (2 a b)
  then have "a < 256" "b < 256"
    by simp_all
  then show ?case
    by (simp only: sextets.simps octets.simps oct1 oct5)
next
  case (3 a)
  then show ?case
    by (simp only: sextets.simps octets.simps oct4)
next
  case 4
  then show ?case by simp
qed


lemma drop_last_two_neq:
  assumes "61 \<notin> set (m::nat list)"
  shows "drop (length m - 2) m \<noteq> [61, 61]" and "drop (length m - Suc 0) m \<noteq> [61]"
proof -
  show "drop (length m - 2) m \<noteq> [61, 61]"
  proof
    assume "drop (length m - 2) m = [61, 61]"
    then have "61 \<in> set (drop (length m - 2) m)" by simp
    then show False using assms by (meson in_set_dropD)
  qed
  show "drop (length m - Suc 0) m \<noteq> [61]"
  proof
    assume "drop (length m - Suc 0) m = [61]"
    then have "61 \<in> set (drop (length m - Suc 0) m)" by simp
    then show False using assms by (meson in_set_dropD)
  qed
qed

lemma strip_padding_0: "61 \<notin> set m \<Longrightarrow> strip_padding m = m"
  by (simp add: strip_padding_def drop_last_two_neq)

lemma strip_padding_1:
  assumes "61 \<notin> set m" and "length m mod 4 = 3"
  shows "strip_padding (m @ [61]) = m"
proof -
  have ne: "m \<noteq> []" using assms(2) by auto
  have "drop (length m - Suc 0) m \<noteq> [61]"
    using drop_last_two_neq(2) [OF assms(1)] .
  moreover have "length m - Suc 0 < length m" using ne by simp
  ultimately have "drop (length m - Suc 0) m @ [61] \<noteq> [61, 61]"
    by (cases "drop (length m - Suc 0) m") auto
  moreover have "Suc (length m) mod 4 = 0" using assms(2) by presburger
  ultimately show ?thesis
    using ne by (simp add: strip_padding_def)
qed

lemma strip_padding_2: "length m mod 4 = 2 \<Longrightarrow> strip_padding (m @ [61, 61]) = m"
proof -
  assume "length m mod 4 = 2"
  then have "Suc (Suc (length m)) mod 4 = 0" by presburger
  then show ?thesis by (simp add: strip_padding_def)
qed


lemma b64_text_facts:
  assumes "list_all (\<lambda>v. v < 64) g"
  shows "61 \<notin> set (map b64_char g)"
    and "filter (\<lambda>c. \<not> is_ascii_whitespace c) (map b64_char g) = map b64_char g"
    and "\<not> list_ex (\<lambda>c. b64_index c = None) (map b64_char g)"
    and "map (\<lambda>c. the (b64_index c)) (map b64_char g) = g"
  using assms
  by (induction g) (auto simp add: b64_char_not_pad b64_char_not_ws b64_index_char)

lemma not_ws_61: "\<not> is_ascii_whitespace 61"
  by (simp add: is_ascii_whitespace_def)

lemma atob_btoa:
  assumes "btoa s = Inr t"
  shows "atob t = Inr s"
proof -
  have bytes: "list_all (\<lambda>c. c < 256) s"
    using assms by (auto simp add: btoa_def list_ex_iff list_all_iff not_less split: if_splits)
  define g where "g = sextets s"
  define m where "m = map b64_char g"
  have g64: "list_all (\<lambda>v. v < 64) g"
    using sextets_lt_64 [OF bytes] by (simp add: g_def)
  note f = b64_text_facts [OF g64, folded m_def]
  have t: "t = m @ replicate ((4 - length g mod 4) mod 4) 61"
    using assms by (auto simp add: btoa_def Let_def g_def m_def split: if_splits)
  have lm: "length m = length g" by (simp add: m_def)
  have flt: "filter (\<lambda>c. \<not> is_ascii_whitespace c) t = t"
    using f(2) by (simp add: t not_ws_61)
  have "length g mod 4 = 0 \<or> length g mod 4 = 2 \<or> length g mod 4 = 3"
    using length_sextets_mod4 [of s] by (simp add: g_def) presburger
  then have sp: "strip_padding t = m"
  proof (elim disjE)
    assume "length g mod 4 = 0"
    then show ?thesis using strip_padding_0 [OF f(1)] by (simp add: t)
  next
    assume h: "length g mod 4 = 2"
    then have "replicate ((4 - length g mod 4) mod 4) (61::nat) = [61, 61]"
      by (simp add: numeral_2_eq_2)
    then show ?thesis using strip_padding_2 [of m] h lm by (simp add: t)
  next
    assume h: "length g mod 4 = 3"
    then have "replicate ((4 - length g mod 4) mod 4) (61::nat) = [61]"
      by simp
    then show ?thesis using strip_padding_1 [OF f(1)] h lm by (simp add: t)
  qed
  have "length m mod 4 \<noteq> 1"
    using length_sextets_mod4 [of s] by (simp add: lm g_def)
  then show ?thesis
    using f(3) f(4) octets_sextets [OF bytes]
    by (simp add: atob_def flt sp g_def)
qed

subsection \<open>JSON strings\<close>

lemma hex_digit_hex_char: "d < 16 \<Longrightarrow> hex_digit (hex_char d) = Some d"
  by (auto simp add: hex_digit_def hex_char_def)

lemma hex_value: "((c div 4096 * 16 + c div 256 mod 16) * 16 + c div 16 mod 16) * 16 + c mod 16 = (c::nat)"
proof -
  have a: "c div 4096 = c div 256 div 16" by (simp add: div_mult2_eq)
  have b: "c div 256 = c div 16 div 16" by (simp add: div_mult2_eq)
  have "c div 4096 * 16 + c div 256 mod 16 = c div 256"
    unfolding a by simp
  moreover have "c div 256 * 16 + c div 16 mod 16 = c div 16"
    unfolding b by simp
  ultimately show ?thesis by simp
qed

lemma hex4_unicode_escape:
  assumes "c < 65536"
  shows "hex4 (hex_char (c div 4096)) (hex_char (c div 256 mod 16))
           (hex_char (c div 16 mod 16)) (hex_char (c mod 16)) = Some c"
proof -
  have "c div 4096 < 16" using assms by (simp add: less_mult_imp_div_less)
  then have h: "hex_digit (hex_char (c div 4096)) = Some (c div 4096)"
    "hex_digit (hex_char (c div 256 mod 16)) = Some (c div 256 mod 16)"
    "hex_digit (hex_char (c div 16 mod 16)) = Some (c div 16 mod 16)"
    "hex_digit (hex_char (c mod 16)) = Some (c mod 16)"
    by (simp_all add: hex_digit_hex_char)
  show ?thesis
    unfolding hex4_def by (simp only: h prod.case option.case hex_value)
qed

lemma parse_unicode_escape:
  "c < 65536 \<Longrightarrow>
   parse_string_body (unicode_escape c @ r) = cons_char c (parse_string_body r)"
  by (simp add: unicode_escape_def hex4_unicode_escape)

lemma parse_JSON_escape:
  "parse_string_body (JSON_escape c @ r) = cons_char c (parse_string_body r)"
proof -
  consider "c = 34" | "c = 92" | "c = 8" | "c = 12" | "c = 10" | "c = 13" | "c = 9"
    | "c < 32 \<or> is_high_surrogate c \<or> is_low_surrogate c"
      "c \<notin> {34, 92, 8, 12, 10, 13, 9}"
    | "\<not> (c < 32 \<or> is_high_surrogate c \<or> is_low_surrogate c)" "c \<notin> {34, 92, 8, 12, 10, 13, 9}"
    by blast
  then show ?thesis
  proof cases
    case 8
    then have "c < 65536"
      by (auto simp add: is_high_surrogate_def is_low_surrogate_def)
    then show ?thesis
      using 8 parse_unicode_escape [of c r] by (simp add: JSON_escape_def)
  next
    case 9
    then show ?thesis by (simp add: JSON_escape_def)
  qed (simp_all add: JSON_escape_def unescape_def)
qed

lemma parse_JSON_quote_body:
  "parse_string_body (JSON_quote_body s @ r) =
   (case parse_string_body r of None \<Rightarrow> None | Some (s', t) \<Rightarrow> Some (s @ s', t))"
proof (induction s rule: JSON_quote_body.induct)
  case 1
  show ?case by (simp split: option.splits)
next
  case (2 c)
  show ?case
    by (simp add: parse_JSON_escape cons_char_def split: option.splits)
next
  case (3 c d cs)
  show ?case
  proof (cases "is_high_surrogate c \<and> is_low_surrogate d")
    case True
    then have "c \<noteq> 34" "c \<noteq> 92" "\<not> c < 32" "d \<noteq> 34" "d \<noteq> 92" "\<not> d < 32"
      by (auto simp add: is_high_surrogate_def is_low_surrogate_def)
    then show ?thesis
      using True 3(1) [OF True]
      by (simp add: cons_char_def split: option.splits)
  next
    case False
    then have eq: "JSON_quote_body (c # d # cs) = JSON_escape c @ JSON_quote_body (d # cs)"
      by auto
    show ?thesis
      unfolding eq using 3(2) [OF False]
      by (simp add: parse_JSON_escape cons_char_def split: option.splits)
  qed
qed

lemma parse_JSON_quote:
  "parse_string_body (JSON_quote_body s @ 34 # r) = Some (s, r)"
  by (simp add: parse_JSON_quote_body)

subsection \<open>JSON numbers\<close>

lemma decimal_digits: "list_all is_digit (decimal n)"
proof (induction n rule: decimal.induct)
  case (1 n)
  show ?case
  proof (cases "n < 10")
    case True
    then show ?thesis by (simp add: decimal.simps [of n] is_digit_def)
  next
    case False
    have "n mod 10 < 10" by simp
    then have "is_digit (48 + n mod 10)" by (simp add: is_digit_def)
    then show ?thesis using 1 [OF False] False by (simp add: decimal.simps [of n])
  qed
qed

lemma decimal_not_Nil: "decimal n \<noteq> []"
  by (subst decimal.simps) simp

lemma digits_value_snoc: "digits_value b (ds @ [d]) = digits_value b ds * b + d"
  by (simp add: digits_value_def)

lemma decimal_value_decimal: "decimal_value (decimal n) = n"
proof (induction n rule: decimal.induct)
  case (1 n)
  show ?case
  proof (cases "n < 10")
    case True
    then show ?thesis by (simp add: decimal.simps [of n] decimal_value_def digits_value_def)
  next
    case False
    have "decimal_value (decimal (n div 10) @ [48 + n mod 10])
          = decimal_value (decimal (n div 10)) * 10 + n mod 10"
      by (simp add: decimal_value_def digits_value_snoc)
    then show ?thesis using 1 [OF False] False by (simp add: decimal.simps [of n])
  qed
qed

lemma hd_decimal_pos: "0 < n \<Longrightarrow> hd (decimal n) \<noteq> 48"
proof (induction n rule: decimal.induct)
  case (1 n)
  show ?case
  proof (cases "n < 10")
    case True
    then show ?thesis using 1(2) by (simp add: decimal.simps [of n])
  next
    case False
    then have "0 < n div 10" by simp
    then have "hd (decimal (n div 10)) \<noteq> 48" using 1(1) [OF False] by simp
    then show ?thesis using False decimal_not_Nil [of "n div 10"]
      by (simp add: decimal.simps [of n])
  qed
qed

lemma decimal_no_leading_zero: "\<not> (hd (decimal n) = 48 \<and> length (decimal n) > 1)"
proof (cases "n = 0")
  case True
  then show ?thesis by (simp add: decimal.simps [of 0])
next
  case False
  then show ?thesis using hd_decimal_pos [of n] by simp
qed

lemma hd_decimal_digit: "is_digit (hd (decimal n))"
  using decimal_digits [of n] decimal_not_Nil [of n]
  by (cases "decimal n") simp_all

lemma takeWhile_digits:
  "list_all is_digit ds \<Longrightarrow> \<not> is_digit c \<Longrightarrow> takeWhile is_digit (ds @ c # r) = ds"
  by (induction ds) simp_all

lemma dropWhile_digits:
  "list_all is_digit ds \<Longrightarrow> \<not> is_digit c \<Longrightarrow> dropWhile is_digit (ds @ c # r) = c # r"
  by (induction ds) simp_all

lemma parse_number_decimal:
  assumes "\<not> is_digit c" "c \<noteq> 46" "c \<noteq> 101" "c \<noteq> 69"
  shows "parse_number (decimal n @ c # r) = Some (to_double (of_nat n), c # r)"
proof -
  have hd: "hd (decimal n @ c # r) = hd (decimal n)"
    using decimal_not_Nil [of n] by simp
  have "hd (decimal n) \<noteq> 45"
    using hd_decimal_digit [of n] by (auto simp add: is_digit_def)
  then show ?thesis
    using assms decimal_no_leading_zero [of n] decimal_not_Nil [of n]
    by (simp add: parse_number_def Let_def hd takeWhile_digits dropWhile_digits decimal_digits
        parse_fraction_def parse_exponent_def scale10_def decimal_value_decimal)
qed

lemma parse_number_int:
  assumes "\<not> is_digit c" "c \<noteq> 46" "c \<noteq> 101" "c \<noteq> 69"
  shows "parse_number (int_to_string t @ c # r) = Some (to_double (of_int t), c # r)"
proof (cases "t < 0")
  case False
  then show ?thesis
    using parse_number_decimal [OF assms, of "nat t" r] by (simp add: int_to_string_def)
next
  case True
  have hd: "hd (decimal (nat (- t)) @ c # r) = hd (decimal (nat (- t)))"
    using decimal_not_Nil [of "nat (- t)"] by simp
  have "(of_nat (nat (- t)) :: rat) = - of_int t"
    using True by (simp add: of_nat_nat)
  then show ?thesis
    using True assms decimal_no_leading_zero [of "nat (- t)"] decimal_not_Nil [of "nat (- t)"]
    by (simp add: int_to_string_def parse_number_def Let_def takeWhile_digits dropWhile_digits
        decimal_digits parse_fraction_def parse_exponent_def scale10_def decimal_value_decimal)
qed

subsection \<open>The JSON text of a state token\<close>

lemma skip_ws_Cons: "\<not> is_json_ws c \<Longrightarrow> skip_ws (c # r) = c # r"
  by (simp add: skip_ws_def)

lemma is_json_ws_simps:
  "\<not> is_json_ws 34" "\<not> is_json_ws 58" "\<not> is_json_ws 44" "\<not> is_json_ws 125" "\<not> is_json_ws 45"
  by (simp_all add: is_json_ws_def)

lemma is_digit_not_ws: "is_digit c \<Longrightarrow> \<not> is_json_ws c"
  by (auto simp add: is_digit_def is_json_ws_def)

lemma parse_value_string:
  "parse_value (Suc n) (JSON_quote s @ r) = Some (JStr s, r)"
  by (simp add: JSON_quote_def skip_ws_Cons is_json_ws_simps parse_JSON_quote)

lemma int_to_string_Cons:
  "\<exists>c cs. int_to_string t = c # cs \<and> (is_digit c \<or> c = 45)"
proof (cases "t < 0")
  case True
  then show ?thesis by (simp add: int_to_string_def)
next
  case False
  then show ?thesis
    using hd_decimal_digit [of "nat t"] decimal_not_Nil [of "nat t"]
    by (cases "decimal (nat t)") (simp_all add: int_to_string_def)
qed

lemma parse_value_number:
  assumes "is_digit c \<or> c = 45"
  shows "parse_value (Suc n) (c # r) =
         (case parse_number (c # r) of None \<Rightarrow> None | Some (x, r') \<Rightarrow> Some (JNum x, r'))"
proof -
  have "\<not> is_json_ws c" "c \<noteq> 123" "c \<noteq> 91" "c \<noteq> 34" "c \<noteq> 116" "c \<noteq> 102" "c \<noteq> 110"
    using assms by (auto simp add: is_digit_def is_json_ws_def)
  then show ?thesis
    by (simp add: skip_ws_Cons js_def)
qed

lemma parse_value_int:
  assumes "\<not> is_digit c" "c \<noteq> 46" "c \<noteq> 101" "c \<noteq> 69"
  shows "parse_value (Suc n) (int_to_string t @ c # r) = Some (JNum (to_double (of_int t)), c # r)"
proof -
  obtain d ds where d: "int_to_string t = d # ds" "is_digit d \<or> d = 45"
    using int_to_string_Cons by blast
  have "parse_value (Suc n) (d # ds @ c # r) =
        (case parse_number (d # ds @ c # r) of None \<Rightarrow> None | Some (x, r') \<Rightarrow> Some (JNum x, r'))"
    using parse_value_number [OF d(2)] .
  moreover have "parse_number (d # ds @ c # r) = Some (to_double (of_int t), c # r)"
    using parse_number_int [OF assms, of t r] d(1) by simp
  ultimately show ?thesis using d(1) by simp
qed

lemma parse_members_step:
  assumes "parse_value n (vt @ c # rest) = Some (v, c # rest)"
  shows "parse_members (Suc n) acc (JSON_quote k @ 58 # vt @ c # rest) =
           (if c = 44 then parse_members n (obj_put acc k v) rest
            else if c = 125 then Some (JObj (obj_put acc k v), rest)
            else if is_json_ws c then
              (case skip_ws rest of
                 [] \<Rightarrow> None
               | c2 # r4 \<Rightarrow>
                   if c2 = 44 then parse_members n (obj_put acc k v) r4
                   else if c2 = 125 then Some (JObj (obj_put acc k v), r4)
                   else None)
            else None)"
  using assms
  by (auto simp add: JSON_quote_def skip_ws_Cons is_json_ws_simps parse_JSON_quote skip_ws_def
      is_json_ws_def)

lemma is_digit_simps:
  "\<not> is_digit 125" "\<not> is_digit 44"
  by (simp_all add: is_digit_def)

lemma parse_state_text:
  "parse_value (Suc (Suc (Suc (Suc (Suc (Suc (Suc m))))))) (state_text a p r n t) =
   Some (JObj [(js ''app_id'', JStr a), (js ''provider'', JStr p), (js ''redirect'', JStr r),
               (js ''nonce'', JStr n), (js ''timestamp'', JNum (to_double (of_int t)))], [])"
proof -
  have v5: "parse_value (Suc m) (int_to_string t @ [125]) =
      Some (JNum (to_double (of_int t)), [125])"
    by (rule parse_value_int) (simp_all add: is_digit_def)
  have q: "\<And>s x. skip_ws (JSON_quote s @ x) = JSON_quote s @ x"
    by (simp add: JSON_quote_def skip_ws_Cons is_json_ws_simps)
  have hq: "\<And>s x. hd (JSON_quote s @ x) = 34"
    by (simp add: JSON_quote_def)
  have nq: "\<And>s x. JSON_quote s @ x \<noteq> []"
    by (simp add: JSON_quote_def)
  show ?thesis
    unfolding state_text_def JSON_object_def JSON_members.simps
    apply (subst parse_value.simps)
    apply (simp add: skip_ws_Cons is_json_ws_def q hq nq del: parse_value.simps parse_members.simps)
    apply (subst parse_members_step [OF parse_value_string])
    apply (simp del: parse_value.simps parse_members.simps)
    apply (subst parse_members_step [OF parse_value_string])
    apply (simp del: parse_value.simps parse_members.simps)
    apply (subst parse_members_step [OF parse_value_string])
    apply (simp del: parse_value.simps parse_members.simps)
    apply (subst parse_members_step [OF parse_value_string])
    apply (simp del: parse_value.simps parse_members.simps)
    apply (subst parse_members_step [OF v5])
    apply (simp add: obj_put_def del: parse_value.simps parse_members.simps)
    done
qed

lemma length_state_text: "7 \<le> 2 * length (state_text a p r n t) + 2"
  by (simp add: state_text_def JSON_object_def JSON_quote_def)

lemma JSON_parse_state_text_double:
  "JSON_parse (state_text a p r n t) =
     Inr (JObj [(js ''app_id'', JStr a), (js ''provider'', JStr p), (js ''redirect'', JStr r),
                (js ''nonce'', JStr n), (js ''timestamp'', JNum (to_double (of_int t)))])"
proof -
  let ?d = "JObj [(js ''app_id'', JStr a), (js ''provider'', JStr p), (js ''redirect'', JStr r),
                (js ''nonce'', JStr n), (js ''timestamp'', JNum (to_double (of_int t)))]"
  obtain m where m: "2 * length (state_text a p r n t) + 2 = 7 + m"
    using length_state_text [of a p r n t] le_Suc_ex by blast
  have eq: "7 + m = Suc (Suc (Suc (Suc (Suc (Suc (Suc m))))))" by simp
  have "parse_value (7 + m) (state_text a p r n t) = Some (?d, [])"
    unfolding eq by (rule parse_state_text)
  then have "parse_value (2 * length (state_text a p r n t) + 2) (state_text a p r n t)
             = Some (?d, [])"
    unfolding m .
  then show ?thesis
    unfolding JSON_parse_def by (simp add: skip_ws_def del: parse_value.simps)
qed

text \<open>
  A clock reading is a time value, an integer of at most 8640000000000000 in absolute
  value, and is a double: the text of a state token issued at such a reading parses to the
  state object.
\<close>

lemma JSON_parse_state_text:
  "\<bar>t\<bar> \<le> 8640000000000000 \<Longrightarrow>
   JSON_parse (state_text a p r n t) = Inr (state_object a p r n t)"
  by (simp add: JSON_parse_state_text_double state_object_def to_double_of_int)

lemma state_object_fields:
  "js_field (state_object a p r n t) (js ''app_id'') = JStr a"
  "js_field (state_object a p r n t) (js ''provider'') = JStr p"
  "js_field (state_object a p r n t) (js ''redirect'') = JStr r"
  "js_field (state_object a p r n t) (js ''nonce'') = JStr n"
  "js_field (state_object a p r n t) (js ''timestamp'') = JNum (Fin (of_int t))"
  by (simp_all add: state_object_def js_field_JObj)

lemma state_fields_present_state_object:
  "state_fields_present (state_object a p r n t) \<longleftrightarrow>
   a \<noteq> [] \<and> p \<noteq> [] \<and> r \<noteq> [] \<and> n \<noteq> [] \<and> t \<noteq> 0"
  by (simp add: state_fields_present_def state_object_fields)

lemma to_number_JNum [simp]: "to_number (JNum x) = Inr x"
  by (simp add: to_number_def)

lemma state_expired_state_object:
  "state_expired now (state_object a p r n t) = Inr (now - t > 600000)"
proof -
  have "js_sub (Fin (of_int now)) (Fin (of_int t)) = to_double (of_int (now - t))"
    by (simp add: js_sub_def)
  then show ?thesis
    using to_double_int_gt [of 600000 "now - t"]
    by (simp add: state_expired_def state_object_fields STATE_EXPIRATION_def)
qed

lemma decodeState_encodeState:
  assumes "encodeState t a p r n = Inr tok" and "\<bar>t\<bar> \<le> 8640000000000000"
  shows "decodeState now tok =
         (if a \<noteq> [] \<and> p \<noteq> [] \<and> r \<noteq> [] \<and> n \<noteq> [] \<and> t \<noteq> 0 \<and> \<not> now - t > 600000
          then Some (state_object a p r n t) else None)"
proof -
  have "atob tok = Inr (state_text a p r n t)"
    using assms(1) atob_btoa by (simp add: encodeState_def)
  moreover have "\<not> nullish (state_object a p r n t)"
    by (simp add: nullish_def state_object_def)
  ultimately show ?thesis
    using assms(2)
    by (simp add: decodeState_def JSON_parse_state_text state_fields_present_state_object
        state_expired_state_object)
qed

text \<open>A token encoded from an empty string is rejected whatever the clock readings are.\<close>

lemma decodeState_encodeState_empty:
  assumes "encodeState t a p r n = Inr tok" and "a = [] \<or> p = [] \<or> r = [] \<or> n = []"
  shows "decodeState now tok = None"
proof -
  have "atob tok = Inr (state_text a p r n t)"
    using assms(1) atob_btoa by (simp add: encodeState_def)
  then show ?thesis
    using assms(2)
    by (auto simp add: decodeState_def JSON_parse_state_text_double state_fields_present_def
        js_field_JObj)
qed

subsection \<open>The state token round trip\<close>

lemma js_Cons: "js (c # cs) = of_char c # js cs" "js [] = []"
  by (simp_all add: js_def)

lemma decimal_1700000000000: "decimal 1700000000000 = js ''1700000000000''"
  by (simp add: decimal.simps js_def)

lemma JSON_quote_body_examples:
  "JSON_quote_body (js ''wechat'') = js ''wechat''"
  "JSON_quote_body (js ''/home'') = js ''/home''"
  "JSON_quote_body (js ''abcd'') = js ''abcd''"
  "JSON_quote_body (js ''app1'') = js ''app1''"
  "JSON_quote_body (js ''app_id'') = js ''app_id''"
  "JSON_quote_body (js ''provider'') = js ''provider''"
  "JSON_quote_body (js ''redirect'') = js ''redirect''"
  "JSON_quote_body (js ''nonce'') = js ''nonce''"
  "JSON_quote_body (js ''timestamp'') = js ''timestamp''"
  by (simp_all add: js_Cons JSON_escape_def is_high_surrogate_def is_low_surrogate_def)

lemma state_text_js:
  "state_text (js ''app1'') (js ''wechat'') (js ''/home'') (js ''abcd'') 1700000000000 =
   [123, 34] @ js ''app_id'' @ [34, 58, 34] @ js ''app1'' @ [34, 44, 34] @ js ''provider''
   @ [34, 58, 34] @ js ''wechat'' @ [34, 44, 34] @ js ''redirect'' @ [34, 58, 34] @ js ''/home''
   @ [34, 44, 34] @ js ''nonce'' @ [34, 58, 34] @ js ''abcd'' @ [34, 44, 34] @ js ''timestamp''
   @ [34, 58] @ js ''1700000000000'' @ [125]"
  "state_text [] (js ''wechat'') (js ''/home'') (js ''abcd'') 1700000000000 =
   [123, 34] @ js ''app_id'' @ [34, 58, 34, 34, 44, 34] @ js ''provider''
   @ [34, 58, 34] @ js ''wechat'' @ [34, 44, 34] @ js ''redirect'' @ [34, 58, 34] @ js ''/home''
   @ [34, 44, 34] @ js ''nonce'' @ [34, 58, 34] @ js ''abcd'' @ [34, 44, 34] @ js ''timestamp''
   @ [34, 58] @ js ''1700000000000'' @ [125]"
  by (simp_all add: state_text_def JSON_object_def JSON_quote_def int_to_string_def
      decimal_1700000000000 JSON_quote_body_examples)

lemma state_text_examples:
  "state_text (js ''app1'') (js ''wechat'') (js ''/home'') (js ''abcd'') 1700000000000 = [123,34,97,112,112,95,105,100,34,58,34,97,112,112,49,34,44,34,112,114,111,118,105,100,101,114,34,58,34,119,101,99,104,97,116,34,44,34,114,101,100,105,114,101,99,116,34,58,34,47,104,111,109,101,34,44,34,110,111,110,99,101,34,58,34,97,98,99,100,34,44,34,116,105,109,101,115,116,97,109,112,34,58,49,55,48,48,48,48,48,48,48,48,48,48,48,125]"
  "state_text [] (js ''wechat'') (js ''/home'') (js ''abcd'') 1700000000000 = [123,34,97,112,112,95,105,100,34,58,34,34,44,34,112,114,111,118,105,100,101,114,34,58,34,119,101,99,104,97,116,34,44,34,114,101,100,105,114,101,99,116,34,58,34,47,104,111,109,101,34,44,34,110,111,110,99,101,34,58,34,97,98,99,100,34,44,34,116,105,109,101,115,116,97,109,112,34,58,49,55,48,48,48,48,48,48,48,48,48,48,48,125]"
  unfolding state_text_js by (simp_all add: js_Cons)

lemma btoa_examples:
  "btoa [123,34,97,112,112,95,105,100,34,58,34,97,112,112,49,34,44,34,112,114,111,118,105,100,101,114,34,58,34,119,101,99,104,97,116,34,44,34,114,101,100,105,114,101,99,116,34,58,34,47,104,111,109,101,34,44,34,110,111,110,99,101,34,58,34,97,98,99,100,34,44,34,116,105,109,101,115,116,97,109,112,34,58,49,55,48,48,48,48,48,48,48,48,48,48,48,125] = Inr [101,121,74,104,99,72,66,102,97,87,81,105,79,105,74,104,99,72,65,120,73,105,119,105,99,72,74,118,100,109,108,107,90,88,73,105,79,105,74,51,90,87,78,111,89,88,81,105,76,67,74,121,90,87,82,112,99,109,86,106,100,67,73,54,73,105,57,111,98,50,49,108,73,105,119,105,98,109,57,117,89,50,85,105,79,105,74,104,89,109,78,107,73,105,119,105,100,71,108,116,90,88,78,48,89,87,49,119,73,106,111,120,78,122,65,119,77,68,65,119,77,68,65,119,77,68,65,119,102,81,61,61]"
  "btoa [123,34,97,112,112,95,105,100,34,58,34,34,44,34,112,114,111,118,105,100,101,114,34,58,34,119,101,99,104,97,116,34,44,34,114,101,100,105,114,101,99,116,34,58,34,47,104,111,109,101,34,44,34,110,111,110,99,101,34,58,34,97,98,99,100,34,44,34,116,105,109,101,115,116,97,109,112,34,58,49,55,48,48,48,48,48,48,48,48,48,48,48,125] = Inr [101,121,74,104,99,72,66,102,97,87,81,105,79,105,73,105,76,67,74,119,99,109,57,50,97,87,82,108,99,105,73,54,73,110,100,108,89,50,104,104,100,67,73,115,73,110,74,108,90,71,108,121,90,87,78,48,73,106,111,105,76,50,104,118,98,87,85,105,76,67,74,117,98,50,53,106,90,83,73,54,73,109,70,105,89,50,81,105,76,67,74,48,97,87,49,108,99,51,82,104,98,88,65,105,79,106,69,51,77,68,65,119,77,68,65,119,77,68,65,119,77,68,66,57]"
  by (simp_all add: btoa_def b64_char_def numeral_2_eq_2)

lemma token_examples:
  "example_token = [101,121,74,104,99,72,66,102,97,87,81,105,79,105,74,104,99,72,65,120,73,105,119,105,99,72,74,118,100,109,108,107,90,88,73,105,79,105,74,51,90,87,78,111,89,88,81,105,76,67,74,121,90,87,82,112,99,109,86,106,100,67,73,54,73,105,57,111,98,50,49,108,73,105,119,105,98,109,57,117,89,50,85,105,79,105,74,104,89,109,78,107,73,105,119,105,100,71,108,116,90,88,78,48,89,87,49,119,73,106,111,120,78,122,65,119,77,68,65,119,77,68,65,119,77,68,65,119,102,81,61,61]"
  "empty_app_id_token = [101,121,74,104,99,72,66,102,97,87,81,105,79,105,73,105,76,67,74,119,99,109,57,50,97,87,82,108,99,105,73,54,73,110,100,108,89,50,104,104,100,67,73,115,73,110,74,108,90,71,108,121,90,87,78,48,73,106,111,105,76,50,104,118,98,87,85,105,76,67,74,117,98,50,53,106,90,83,73,54,73,109,70,105,89,50,81,105,76,67,74,48,97,87,49,108,99,51,82,104,98,88,65,105,79,106,69,51,77,68,65,119,77,68,65,119,77,68,65,119,77,68,66,57]"
  by (simp_all add: example_token_def empty_app_id_token_def js_Cons)

lemma encodeState_examples:
  "encodeState 1700000000000 (js ''app1'') (js ''wechat'') (js ''/home'') (js ''abcd'') =
     Inr example_token"
  "encodeState 1700000000000 [] (js ''wechat'') (js ''/home'') (js ''abcd'') =
     Inr empty_app_id_token"
  by (simp_all only: encodeState_def state_text_examples btoa_examples token_examples)


lemma latin1_append [simp]: "latin1 (a @ b) \<longleftrightarrow> latin1 a \<and> latin1 b"
  by (simp add: latin1_def)

lemma latin1_Cons [simp]: "latin1 (c # cs) \<longleftrightarrow> c \<le> 255 \<and> latin1 cs"
  by (simp add: latin1_def)

lemma latin1_Nil [simp]: "latin1 []"
  by (simp add: latin1_def)

lemma hex_char_le: "d < 16 \<Longrightarrow> hex_char d \<le> 255"
  by (simp add: hex_char_def)

lemma latin1_JSON_escape: "c \<le> 255 \<Longrightarrow> latin1 (JSON_escape c)"
  by (auto simp add: JSON_escape_def unicode_escape_def hex_char_le is_high_surrogate_def
      is_low_surrogate_def less_mult_imp_div_less)

lemma latin1_JSON_quote_body: "latin1 s \<Longrightarrow> latin1 (JSON_quote_body s)"
  by (induction s rule: JSON_quote_body.induct) (auto simp add: latin1_JSON_escape)

lemma latin1_digits: "list_all is_digit ds \<Longrightarrow> latin1 ds"
  by (induction ds) (auto simp add: is_digit_def)

lemma latin1_int_to_string: "latin1 (int_to_string t)"
  by (simp add: int_to_string_def latin1_digits decimal_digits)

lemma latin1_js: "latin1 (js s)"
proof -
  have "\<And>c. (of_char c :: nat) \<le> 255"
    using of_char_mod_256 [where ?'a = nat] by (metis mod_less_divisor less_Suc_eq_le
        numeral_eq_Suc pred_numeral_simps(3) zero_less_Suc Suc_numeral semiring_norm(2,8))
  then show ?thesis
    by (simp add: js_def latin1_def list_all_iff)
qed

lemma latin1_state_text:
  "latin1 a \<Longrightarrow> latin1 p \<Longrightarrow> latin1 r \<Longrightarrow> latin1 n \<Longrightarrow> latin1 (state_text a p r n t)"
  by (simp add: state_text_def JSON_object_def JSON_quote_def latin1_JSON_quote_body
      latin1_int_to_string latin1_js)

lemma btoa_latin1: "latin1 s \<Longrightarrow> \<exists>tok. btoa s = Inr tok"
  by (auto simp add: btoa_def latin1_def list_ex_iff list_all_iff Let_def)

lemma encodeState_latin1:
  "latin1 a \<Longrightarrow> latin1 p \<Longrightarrow> latin1 r \<Longrightarrow> latin1 n \<Longrightarrow> \<exists>tok. encodeState t a p r n = Inr tok"
  unfolding encodeState_def by (rule btoa_latin1) (rule latin1_state_text)

text \<open>
  Where \<open>btoa\<close> accepts the text, the round trip holds: for four non-empty strings of
  code units up to 255, encodeState at a clock reading t (a time value) other than 0
  produces a token, and decodeState of that token returns the object with the same four
  fields and the timestamp t whenever the clock at decoding is at most 600000 ms past t;
  once it is more than 600000 ms past t, decodeState returns invalid.
\<close>

lemma encodeState_decodeState_roundtrip:
  assumes "latin1 app_id" "latin1 provider_name" "latin1 redirect" "latin1 nonce"
    and "app_id \<noteq> []" "provider_name \<noteq> []" "redirect \<noteq> []" "nonce \<noteq> []"
    and "t \<noteq> 0" and "\<bar>t\<bar> \<le> 8640000000000000"
  shows "\<exists>tok. encodeState t app_id provider_name redirect nonce = Inr tok
           \<and> (now - t \<le> STATE_EXPIRATION \<longrightarrow>
                decodeState now tok = Some (state_object app_id provider_name redirect nonce t))
           \<and> (now - t > STATE_EXPIRATION \<longrightarrow> decodeState now tok = None)"
proof -
  obtain tok where tok: "encodeState t app_id provider_name redirect nonce = Inr tok"
    using encodeState_latin1 [OF assms(1-4)] by blast
  show ?thesis
    using assms(5-9) decodeState_encodeState [OF tok assms(10), of now]
    by (auto simp add: tok STATE_EXPIRATION_def)
qed

lemma encodeState_decodeState_roundtrip_example:
  "\<exists>tok. encodeState 1700000000000 (js ''app1'') (js ''wechat'') (js ''/home'') (js ''abcd'') = Inr tok
     \<and> decodeState 1700000300000 tok =
           Some (state_object (js ''app1'') (js ''wechat'') (js ''/home'') (js ''abcd'') 1700000000000)
     \<and> decodeState 1700000600001 tok = None"
proof -
  have h: "latin1 (js ''app1'')" "latin1 (js ''wechat'')" "latin1 (js ''/home'')" "latin1 (js ''abcd'')"
    "js ''app1'' \<noteq> []" "js ''wechat'' \<noteq> []" "js ''/home'' \<noteq> []" "js ''abcd'' \<noteq> []"
    "(1700000000000::int) \<noteq> 0" "\<bar>1700000000000 :: int\<bar> \<le> 8640000000000000"
    by (simp_all add: latin1_js)
  from encodeState_decodeState_roundtrip [OF h, of 1700000300000]
    encodeState_decodeState_roundtrip [OF h, of 1700000600001]
  show ?thesis
    by (auto simp add: STATE_EXPIRATION_def)
qed

text \<open>
  C1 fails on the code. The tuple (app1, wechat, /U+4E2D, abcd), whose redirect path is a
  slash followed by the character U+4E2D, is a tuple of four non-empty strings, as
  handleLogin passes on after its only test; \<open>JSON.stringify\<close> leaves the character as
  it is, \<open>btoa\<close> raises InvalidCharacterError on it, and encodeState produces no token
  to decode.
\<close>

theorem encodeState_throws_outside_latin1:
  "encodeState 1700000000000 (js ''app1'') (js ''wechat'') [47, 20013] (js ''abcd'')
     = Inl InvalidCharacterError"
  by (simp add: encodeState_def btoa_def state_text_def JSON_object_def JSON_quote_def
      JSON_escape_def is_high_surrogate_def is_low_surrogate_def)


subsection \<open>What decodeState rejects\<close>

lemma atob_example_tokens:
  "atob example_token =
     Inr (state_text (js ''app1'') (js ''wechat'') (js ''/home'') (js ''abcd'') 1700000000000)"
  "atob empty_app_id_token =
     Inr (state_text [] (js ''wechat'') (js ''/home'') (js ''abcd'') 1700000000000)"
  using encodeState_examples by (simp_all add: encodeState_def atob_btoa)

lemma falsy_iff:
  "\<not> truthy v \<longleftrightarrow>
   v = JUndefined \<or> v = JNull \<or> v = JBool False \<or> v = JNum (Fin 0) \<or> v = JNum NaN \<or> v = JStr []"
proof (cases v)
  case (JNum x)
  then show ?thesis by (cases x) auto
qed auto

lemma decodeState_Some_iff:
  "decodeState now s = Some d \<longleftrightarrow>
   (\<exists>payload. atob s = Inr payload \<and> JSON_parse payload = Inr d)
   \<and> \<not> nullish d \<and> state_fields_present d \<and> state_expired now d = Inr False"
  by (auto simp add: decodeState_def split: sum.splits if_splits)

lemma state_fields_present_object: "state_fields_present d \<Longrightarrow> is_object d"
  by (cases d) (auto simp add: state_fields_present_def js_field_def)

text \<open>
  C10. decodeState rejects every token whose payload parses to a value in which app_id,
  provider, redirect or nonce is the empty string, or whose timestamp is 0, whatever the
  clock reads. Consequently decoding a token that encodeState produced from an empty
  app_id, provider, redirect or nonce returns invalid; and a token of non-empty fields,
  issued at a clock reading other than 0 (a reading of the clock being a time value, at
  most 8640000000000000 in absolute value), is still accepted when its age is exactly
  600000 ms.
\<close>

theorem decodeState_rejects_falsy_fields:
  "(atob tok = Inr payload \<and> JSON_parse payload = Inr d
      \<and> (js_field d (js ''app_id'') = JStr [] \<or> js_field d (js ''provider'') = JStr []
          \<or> js_field d (js ''redirect'') = JStr [] \<or> js_field d (js ''nonce'') = JStr []
          \<or> js_field d (js ''timestamp'') = JNum (Fin 0))
      \<longrightarrow> decodeState now tok = None)
   \<and> (encodeState t app_id provider_name redirect nonce = Inr tok'
      \<and> (app_id = [] \<or> provider_name = [] \<or> redirect = [] \<or> nonce = [])
      \<longrightarrow> decodeState now tok' = None)
   \<and> (encodeState t app_id provider_name redirect nonce = Inr tok'
      \<and> app_id \<noteq> [] \<and> provider_name \<noteq> [] \<and> redirect \<noteq> [] \<and> nonce \<noteq> [] \<and> t \<noteq> 0
      \<and> \<bar>t\<bar> \<le> 8640000000000000
      \<longrightarrow> decodeState (t + STATE_EXPIRATION) tok' =
            Some (state_object app_id provider_name redirect nonce t))"
proof (intro conjI impI)
  assume h: "atob tok = Inr payload \<and> JSON_parse payload = Inr d
      \<and> (js_field d (js ''app_id'') = JStr [] \<or> js_field d (js ''provider'') = JStr []
          \<or> js_field d (js ''redirect'') = JStr [] \<or> js_field d (js ''nonce'') = JStr []
          \<or> js_field d (js ''timestamp'') = JNum (Fin 0))"
  then have "\<not> state_fields_present d"
    by (auto simp add: state_fields_present_def)
  then show "decodeState now tok = None"
    using h by (simp add: decodeState_def)
next
  assume "encodeState t app_id provider_name redirect nonce = Inr tok'
      \<and> (app_id = [] \<or> provider_name = [] \<or> redirect = [] \<or> nonce = [])"
  then show "decodeState now tok' = None"
    using decodeState_encodeState_empty [of t app_id provider_name redirect nonce tok' now] by auto
next
  assume "encodeState t app_id provider_name redirect nonce = Inr tok'
      \<and> app_id \<noteq> [] \<and> provider_name \<noteq> [] \<and> redirect \<noteq> [] \<and> nonce \<noteq> [] \<and> t \<noteq> 0
      \<and> \<bar>t\<bar> \<le> 8640000000000000"
  then show "decodeState (t + STATE_EXPIRATION) tok' =
            Some (state_object app_id provider_name redirect nonce t)"
    using decodeState_encodeState [of t app_id provider_name redirect nonce tok' "t + STATE_EXPIRATION"]
    by (simp add: STATE_EXPIRATION_def)
qed

theorem decodeState_rejects_falsy_fields_witness:
  "decodeState 1700000000001 empty_app_id_token = None
   \<and> decodeState 1700000600000 example_token =
       Some (state_object (js ''app1'') (js ''wechat'') (js ''/home'') (js ''abcd'') 1700000000000)"
  using decodeState_rejects_falsy_fields [where tok = empty_app_id_token
         and payload = "state_text [] (js ''wechat'') (js ''/home'') (js ''abcd'') 1700000000000"
         and d = "state_object [] (js ''wechat'') (js ''/home'') (js ''abcd'') 1700000000000"
         and now = 1700000000001 and t = 1700000000000 and app_id = "js ''app1''"
         and provider_name = "js ''wechat''" and redirect = "js ''/home''" and nonce = "js ''abcd''"
         and tok' = example_token]
  by (simp add: atob_example_tokens JSON_parse_state_text state_object_fields
      encodeState_examples STATE_EXPIRATION_def)

text \<open>
  C6 does not hold as stated: the token below decodes from base64 to JSON text that
  parses to an object in which all five fields are present, its age is 1 ms, and
  decodeState returns invalid, because the app_id that is present is the empty string.
\<close>

theorem decodeState_present_but_empty_counterexample:
  "atob empty_app_id_token =
     Inr (state_text [] (js ''wechat'') (js ''/home'') (js ''abcd'') 1700000000000)
   \<and> JSON_parse (state_text [] (js ''wechat'') (js ''/home'') (js ''abcd'') 1700000000000) =
     Inr (JObj [(js ''app_id'', JStr []), (js ''provider'', JStr (js ''wechat'')),
                (js ''redirect'', JStr (js ''/home'')), (js ''nonce'', JStr (js ''abcd'')),
                (js ''timestamp'', JNum (Fin 1700000000000))])
   \<and> \<not> js_gt (js_sub (Fin 1700000000001) (Fin 1700000000000)) (Fin 600000)
   \<and> decodeState 1700000000001 empty_app_id_token = None"
proof -
  have "decodeState 1700000000001 empty_app_id_token = None"
    using decodeState_encodeState_empty [OF encodeState_examples(2), of 1700000000001] by simp
  moreover have "JSON_parse (state_text [] (js ''wechat'') (js ''/home'') (js ''abcd'') 1700000000000) =
     Inr (JObj [(js ''app_id'', JStr []), (js ''provider'', JStr (js ''wechat'')),
                (js ''redirect'', JStr (js ''/home'')), (js ''nonce'', JStr (js ''abcd'')),
                (js ''timestamp'', JNum (Fin 1700000000000))])"
    by (simp add: JSON_parse_state_text state_object_def)
  ultimately show ?thesis
    by (simp add: atob_example_tokens js_sub_def)
qed

text \<open>
  C6 (as amended). decodeState never throws: for every input string it returns invalid
  or a token, and a token is the object that the payload parses to. It returns invalid
  exactly when \<open>atob\<close> rejects the input, when \<open>JSON.parse\<close> rejects the decoded
  text, when the parsed value is \<open>null\<close>, when one of app_id, provider, redirect, nonce
  and timestamp is falsy (absent, \<open>null\<close>, \<open>false\<close>, 0 or the empty string), when the
  timestamp is an array or object without a primitive value (the subtraction raises
  TypeError, which is caught), or when the clock minus the timestamp converted to a
  number, as a double, exceeds 600000.
\<close>

theorem decodeState_invalid_iff:
  "(decodeState now s = None
      \<or> (\<exists>d. decodeState now s = Some d \<and> is_object d
            \<and> (\<exists>payload. atob s = Inr payload \<and> JSON_parse payload = Inr d)))
   \<and> (decodeState now s = None \<longleftrightarrow>
        (\<forall>payload. atob s \<noteq> Inr payload)
        \<or> (\<exists>payload. atob s = Inr payload \<and> (\<forall>d. JSON_parse payload \<noteq> Inr d))
        \<or> (\<exists>payload d. atob s = Inr payload \<and> JSON_parse payload = Inr d
              \<and> (nullish d
                  \<or> \<not> truthy (js_field d (js ''app_id''))
                  \<or> \<not> truthy (js_field d (js ''provider''))
                  \<or> \<not> truthy (js_field d (js ''redirect''))
                  \<or> \<not> truthy (js_field d (js ''nonce''))
                  \<or> \<not> truthy (js_field d (js ''timestamp''))
                  \<or> to_number (js_field d (js ''timestamp'')) = Inl TypeError
                  \<or> (\<exists>x. to_number (js_field d (js ''timestamp'')) = Inr x
                        \<and> js_gt (js_sub (Fin (of_int now)) x) (Fin 600000)))))"
proof (intro conjI)
  show "decodeState now s = None
      \<or> (\<exists>d. decodeState now s = Some d \<and> is_object d
            \<and> (\<exists>payload. atob s = Inr payload \<and> JSON_parse payload = Inr d))"
  proof (cases "decodeState now s")
    case None
    then show ?thesis by simp
  next
    case (Some d)
    then show ?thesis
      using decodeState_Some_iff [of now s d] state_fields_present_object [of d] by auto
  qed
  have tn: "\<And>v. to_number v = Inl TypeError \<or> (\<exists>x. to_number v = Inr x)"
    by (simp add: to_number_def)
  show "decodeState now s = None \<longleftrightarrow>
        (\<forall>payload. atob s \<noteq> Inr payload)
        \<or> (\<exists>payload. atob s = Inr payload \<and> (\<forall>d. JSON_parse payload \<noteq> Inr d))
        \<or> (\<exists>payload d. atob s = Inr payload \<and> JSON_parse payload = Inr d
              \<and> (nullish d
                  \<or> \<not> truthy (js_field d (js ''app_id''))
                  \<or> \<not> truthy (js_field d (js ''provider''))
                  \<or> \<not> truthy (js_field d (js ''redirect''))
                  \<or> \<not> truthy (js_field d (js ''nonce''))
                  \<or> \<not> truthy (js_field d (js ''timestamp''))
                  \<or> to_number (js_field d (js ''timestamp'')) = Inl TypeError
                  \<or> (\<exists>x. to_number (js_field d (js ''timestamp'')) = Inr x
                        \<and> js_gt (js_sub (Fin (of_int now)) x) (Fin 600000))))"
  proof (cases "atob s")
    case (Inl e)
    then show ?thesis by (simp add: decodeState_def)
  next
    case payload: (Inr payload)
    show ?thesis
    proof (cases "JSON_parse payload")
      case (Inl e)
      then show ?thesis using payload by (simp add: decodeState_def)
    next
      case d: (Inr d)
      show ?thesis
        using payload d tn [of "js_field d (js ''timestamp'')"]
        by (auto simp add: decodeState_def state_fields_present_def state_expired_def
            STATE_EXPIRATION_def)
    qed
  qed
qed

theorem decodeState_invalid_iff_witness:
  "decodeState 1700000000001 empty_app_id_token = None
   \<and> (\<exists>d. decodeState 1700000300000 example_token = Some d \<and> is_object d)"
proof -
  let ?d = "JObj [(js ''app_id'', JStr []), (js ''provider'', JStr (js ''wechat'')),
                  (js ''redirect'', JStr (js ''/home'')), (js ''nonce'', JStr (js ''abcd'')),
                  (js ''timestamp'', JNum (to_double (of_int 1700000000000)))]"
  let ?text = "state_text [] (js ''wechat'') (js ''/home'') (js ''abcd'') 1700000000000"
  have "atob empty_app_id_token = Inr ?text \<and> JSON_parse ?text = Inr ?d
        \<and> \<not> truthy (js_field ?d (js ''app_id''))"
    by (simp add: atob_example_tokens JSON_parse_state_text_double js_field_JObj)
  then have "decodeState 1700000000001 empty_app_id_token = None"
    using decodeState_invalid_iff [of 1700000000001 empty_app_id_token] by blast
  moreover have "decodeState 1700000300000 example_token \<noteq> None"
    using decodeState_encodeState [OF encodeState_examples(1), of 1700000300000] by simp
  then have "\<exists>d. decodeState 1700000300000 example_token = Some d \<and> is_object d"
    using decodeState_invalid_iff [of 1700000300000 example_token, THEN conjunct1] by auto
  ultimately show ?thesis by simp
qed

subsection \<open>The handlers and the usage counters\<close>

lemma usage_key_not_project_key:
  "getDailyUsageKey now d \<noteq> project_cache_key a"
  "getMonthlyUsageKey now d \<noteq> project_cache_key a"
  by (simp_all add: getDailyUsageKey_def getMonthlyUsageKey_def project_cache_key_def js_Cons)

lemma usage_unchanged_refl: "usage_unchanged now env env"
  by (simp add: usage_unchanged_def)

lemma usage_unchanged_trans:
  "usage_unchanged now env env1 \<Longrightarrow> usage_unchanged now env1 env2 \<Longrightarrow> usage_unchanged now env env2"
  by (simp add: usage_unchanged_def)

lemma setCachedAppConfig_usage: "usage_unchanged now env (setCachedAppConfig w env a c)"
  by (auto simp add: usage_unchanged_def setCachedAppConfig_def kv_put_def
      usage_key_not_project_key split: sum.splits)

lemma getAppConfig_usage:
  "getAppConfig w env a = (r, env1) \<Longrightarrow> usage_unchanged now env env1"
  by (auto simp add: getAppConfig_def usage_unchanged_refl setCachedAppConfig_usage
      split: option.splits sum.splits)

lemma usage_key_not_plan_key:
  "getDailyUsageKey now d \<noteq> plan_cache_key a"
  "getMonthlyUsageKey now d \<noteq> plan_cache_key a"
  by (simp_all add: getDailyUsageKey_def getMonthlyUsageKey_def plan_cache_key_def js_Cons)

lemma kv_put_value_other:
  "kv_put_value kv key v ttl = Inr kv' \<Longrightarrow> k \<noteq> key \<Longrightarrow> entries kv' k = entries kv k"
  by (auto simp add: kv_put_value_def kv_put_def split: js_value.splits sum.splits if_splits)

lemma getDeveloperPlan_try_env:
  "getDeveloperPlan_try f env dev = Inr (plan, env') \<Longrightarrow>
   env' = env \<or> (\<exists>kv v ttl. kv_put_value (APP_CACHE env) (plan_cache_key dev) v ttl = Inr kv
                  \<and> env' = env\<lparr>APP_CACHE := kv\<rparr>)"
  by (auto simp add: getDeveloperPlan_try_def
      split: option.splits sum.splits fetch_result.splits if_splits)

lemma getDeveloperPlan_usage:
  assumes "getDeveloperPlan f env dev = (r, env1)"
  shows "usage_unchanged now env env1"
proof -
  have "env1 = env \<or> (\<exists>kv v ttl. kv_put_value (APP_CACHE env) (plan_cache_key dev) v ttl = Inr kv
                  \<and> env1 = env\<lparr>APP_CACHE := kv\<rparr>)"
    using assms
    by (auto simp add: getDeveloperPlan_def dest: getDeveloperPlan_try_env
        split: option.splits sum.splits prod.splits)
  then show ?thesis
  proof
    assume "env1 = env" then show ?thesis by (simp add: usage_unchanged_refl)
  next
    assume "\<exists>kv v ttl. kv_put_value (APP_CACHE env) (plan_cache_key dev) v ttl = Inr kv
                  \<and> env1 = env\<lparr>APP_CACHE := kv\<rparr>"
    then obtain kv v ttl where k: "kv_put_value (APP_CACHE env) (plan_cache_key dev) v ttl = Inr kv"
      "env1 = env\<lparr>APP_CACHE := kv\<rparr>" by blast
    show ?thesis
      using kv_put_value_other [OF k(1)] by (simp add: usage_unchanged_def k(2) usage_key_not_plan_key)
  qed
qed

lemma handleCallback_catch_usage:
  "handleCallback_catch w env now state e = (response, env') \<Longrightarrow> usage_unchanged now env env'"
  by (auto simp add: handleCallback_catch_def Let_def usage_unchanged_refl dest: getAppConfig_usage
      split: prod.splits sum.splits option.splits)

lemma resolve_identity_ops:
  "resolve_identity w entry pc cfg code cb = (r, ops) \<Longrightarrow> IncrementUsage dev \<notin> set ops"
  by (auto simp add: resolve_identity_def
      split: registry_entry.splits sum.splits)


lemma resolve_identity_Inr:
  assumes "resolve_identity w entry pc cfg code cb = (Inr (u, user, uid), ops)"
  shows "\<exists>p tokenResponse rawUserInfo.
           entry = Adapter p
         \<and> exchangeCodeForToken_result w p code pc cb = Inr tokenResponse
         \<and> getUserInfo_result w p tokenResponse pc = Inr rawUserInfo
         \<and> normalizeUser (format_number w) p rawUserInfo = Inr u
         \<and> getOrCreateUser_result w (supabase_url cfg) (supabase_service_role cfg) u = Inr user
         \<and> ops = [ExchangeCodeForToken p, GetUserInfo p, GetOrCreateUser]"
  using assms
  by (auto simp add: resolve_identity_def split: registry_entry.splits sum.splits)

lemma kv_put_usage_other:
  "kv_put kv key v ttl = Inr kv' \<Longrightarrow> k \<noteq> key \<Longrightarrow> entries kv' k = entries kv k"
  by (auto simp add: kv_put_def split: if_splits)

lemma handleCallback_try_shape:
  assumes "handleCallback_try w env now request code state = (r, env', ops)"
  shows "((\<forall>dev. IncrementUsage dev \<notin> set ops) \<and> usage_unchanged now env env')
       \<or> (\<exists>app_id p providerConfig (appConfig::AppConfig) env1 tokenResponse rawUserInfo
             normalizedUser user.
             to_string (format_number w) (js_field state (js ''app_id'')) = Inr app_id
           \<and> getAppConfig w env app_id = (Inr (Some appConfig), env1)
           \<and> find (\<lambda>c. JStr (provider c) = js_field state (js ''provider'')) (providers appConfig)
               = Some providerConfig
           \<and> getProvider w (provider providerConfig) = Adapter p
           \<and> exchangeCodeForToken_result w p code providerConfig (callback_url request)
               = Inr tokenResponse
           \<and> getUserInfo_result w p tokenResponse providerConfig = Inr rawUserInfo
           \<and> normalizeUser (format_number w) p rawUserInfo = Inr normalizedUser
           \<and> getOrCreateUser_result w (supabase_url appConfig) (supabase_service_role appConfig)
                normalizedUser = Inr user
           \<and> ops = [ExchangeCodeForToken p, GetUserInfo p, GetOrCreateUser,
                     IncrementUsage (developer_id appConfig)])"
proof (cases "to_string (format_number w) (js_field state (js ''app_id''))")
  case (Inl e)
  then show ?thesis
    using assms by (auto simp add: handleCallback_try_def Let_def usage_unchanged_refl)
next
  case a: (Inr a)
  obtain r0 env1 where g: "getAppConfig w env a = (r0, env1)"
    by (cases "getAppConfig w env a") auto
  have u1: "usage_unchanged now env env1"
    using getAppConfig_usage [OF g] .
  show ?thesis
  proof (cases r0)
    case (Inl e)
    then show ?thesis using assms a g u1 by (simp add: handleCallback_try_def Let_def)
  next
    case (Inr c)
    show ?thesis
    proof (cases c)
      case None
      then show ?thesis using assms a g u1 Inr by (simp add: handleCallback_try_def Let_def)
    next
      case (Some appConfig)
      show ?thesis
      proof (cases "find (\<lambda>p. JStr (provider p) = js_field state (js ''provider'')) (providers appConfig)")
        case None
        then show ?thesis
          using assms a g u1 Inr Some
          by (auto simp add: handleCallback_try_def Let_def split: sum.splits)
      next
        case pc: (Some providerConfig)
        obtain ri ops1 where ri: "resolve_identity w (getProvider w (provider providerConfig))
            providerConfig appConfig code (callback_url request) = (ri, ops1)"
          by (cases "resolve_identity w (getProvider w (provider providerConfig))
            providerConfig appConfig code (callback_url request)") auto
        show ?thesis
        proof (cases ri)
          case (Inl e)
          then show ?thesis
            using assms a g u1 \<open>r0 = Inr c\<close> Some pc ri resolve_identity_ops [OF ri]
            by (cases "getProvider w (provider providerConfig)")
              (auto simp add: handleCallback_try_def Let_def)
        next
          case (Inr v)
          obtain u user uid where v: "v = (u, user, uid)" by (cases v) auto
          from resolve_identity_Inr [OF ri [unfolded Inr v]]
          obtain p tokenResponse rawUserInfo where
            ad: "getProvider w (provider providerConfig) = Adapter p" and
            p: "exchangeCodeForToken_result w p code providerConfig (callback_url request)
                  = Inr tokenResponse"
              "getUserInfo_result w p tokenResponse providerConfig = Inr rawUserInfo"
              "normalizeUser (format_number w) p rawUserInfo = Inr u"
              "getOrCreateUser_result w (supabase_url appConfig) (supabase_service_role appConfig) u
                 = Inr user"
              "ops1 = [ExchangeCodeForToken p, GetUserInfo p, GetOrCreateUser]"
            by blast
          have g0: "getAppConfig w env a = (Inr (Some appConfig), env1)"
            using g \<open>r0 = Inr c\<close> Some by simp
          have "ops = ops1 @ [IncrementUsage (developer_id appConfig)]"
            using assms a g0 pc ri [unfolded ad] Inr v
            by (auto simp add: handleCallback_try_def Let_def ad
                split: sum.splits option.splits prod.splits)
          then have ops_eq: "ops = [ExchangeCodeForToken p, GetUserInfo p, GetOrCreateUser,
              IncrementUsage (developer_id appConfig)]"
            using p(5) by simp
          have "\<exists>app_id p providerConfig (appConfig::AppConfig) env1 tokenResponse rawUserInfo
                normalizedUser user.
              to_string (format_number w) (js_field state (js ''app_id'')) = Inr app_id
            \<and> getAppConfig w env app_id = (Inr (Some appConfig), env1)
            \<and> find (\<lambda>c. JStr (provider c) = js_field state (js ''provider'')) (providers appConfig)
                = Some providerConfig
            \<and> getProvider w (provider providerConfig) = Adapter p
            \<and> exchangeCodeForToken_result w p code providerConfig (callback_url request)
                = Inr tokenResponse
            \<and> getUserInfo_result w p tokenResponse providerConfig = Inr rawUserInfo
            \<and> normalizeUser (format_number w) p rawUserInfo = Inr normalizedUser
            \<and> getOrCreateUser_result w (supabase_url appConfig) (supabase_service_role appConfig)
                 normalizedUser = Inr user
            \<and> ops = [ExchangeCodeForToken p, GetUserInfo p, GetOrCreateUser,
                      IncrementUsage (developer_id appConfig)]"
            apply (rule exI [where x = a])
            apply (rule exI [where x = p])
            apply (rule exI [where x = providerConfig])
            apply (rule exI [where x = appConfig])
            apply (rule exI [where x = env1])
            apply (rule exI [where x = tokenResponse])
            apply (rule exI [where x = rawUserInfo])
            apply (rule exI [where x = u])
            apply (rule exI [where x = user])
            apply (simp add: p(1-4) ops_eq g0 pc ad a)
            done
          then show ?thesis by (rule disjI2)
        qed
      qed
    qed
  qed
qed


lemma login_redirect_shape:
  assumes "login_redirect w now request appConfig a pn r = (Inr (RedirectResponse url st), ops)"
  shows "\<exists>p. ops = [BuildAuthURL p]"
  using assms
  by (auto simp add: login_redirect_def createErrorResponse_def
      split: option.splits if_splits registry_entry.splits sum.splits)

lemma handleLogin_try_redirect:
  assumes "handleLogin_try w env now request a pn r = (Inr (RedirectResponse url st), env', ops)"
  shows "\<exists>(appConfig::AppConfig) plan limitCheck p.
           ops = [CheckLimits (developer_id appConfig), BuildAuthURL p]
         \<and> checkLimits (format_number w) env' now (developer_id appConfig) plan = Inr limitCheck
         \<and> allowed limitCheck"
proof -
  obtain r0 env1 where g: "getAppConfig w env a = (r0, env1)"
    by (cases "getAppConfig w env a") auto
  show ?thesis
  proof (cases r0)
    case (Inl e)
    then show ?thesis using assms g by (simp add: handleLogin_try_def)
  next
    case (Inr c)
    show ?thesis
    proof (cases c)
      case None
      then show ?thesis
        using assms g Inr by (simp add: handleLogin_try_def createErrorResponse_def)
    next
      case (Some appConfig)
      obtain r1 env2 where d: "getDeveloperPlan (fetch_outcome w) env1 (developer_id appConfig) = (r1, env2)"
        by (cases "getDeveloperPlan (fetch_outcome w) env1 (developer_id appConfig)") auto
      show ?thesis
      proof (cases r1)
        case (Inl e)
        then show ?thesis
          using assms g \<open>r0 = Inr c\<close> Some d by (simp add: handleLogin_try_def Let_def)
      next
        case plan: (Inr plan)
        show ?thesis
        proof (cases "checkLimits (format_number w) env2 now (developer_id appConfig) plan")
          case (Inl e)
          then show ?thesis
            using assms g \<open>r0 = Inr c\<close> Some d plan by (simp add: handleLogin_try_def Let_def)
        next
          case lc: (Inr limitCheck)
          show ?thesis
          proof (cases "allowed limitCheck")
            case False
            then show ?thesis
              using assms g \<open>r0 = Inr c\<close> Some d plan lc
              by (simp add: handleLogin_try_def Let_def limit_exceeded_response_def)
          next
            case True
            obtain res ops1 where lr: "login_redirect w now request appConfig a pn r = (res, ops1)"
              by (cases "login_redirect w now request appConfig a pn r") auto
            have e: "res = Inr (RedirectResponse url st)" "env' = env2"
              "ops = CheckLimits (developer_id appConfig) # ops1"
              using assms g \<open>r0 = Inr c\<close> Some d plan lc True lr
              by (simp_all add: handleLogin_try_def Let_def)
            obtain p where "ops1 = [BuildAuthURL p]"
              using login_redirect_shape [OF lr [unfolded e(1)]] by blast
            then have "ops = [CheckLimits (developer_id appConfig), BuildAuthURL p]
                \<and> checkLimits (format_number w) env' now (developer_id appConfig) plan = Inr limitCheck
                \<and> allowed limitCheck"
              using e lc True by simp
            then show ?thesis by blast
          qed
        qed
      qed
    qed
  qed
qed

subsection \<open>Runs of the handlers in the example world\<close>

lemma example_env_get:
  "kv_get (APP_CACHE (example_env d)) (js ''project:app1'') = Inr (Some (js ''app1.json''))"
  "kv_get (APP_CACHE (example_env d)) (js ''developer:dev1:plan'') = Inr (Some (js ''free''))"
  "kv_get (APP_CACHE (example_env d)) (js ''usage:dev1:day:20231114'') = Inr (Some d)"
  "kv_get (APP_CACHE (example_env d)) (js ''usage:dev1:month:202311'') = Inr (Some (js ''3000''))"
  by (simp_all add: example_env_def env_of_def kv_of_def kv_get_def)

lemma example_config_fields:
  "developer_id example_config = js ''dev1''"
  "frontend_base_url example_config = js ''https://app.example''"
  "supabase_url example_config = js ''https://tenant.example''"
  "supabase_service_role example_config = js ''role''"
  "providers example_config =
     [\<lparr>provider = js ''wechat'', client_id = js ''wx1'', client_secret = js ''secret'',
       extra = JUndefined, enabled = True\<rparr>]"
  by (simp_all add: example_config_def)

lemma getAppConfig_example:
  "getAppConfig example_world (example_env d) (js ''app1'') = (Inr (Some example_config), example_env d)"
  by (simp add: getAppConfig_def getCachedAppConfig_def project_cache_key_def js_append
      example_env_get example_world_def)

lemma getDeveloperPlan_example:
  "getDeveloperPlan (fetch_outcome example_world) (example_env d) (js ''dev1'') =
     (Inr (JStr (js ''free'')), example_env d)"
  by (simp add: getDeveloperPlan_def plan_cache_key_def js_append example_env_get cached_plan_def)

lemma parseInt10_3000: "parseInt10 (js ''3000'') = Fin 3000"
  by (simp add: parseInt10_def js_def is_js_whitespace_def is_digit_def decimal_value_def
      digits_value_def)

lemma getUsageStats_example_env:
  "getUsageStats (example_env (js ''200'')) 1700000000000 (js ''dev1'') =
     Inr \<lparr>daily = Fin 200, monthly = Fin 3000\<rparr>"
  "getUsageStats (example_env (js ''199'')) 1700000000000 (js ''dev1'') =
     Inr \<lparr>daily = Fin 199, monthly = Fin 3000\<rparr>"
  by (simp_all add: getUsageStats_def usage_keys_example example_env_get usage_count_def
      parseInt10_examples parseInt10_3000)

lemma login_request_params:
  "searchParams_get login_request (js ''app_id'') = Some (js ''app1'')"
  "searchParams_get login_request (js ''provider'') = Some (js ''wechat'')"
  "searchParams_get login_request (js ''redirect'') = Some (js ''/home'')"
  by (simp_all add: searchParams_get_def login_request_def)

lemma toISOString_example: "toISOString 1700000000000 = js ''2023-11-14T22:13:20.000Z''"
  by code_simp

lemma example_world_fields:
  "parse_URL example_world i None = Some i"
  "parse_URL example_world i (Some b) = Some (b @ i)"
  "toLowerCase example_world n = n"
  "engine_message example_world e = js ''error''"
  "format_number example_world = (\<lambda>r. [])"
  "random_bytes example_world k = replicate k 0"
  "exchangeCodeForToken_result example_world p (js ''bad'') c u =
     Inl (Error (js ''Failed to exchange code for token''))"
  "exchangeCodeForToken_result example_world p (js ''good'') c u =
     Inr (JObj [(js ''access_token'', JStr (js ''tok'')), (js ''openid'', JStr (js ''o1''))])"
  "getUserInfo_result example_world p t c =
     Inr (JObj [(js ''openid'', JStr (js ''o1'')), (js ''nickname'', JStr (js ''Li''))])"
  "getOrCreateUser_result example_world a key v = Inr (JObj [(js ''id'', JStr (js ''u1''))])"
  by (simp_all add: example_world_def)

lemma decodeState_example:
  "decodeState 1700000000000 example_token =
     Some (state_object (js ''app1'') (js ''wechat'') (js ''/home'') (js ''abcd'') 1700000000000)"
  using decodeState_encodeState [OF encodeState_examples(1), of 1700000000000] by simp

lemma callback_request_params:
  "callback_code (callback_request (js ''bad'')) = Some (js ''bad'')"
  "callback_code (callback_request (js ''good'')) = Some (js ''good'')"
  "searchParams_get (callback_request c) (js ''state'') = Some example_token"
  "callback_url (callback_request c) = js ''https://gateway.example/auth/callback''"
  by (simp_all add: callback_code_def searchParams_get_def callback_request_def callback_url_def
      js_append)

lemma example_token_not_Nil: "example_token \<noteq> []"
  by (simp add: example_token_def)

lemma getProvider_example: "getProvider example_world (js ''wechat'') = Adapter WeChatProvider"
  by (simp add: getProvider_def registry_def example_world_fields)

lemma find_provider_example:
  "find (\<lambda>c. JStr (provider c) = JStr (js ''wechat'')) (providers example_config) =
     Some \<lparr>provider = js ''wechat'', client_id = js ''wx1'', client_secret = js ''secret'',
           extra = JUndefined, enabled = True\<rparr>"
  "find (\<lambda>c. provider c = js ''wechat'') (providers example_config) =
     Some \<lparr>provider = js ''wechat'', client_id = js ''wx1'', client_secret = js ''secret'',
           extra = JUndefined, enabled = True\<rparr>"
  by (simp_all add: example_config_fields)

lemma to_string_state_fields:
  "to_string fmt (js_field (state_object a p r n t) (js ''app_id'')) = Inr a"
  "to_string fmt (js_field (state_object a p r n t) (js ''redirect'')) = Inr r"
  "\<not> no_primitive (js_field (state_object a p r n t) (js ''app_id''))"
  "\<not> no_primitive (js_field (state_object a p r n t) (js ''provider''))"
  by (simp_all add: state_object_fields)

lemma handleCallback_try_bad:
  "handleCallback_try example_world (example_env d) 1700000000000 (callback_request (js ''bad''))
     (js ''bad'')
     (state_object (js ''app1'') (js ''wechat'') (js ''/home'') (js ''abcd'') 1700000000000) =
   (Inl (Error (js ''Failed to exchange code for token'')), example_env d,
    [ExchangeCodeForToken WeChatProvider])"
  by (simp add: handleCallback_try_def to_string_state_fields state_object_fields
      getAppConfig_example find_provider_example getProvider_example resolve_identity_def
      callback_request_params example_world_fields)

lemma handleCallback_catch_example:
  "handleCallback_catch example_world (example_env d) 1700000000000
     (state_object (js ''app1'') (js ''wechat'') (js ''/home'') (js ''abcd'') 1700000000000)
     (Error (js ''Failed to exchange code for token'')) =
   (RedirectResponse
      (URL (js ''https://app.example/home'')
         [(js ''error'', JStr (js ''oauth_failed'')),
          (js ''error_description'', JStr (js ''Failed to exchange code for token''))] []) 302,
    example_env d)"
  by (simp add: handleCallback_catch_def to_string_state_fields getAppConfig_example
      example_config_fields message_or_def error_message_def redirectWithError_def
      example_world_fields js_append)

lemma handleCallback_bad:
  "handleCallback example_world (example_env d) 1700000000000 (callback_request (js ''bad'')) =
   (Inr (RedirectResponse
      (URL (js ''https://app.example/home'')
         [(js ''error'', JStr (js ''oauth_failed'')),
          (js ''error_description'', JStr (js ''Failed to exchange code for token''))] []) 302),
    example_env d, [ExchangeCodeForToken WeChatProvider])"
  by (simp add: handleCallback_def callback_request_params example_token_not_Nil
      decodeState_example handleCallback_try_bad handleCallback_catch_example
      to_string_state_fields)


lemma ttl_examples:
  "ttl_seconds (setUTCHours_end 1700000000000) 1700000000000 = Fin 6399"
  "ttl_seconds (Date_last_ms_before_month (getUTCFullYear 1700000000000)
      (getUTCMonth 1700000000000 + 1)) 1700000000000 = Fin 1388799"
  by code_simp+

lemma number_to_string_examples:
  "number_to_string fmt (Fin 200) = js ''200''"
  "number_to_string fmt (Fin 3001) = js ''3001''"
  by (simp_all add: number_to_string_def is_integral_def decimal.simps js_def)

lemma example_env_reachable: "reachable (APP_CACHE (example_env d))"
  by (simp add: example_env_def env_of_def kv_of_def)

lemma incrementUsage_example:
  "incrementUsage fmt (example_env (js ''199'')) 1700000000000 (js ''dev1'') =
     (None, incremented_env)"
  by (simp add: incrementUsage_def getUsageStats_example_env usage_keys_example ttl_examples
      number_to_string_examples kv_put_def example_env_reachable incremented_env_def)

lemma WeChat_normalizeUser_example:
  "WeChat_normalizeUser (JObj [(js ''openid'', JStr (js ''o1'')), (js ''nickname'', JStr (js ''Li''))]) =
     Inr (JObj
        [(js ''provider'', JStr (js ''wechat'')),
         (js ''openid'', JStr (js ''o1'')),
         (js ''unionid'', JUndefined),
         (js ''nickname'', JStr (js ''Li'')),
         (js ''avatar'', JUndefined),
         (js ''gender'', JStr (js ''unknown'')),
         (js ''raw'', JObj [(js ''openid'', JStr (js ''o1'')), (js ''nickname'', JStr (js ''Li''))])])"
  by (simp add: WeChat_normalizeUser_def nullish_def js_field_JObj js_or_def)

lemma handleCallback_good:
  "handleCallback example_world (example_env (js ''199'')) 1700000000000
     (callback_request (js ''good'')) =
   (Inr (RedirectResponse
      (URL (js ''https://app.example/home'')
         [(js ''provider'', JStr (js ''wechat'')), (js ''user_id'', JStr (js ''u1'')),
          (js ''openid'', JStr (js ''o1'')), (js ''nickname'', JStr (js ''Li'')),
          (js ''avatar'', JStr [])] []) 302),
    incremented_env,
    [ExchangeCodeForToken WeChatProvider, GetUserInfo WeChatProvider, GetOrCreateUser,
     IncrementUsage (js ''dev1'')])"
  by (simp add: handleCallback_def callback_request_params example_token_not_Nil
      decodeState_example handleCallback_try_def to_string_state_fields state_object_fields
      getAppConfig_example find_provider_example getProvider_example resolve_identity_def
      example_world_fields WeChat_normalizeUser_example example_config_fields
      incrementUsage_example js_field_JObj js_or_def js_append)

lemma latin1_generateNonce_zero: "latin1 (generateNonce (replicate k 0))"
  by (induction k) (simp_all add: generateNonce_def hex_char_def)

lemma login_callback_url: "callback_url login_request = js ''https://gateway.example/auth/callback''"
  by (simp add: callback_url_def login_request_def js_append)

lemma checkLimits_example:
  "checkLimits fmt (example_env (js ''199'')) 1700000000000 (js ''dev1'') (JStr (js ''free'')) =
     Inr \<lparr>allowed = True, reason = None, required_plan = None,
          current_usage = Some \<lparr>daily = Fin 199, monthly = Fin 3000\<rparr>\<rparr>"
  by (simp add: checkLimits_def getUsageStats_example_env PLAN_CONFIG_free)

lemma handleLogin_allowed:
  assumes "encodeState 1700000000000 (js ''app1'') (js ''wechat'') (js ''/home'')
             (generateNonce (replicate 32 0)) = Inr tok"
  shows "handleLogin example_world (example_env (js ''199'')) 1700000000000 login_request =
   (RedirectResponse
      (buildAuthURL WeChatProvider
         \<lparr>provider = js ''wechat'', client_id = js ''wx1'', client_secret = js ''secret'',
           extra = JUndefined, enabled = True\<rparr>
         (js ''https://gateway.example/auth/callback'') tok) 302,
    example_env (js ''199''), [CheckLimits (js ''dev1''), BuildAuthURL WeChatProvider])"
  using assms
  by (simp add: handleLogin_def login_request_params handleLogin_try_def getAppConfig_example
      example_config_fields getDeveloperPlan_example checkLimits_example login_redirect_def
      find_provider_example getProvider_example example_world_fields NONCE_LENGTH_def
      login_callback_url js_append)

text \<open>
  C2. The usage counters are incremented only after the identity exchange and resolution
  have succeeded. For every run of handleCallback: either incrementUsage is not among the
  operations performed and the daily and monthly counters of every owner are as before, or
  the request carried a code and a state that decodes, the configuration, the provider
  entry and the adapter were found, exchangeCodeForToken, getUserInfo, normalizeUser and
  getOrCreateUser all returned, and the operations are exactly these in this order followed
  by the one incrementUsage for the owner. On the login leg, whenever handleLogin answers
  with a redirect, the operations are the admission check followed by buildAuthURL, and
  the check returned allowed.
\<close>

theorem usage_incremented_only_after_identity_resolution:
  "(handleCallback w env now request = (response, env', ops) \<longrightarrow>
      ((\<forall>dev. IncrementUsage dev \<notin> set ops) \<and> usage_unchanged now env env')
      \<or> (\<exists>code stateStr state app_id p providerConfig (appConfig::AppConfig) env1 tokenResponse
            rawUserInfo normalizedUser user.
             callback_code request = Some code
           \<and> searchParams_get request (js ''state'') = Some stateStr
           \<and> decodeState now stateStr = Some state
           \<and> to_string (format_number w) (js_field state (js ''app_id'')) = Inr app_id
           \<and> getAppConfig w env app_id = (Inr (Some appConfig), env1)
           \<and> find (\<lambda>c. JStr (provider c) = js_field state (js ''provider'')) (providers appConfig)
               = Some providerConfig
           \<and> getProvider w (provider providerConfig) = Adapter p
           \<and> exchangeCodeForToken_result w p code providerConfig (callback_url request)
               = Inr tokenResponse
           \<and> getUserInfo_result w p tokenResponse providerConfig = Inr rawUserInfo
           \<and> normalizeUser (format_number w) p rawUserInfo = Inr normalizedUser
           \<and> getOrCreateUser_result w (supabase_url appConfig) (supabase_service_role appConfig)
                normalizedUser = Inr user
           \<and> ops = [ExchangeCodeForToken p, GetUserInfo p, GetOrCreateUser,
                     IncrementUsage (developer_id appConfig)]))
   \<and> (handleLogin w env now request = (RedirectResponse url st, env', ops) \<longrightarrow>
        (\<exists>(appConfig::AppConfig) plan limitCheck p.
           ops = [CheckLimits (developer_id appConfig), BuildAuthURL p]
         \<and> checkLimits (format_number w) env' now (developer_id appConfig) plan = Inr limitCheck
         \<and> allowed limitCheck))"
proof (intro conjI impI)
  assume h: "handleCallback w env now request = (response, env', ops)"
  let ?A = "(\<forall>dev. IncrementUsage dev \<notin> set ops) \<and> usage_unchanged now env env'"
  let ?B = "\<exists>code stateStr state app_id p providerConfig (appConfig::AppConfig) env1 tokenResponse
            rawUserInfo normalizedUser user.
             callback_code request = Some code
           \<and> searchParams_get request (js ''state'') = Some stateStr
           \<and> decodeState now stateStr = Some state
           \<and> to_string (format_number w) (js_field state (js ''app_id'')) = Inr app_id
           \<and> getAppConfig w env app_id = (Inr (Some appConfig), env1)
           \<and> find (\<lambda>c. JStr (provider c) = js_field state (js ''provider'')) (providers appConfig)
               = Some providerConfig
           \<and> getProvider w (provider providerConfig) = Adapter p
           \<and> exchangeCodeForToken_result w p code providerConfig (callback_url request)
               = Inr tokenResponse
           \<and> getUserInfo_result w p tokenResponse providerConfig = Inr rawUserInfo
           \<and> normalizeUser (format_number w) p rawUserInfo = Inr normalizedUser
           \<and> getOrCreateUser_result w (supabase_url appConfig) (supabase_service_role appConfig)
                normalizedUser = Inr user
           \<and> ops = [ExchangeCodeForToken p, GetUserInfo p, GetOrCreateUser,
                     IncrementUsage (developer_id appConfig)]"
  show "?A \<or> ?B"
  proof (cases "\<exists>code stateStr state. callback_code request = Some code
        \<and> searchParams_get request (js ''state'') = Some stateStr \<and> code \<noteq> [] \<and> stateStr \<noteq> []
        \<and> decodeState now stateStr = Some state")
    case False
    then have "ops = [] \<and> env' = env"
      using h
      by (auto simp add: handleCallback_def split: option.splits if_splits)
    then show ?thesis by (simp add: usage_unchanged_refl)
  next
    case True
    then obtain code stateStr state where c: "callback_code request = Some code"
      "searchParams_get request (js ''state'') = Some stateStr" "code \<noteq> []" "stateStr \<noteq> []"
      "decodeState now stateStr = Some state"
      by blast
    show ?thesis
    proof (cases "no_primitive (js_field state (js ''app_id''))
        \<or> no_primitive (js_field state (js ''provider''))")
      case True
      then have "ops = [] \<and> env' = env"
        using h c by (auto simp add: handleCallback_def)
      then show ?thesis by (simp add: usage_unchanged_refl)
    next
      case False
    obtain r1 env1 ops1 where t: "handleCallback_try w env now request code state = (r1, env1, ops1)"
      by (cases "handleCallback_try w env now request code state") auto
    have o: "ops = ops1" and u: "usage_unchanged now env1 env'"
      using h c t False
      by (auto simp add: handleCallback_def usage_unchanged_refl
          dest: handleCallback_catch_usage split: sum.splits prod.splits)
    from handleCallback_try_shape [OF t]
    show ?thesis
    proof
      assume a: "(\<forall>dev. IncrementUsage dev \<notin> set ops1) \<and> usage_unchanged now env env1"
      then have "usage_unchanged now env env'"
        using u usage_unchanged_trans by blast
      then show ?thesis using a o by simp
    next
      assume "\<exists>app_id p providerConfig (appConfig::AppConfig) env1 tokenResponse rawUserInfo
             normalizedUser user.
             to_string (format_number w) (js_field state (js ''app_id'')) = Inr app_id
           \<and> getAppConfig w env app_id = (Inr (Some appConfig), env1)
           \<and> find (\<lambda>c. JStr (provider c) = js_field state (js ''provider'')) (providers appConfig)
               = Some providerConfig
           \<and> getProvider w (provider providerConfig) = Adapter p
           \<and> exchangeCodeForToken_result w p code providerConfig (callback_url request)
               = Inr tokenResponse
           \<and> getUserInfo_result w p tokenResponse providerConfig = Inr rawUserInfo
           \<and> normalizeUser (format_number w) p rawUserInfo = Inr normalizedUser
           \<and> getOrCreateUser_result w (supabase_url appConfig) (supabase_service_role appConfig)
                normalizedUser = Inr user
           \<and> ops1 = [ExchangeCodeForToken p, GetUserInfo p, GetOrCreateUser,
                     IncrementUsage (developer_id appConfig)]"
      then have ?B using c(1,2,5) o by blast
      then show ?thesis by (rule disjI2)
    qed
    qed
  qed
next
  assume h: "handleLogin w env now request = (RedirectResponse url st, env', ops)"
  then obtain a pn r where "handleLogin_try w env now request a pn r
      = (Inr (RedirectResponse url st), env', ops)"
    by (auto simp add: handleLogin_def createErrorResponse_def
        split: option.splits if_splits sum.splits prod.splits)
  then show "\<exists>(appConfig::AppConfig) plan limitCheck p.
           ops = [CheckLimits (developer_id appConfig), BuildAuthURL p]
         \<and> checkLimits (format_number w) env' now (developer_id appConfig) plan = Inr limitCheck
         \<and> allowed limitCheck"
    by (rule handleLogin_try_redirect)
qed

theorem usage_incremented_only_after_identity_resolution_witness:
  "handleCallback example_world (example_env (js ''199'')) 1700000000000
       (callback_request (js ''bad'')) =
     (Inr (RedirectResponse
        (URL (js ''https://app.example/home'')
           [(js ''error'', JStr (js ''oauth_failed'')),
            (js ''error_description'', JStr (js ''Failed to exchange code for token''))] []) 302),
      example_env (js ''199''), [ExchangeCodeForToken WeChatProvider])
   \<and> usage_unchanged 1700000000000 (example_env (js ''199'')) (example_env (js ''199''))
   \<and> handleCallback example_world (example_env (js ''199'')) 1700000000000
       (callback_request (js ''good'')) =
     (Inr (RedirectResponse
        (URL (js ''https://app.example/home'')
           [(js ''provider'', JStr (js ''wechat'')), (js ''user_id'', JStr (js ''u1'')),
            (js ''openid'', JStr (js ''o1'')), (js ''nickname'', JStr (js ''Li'')),
            (js ''avatar'', JStr [])] []) 302),
      incremented_env,
      [ExchangeCodeForToken WeChatProvider, GetUserInfo WeChatProvider, GetOrCreateUser,
       IncrementUsage (js ''dev1'')])
   \<and> (\<exists>providerConfig tokenResponse rawUserInfo normalizedUser user.
         exchangeCodeForToken_result example_world WeChatProvider (js ''good'') providerConfig
           (callback_url (callback_request (js ''good''))) = Inr tokenResponse
       \<and> getUserInfo_result example_world WeChatProvider tokenResponse providerConfig
           = Inr rawUserInfo
       \<and> normalizeUser (format_number example_world) WeChatProvider rawUserInfo
           = Inr normalizedUser
       \<and> getOrCreateUser_result example_world (supabase_url example_config)
            (supabase_service_role example_config) normalizedUser = Inr user)
   \<and> (\<exists>tok. handleLogin example_world (example_env (js ''199'')) 1700000000000 login_request =
          (RedirectResponse
             (buildAuthURL WeChatProvider
                \<lparr>provider = js ''wechat'', client_id = js ''wx1'', client_secret = js ''secret'',
                  extra = JUndefined, enabled = True\<rparr>
                (js ''https://gateway.example/auth/callback'') tok) 302,
           example_env (js ''199''), [CheckLimits (js ''dev1''), BuildAuthURL WeChatProvider])
        \<and> (\<exists>plan limitCheck.
              checkLimits (format_number example_world) (example_env (js ''199'')) 1700000000000
                (js ''dev1'') plan = Inr limitCheck
            \<and> allowed limitCheck))"
proof -
  note t = usage_incremented_only_after_identity_resolution
  have a: "usage_unchanged 1700000000000 (example_env (js ''199'')) (example_env (js ''199''))"
    using t [THEN conjunct1, THEN mp, OF handleCallback_bad [of "js ''199''"]] by simp
  have b: "\<exists>providerConfig tokenResponse rawUserInfo normalizedUser user.
         exchangeCodeForToken_result example_world WeChatProvider (js ''good'') providerConfig
           (callback_url (callback_request (js ''good''))) = Inr tokenResponse
       \<and> getUserInfo_result example_world WeChatProvider tokenResponse providerConfig
           = Inr rawUserInfo
       \<and> normalizeUser (format_number example_world) WeChatProvider rawUserInfo
           = Inr normalizedUser
       \<and> getOrCreateUser_result example_world (supabase_url example_config)
            (supabase_service_role example_config) normalizedUser = Inr user"
    using t [THEN conjunct1, THEN mp, OF handleCallback_good]
    apply (elim disjE)
     apply simp
    apply (elim exE conjE)
    apply (clarsimp simp add: callback_request_params decodeState_example to_string_state_fields
        getAppConfig_example)
    apply blast
    done
  obtain tok where tok: "encodeState 1700000000000 (js ''app1'') (js ''wechat'') (js ''/home'')
             (generateNonce (replicate 32 0)) = Inr tok"
    using encodeState_latin1 [OF latin1_js latin1_js latin1_js latin1_generateNonce_zero]
    by blast
  note h = handleLogin_allowed [OF tok]
  have "\<exists>plan limitCheck.
              checkLimits (format_number example_world) (example_env (js ''199'')) 1700000000000
                (js ''dev1'') plan = Inr limitCheck
            \<and> allowed limitCheck"
    using t [THEN conjunct2, THEN mp, OF h] by (elim exE conjE) (simp, blast)
  with h have c: "\<exists>tok. handleLogin example_world (example_env (js ''199'')) 1700000000000 login_request =
          (RedirectResponse
             (buildAuthURL WeChatProvider
                \<lparr>provider = js ''wechat'', client_id = js ''wx1'', client_secret = js ''secret'',
                  extra = JUndefined, enabled = True\<rparr>
                (js ''https://gateway.example/auth/callback'') tok) 302,
           example_env (js ''199''), [CheckLimits (js ''dev1''), BuildAuthURL WeChatProvider])
        \<and> (\<exists>plan limitCheck.
              checkLimits (format_number example_world) (example_env (js ''199'')) 1700000000000
                (js ''dev1'') plan = Inr limitCheck
            \<and> allowed limitCheck)"
    by - (rule exI [where x = tok], rule conjI, assumption+)
  show ?thesis
    using a b c handleCallback_bad [of "js ''199''"] handleCallback_good
    by (intro conjI)
qed

text \<open>
  C5. For a login request with its three parameters, for an application whose owner's
  plan is a key of PLAN_CONFIG and whose daily count read from the store is at or above
  the plan's daily limit, handleLogin returns status 429 with the body
  error = "LIMIT_EXCEEDED", error_description = "Daily limit exceeded", current_plan,
  required_plan = the next tier (getRecommendedPlan of the plan; undefined, and so left
  out of the JSON text, for the last tier), current_usage and timestamp; the only
  operation performed is the admission check: no buildAuthURL and no provider call.
\<close>

theorem handleLogin_at_daily_limit:
  assumes "searchParams_get request (js ''app_id'') = Some app_id"
    and "searchParams_get request (js ''provider'') = Some provider_name"
    and "searchParams_get request (js ''redirect'') = Some redirect"
    and "app_id \<noteq> []" and "provider_name \<noteq> []" and "redirect \<noteq> []"
    and "getAppConfig w env app_id = (Inr (Some appConfig), env1)"
    and "getDeveloperPlan (fetch_outcome w) env1 (developer_id appConfig) = (Inr (JStr plan), env2)"
    and "PLAN_CONFIG plan = Some limits"
    and "getUsageStats env2 now (developer_id appConfig) = Inr usage"
    and "js_ge (daily usage) (Fin (of_int (PlanLimits.daily limits)))"
  shows "handleLogin w env now request =
           (JsonResponse 429
              [(js ''error'', JStr (js ''LIMIT_EXCEEDED'')),
               (js ''error_description'', JStr (js ''Daily limit exceeded'')),
               (js ''current_plan'', JStr plan),
               (js ''required_plan'',
                  (case getRecommendedPlan plan of None \<Rightarrow> JUndefined | Some next_plan \<Rightarrow> JStr next_plan)),
               (js ''current_usage'',
                  JObj [(js ''daily'', JNum (daily usage)), (js ''monthly'', JNum (monthly usage))]),
               (js ''timestamp'', JStr (toISOString now))],
            env2, [CheckLimits (developer_id appConfig)])"
proof -
  have c: "checkLimits (format_number w) env2 now (developer_id appConfig) (JStr plan) =
      Inr \<lparr>allowed = False, reason = Some (js ''Daily limit exceeded''),
           required_plan = getRecommendedPlan plan, current_usage = Some usage\<rparr>"
    using assms(9-11) recommended_plan_JStr [OF assms(9)]
    by (simp add: checkLimits_def)
  show ?thesis
    using assms(1-8) c
    by (simp add: handleLogin_def handleLogin_try_def limit_exceeded_response_def usage_value_def)
qed

theorem handleLogin_at_daily_limit_witness:
  "handleLogin example_world (example_env (js ''200'')) 1700000000000 login_request =
     (JsonResponse 429
        [(js ''error'', JStr (js ''LIMIT_EXCEEDED'')),
         (js ''error_description'', JStr (js ''Daily limit exceeded'')),
         (js ''current_plan'', JStr (js ''free'')),
         (js ''required_plan'', JStr (js ''pro'')),
         (js ''current_usage'',
            JObj [(js ''daily'', JNum (Fin 200)), (js ''monthly'', JNum (Fin 3000))]),
         (js ''timestamp'', JStr (js ''2023-11-14T22:13:20.000Z''))],
      example_env (js ''200''), [CheckLimits (js ''dev1'')])"
  using handleLogin_at_daily_limit [OF login_request_params _ _ _ getAppConfig_example
      getDeveloperPlan_example [unfolded example_config_fields(1) [symmetric]] PLAN_CONFIG_free
      getUsageStats_example_env(1) [unfolded example_config_fields(1) [symmetric]]]
  by (simp add: getRecommendedPlan_values toISOString_example example_config_fields)

subsection \<open>Values outside the declared types\<close>

text \<open>
  A plan that is the name of a member of \<open>Object.prototype\<close> is admitted whatever the
  counts are; a plan that is no member at all raises TypeError.
\<close>

lemma checkLimits_inherited_member:
  assumes "getUsageStats env now developerId = Inr usage"
  shows "checkLimits fmt env now developerId (JStr (js ''constructor'')) =
           Inr \<lparr>allowed = True, reason = None, required_plan = None, current_usage = Some usage\<rparr>"
    and "checkLimits fmt env now developerId (JStr (js ''gold'')) = Inl TypeError"
  using assms
  by (simp_all add: checkLimits_def PLAN_CONFIG_def Object_prototype_member_def)

text \<open>
  A token whose timestamp is an object with an own property \<open>toString\<close> is invalid: the
  subtraction raises TypeError, which decodeState catches.
\<close>

lemma decodeState_timestamp_without_primitive:
  assumes "atob s = Inr payload" and "JSON_parse payload = Inr d"
    and "js_field d (js ''timestamp'') = JObj kvs" and "js ''toString'' \<in> set (map fst kvs)"
  shows "decodeState now s = None"
  using assms by (simp add: decodeState_def state_expired_def to_number_def)

text \<open>
  The decimals of a JSON text are rounded to doubles: a positive number below the least
  double is 0, and a timestamp a fraction of a millisecond before 1699999400000 is
  1699999400000.
\<close>

lemma to_double_examples:
  "to_double (1 / 10 ^ 400) = Fin 0"
  "to_double (169999939999999999 / 100000) = Fin 1699999400000"
proof -
  show "to_double (1 / 10 ^ 400) = Fin 0"
    by (rule to_double_underflow) simp_all
  show "to_double (169999939999999999 / 100000) = Fin 1699999400000"
    by code_simp
qed

text \<open>A write with a time to live under 60 seconds is refused.\<close>

lemma kv_put_short_ttl:
  "reachable kv \<Longrightarrow> t < 60 \<Longrightarrow> kv_put kv key v (Some (Fin t)) = Inl InvalidExpirationTtl"
  by (simp add: kv_put_def)

text \<open>
  handleCallback throws, outside its \<open>try\<close> block, when the app_id or the provider of
  the decoded state has no primitive value.
\<close>

lemma handleCallback_throws:
  assumes "callback_code request = Some code" and "code \<noteq> []"
    and "searchParams_get request (js ''state'') = Some stateStr" and "stateStr \<noteq> []"
    and "decodeState now stateStr = Some state"
    and "js_field state (js ''app_id'') = JObj kvs" and "js ''toString'' \<in> set (map fst kvs)"
  shows "handleCallback w env now request = (Inl TypeError, env, [])"
  using assms by (simp add: handleCallback_def)


end
